theory Spec2Isabelle
  imports Complex_Main "HOL-Library.Word" "HOL-Library.AList" "HOL-Library.Signed_Division"
begin

section \<open>Constant propagation of ONNX operations (src/Transform/ONNX/ConstProp.cpp)\<close>

text \<open>
  A shallow embedding of the rewriters of ConstProp.cpp. Every function of the embedding
  keeps the name of the C++ function it translates.

  \<^item> C++ integers are HOL integers; where the source narrows or converts a value (the
    \<open>int\<close> accumulator of \<open>std::accumulate\<close>, the element types of a tensor,
    \<open>size_t\<close> against \<open>int64_t\<close>) the wrap-around is written out, and an overflow of
    signed arithmetic is undefined behaviour. Division is the truncating division of C++
    (\<open>sdiv\<close>, \<open>smod\<close>).
  \<^item> The counters are \<open>size_t\<close> values, here 64-bit words.
  \<^item> \<open>assert\<close>, \<open>llvm_unreachable\<close> and undefined behaviour (a read or write out of
    bounds, a division by zero) end the compilation, and a loop without progress never
    returns: they are the values of the type \<open>abort\<close>, and every rewriter returns either
    an abort or its new counter map and result. Assertions are taken as enabled.
  \<^item> A pattern that does not apply returns \<open>failure()\<close>, here \<open>None\<close>.
\<close>

subsection \<open>Aborts\<close>

datatype abort =
    AssertFailed string
  | Unreachable string
  | UndefinedBehaviour string
  | Diverges string

subsection \<open>Machine integers\<close>

text \<open>
  The value of an integer converted to \<open>size_t\<close> (unsigned, 64 bits) and to \<open>int64_t\<close>,
  and the range of \<open>int64_t\<close>, outside of which signed arithmetic has no defined result.
\<close>

definition to_size_t :: "int \<Rightarrow> int" where
  "to_size_t x = take_bit 64 x"

definition to_int64 :: "int \<Rightarrow> int" where
  "to_int64 x = signed_take_bit 63 x"

definition fits_int64 :: "int \<Rightarrow> bool" where
  "fits_int64 x = (- (2 ^ 63) \<le> x \<and> x < 2 ^ 63)"

text \<open>
  A shape all of whose products of extents are values of \<open>int64_t\<close>, in whatever
  order they are multiplied: the product of the extents other than 0 is one.
\<close>

definition fits_shape :: "int list \<Rightarrow> bool" where
  "fits_shape shp = (prod_list (map (max 1) shp) < 2 ^ 63)"

subsection \<open>Types, element attributes, constants and values\<close>

datatype elem_type =
  I1 | I8 | I16 | I32 | I64 | UI8 | UI16 | UI32 | UI64 | F16 | BF16 | F32 | F64

text \<open>The type of a value. A negative extent of a ranked tensor type is a dynamic one.\<close>

datatype mtype =
    RankedTensorType "int list" elem_type
  | UnrankedTensorType elem_type
  | NoneType

text \<open>
  An ElementsAttr: a static shape, an element type and the elements in row-major order.
  The element values are wide numbers for data and 64-bit integers for index tensors.
\<close>

record 'a ElementsAttr =
  shape :: "int list"
  elementType :: elem_type
  elems :: "'a list"

definition getType :: "'a ElementsAttr \<Rightarrow> mtype" where
  "getType e = RankedTensorType (shape e) (elementType e)"

text \<open>\<open>ShapedType::getNumElements\<close>: the product of the extents, 1 for rank 0.\<close>

definition getNumElements :: "int list \<Rightarrow> int" where
  "getNumElements shp = prod_list shp"

text \<open>\<open>ElementsAttr::size\<close> and \<open>ElementsAttr::empty\<close> are read from the type.\<close>

definition size_of :: "'a ElementsAttr \<Rightarrow> int" where
  "size_of e = getNumElements (shape e)"

definition empty_attr :: "'a ElementsAttr \<Rightarrow> bool" where
  "empty_attr e = (size_of e = 0)"

text \<open>Well-formed elements: static extents and one element for each position.\<close>

definition wf_elements :: "'a ElementsAttr \<Rightarrow> bool" where
  "wf_elements e = (list_all (\<lambda>d. 0 \<le> d) (shape e) \<and> int (length (elems e)) = size_of e)"

record 'a ONNXConstantOp =
  resultType :: mtype
  valueAttr :: "'a ElementsAttr"

text \<open>
  A value is the result of a dense ONNXConstantOp or anything else, of which only the
  type is known. The result of a NoneOp is \<open>OtherValue NoneType\<close>.
\<close>

datatype 'a Value =
    ConstantResult "'a ONNXConstantOp"
  | OtherValue mtype

fun typeOf :: "'a Value \<Rightarrow> mtype" where
  "typeOf (ConstantResult c) = resultType c"
| "typeOf (OtherValue t) = t"

fun isDenseONNXConstant :: "'a Value \<Rightarrow> bool" where
  "isDenseONNXConstant (ConstantResult c) = True"
| "isDenseONNXConstant (OtherValue t) = False"

text \<open>
  \<open>createReplacingConstantOp\<close>: the new constant takes the result type of
  \<open>replacingValue\<close> (here the type alone is passed) and holds \<open>elements\<close>.
\<close>

definition createReplacingConstantOp :: "mtype \<Rightarrow> 'a ElementsAttr \<Rightarrow> 'a ONNXConstantOp" where
  "createReplacingConstantOp replacingType elements =
     \<lparr>resultType = replacingType, valueAttr = elements\<rparr>"

subsection \<open>ConstPropCounters\<close>

record ConstPropCounters =
  invocations :: "64 word"
  input_elms :: "64 word"

text \<open>
  The static \<open>std::unordered_map\<close> from names to counters, as an association list with
  distinct keys. The iteration order of the C++ map is unspecified; the model iterates in
  the order of first insertion.
\<close>

type_synonym counter_map = "(string \<times> ConstPropCounters) list"

text \<open>
  \<open>getNumberOfElements\<close> of TypeUtilities is not part of the sources at hand.
  Modelled from the spec: the number of elements of a shaped type is the product of its
  extents (the empty product is 1); a type without a rank fails the helper's assertion.
\<close>

fun getNumberOfElements :: "mtype \<Rightarrow> abort + int" where
  "getNumberOfElements (RankedTensorType shp ty) = Inr (getNumElements shp)"
| "getNumberOfElements t = Inl (AssertFailed ''expected a shaped type with rank'')"

text \<open>\<open>map[name]\<close>: the entry of \<open>name\<close>, zero-initialised when the key is new.\<close>

definition entry_of :: "counter_map \<Rightarrow> string \<Rightarrow> ConstPropCounters" where
  "entry_of m name =
     (case map_of m name of
        None \<Rightarrow> \<lparr>invocations = 0, input_elms = 0\<rparr>
      | Some c \<Rightarrow> c)"

text \<open>The loop of \<open>count\<close> over the operands; the sum is taken in \<open>size_t\<close>.\<close>

fun add_input_elms :: "mtype list \<Rightarrow> 64 word \<Rightarrow> abort + 64 word" where
  "add_input_elms [] n = Inr n"
| "add_input_elms (t # ts) n =
     (case getNumberOfElements t of
        Inl e \<Rightarrow> Inl e
      | Inr k \<Rightarrow> add_input_elms ts (n + word_of_int k))"

definition count :: "string \<Rightarrow> mtype list \<Rightarrow> counter_map \<Rightarrow> abort + counter_map" where
  "count name operands m =
     (let counters = entry_of m name in
      case add_input_elms operands (input_elms counters) of
        Inl e \<Rightarrow> Inl e
      | Inr n \<Rightarrow>
          Inr (AList.update name \<lparr>invocations = invocations counters + 1, input_elms = n\<rparr> m))"

subsection \<open>Split\<close>

text \<open>
  A Split op: the declared types of its results, its input and its axis attribute. The
  split sizes are an operand of ONNXSplitOp and an optional attribute of ONNXSplitV11Op.
\<close>

record ('a, 's) SplitOp =
  splitResults :: "mtype list"
  splitInput :: "'a Value"
  splitAxis :: int
  splitSplit :: 's

text \<open>
  \<open>std::accumulate(splitSizes.begin(), splitSizes.end(), 0)\<close>: the initial value \<open>0\<close>
  is an \<open>int\<close>, so the accumulator is a 32-bit \<open>int\<close>: each step adds in 64 bits and
  stores the sum back into the \<open>int\<close>.
\<close>

definition to_int32 :: "int \<Rightarrow> int" where
  "to_int32 x = sint (word_of_int x :: 32 word)"

definition accumulate :: "int list \<Rightarrow> int" where
  "accumulate xs = foldl (\<lambda>init x. to_int32 (init + x)) 0 xs"

text \<open>
  The split sizes of ConstPropSplitPatternCommon with their assertions.
  \<open>ArrayAttrIntVal(splitAttr, i)\<close> reads entry \<open>i\<close> of the attribute, for
  \<open>i < numResults\<close>.
\<close>

definition splitSizes_of :: "nat \<Rightarrow> int \<Rightarrow> int list option \<Rightarrow> abort + int list" where
  "splitSizes_of numResults splitAxisSize splitAttr =
     (if numResults = 0 then Inl (UndefinedBehaviour ''division by zero'')
      else
        (case splitAttr of
           Some attr \<Rightarrow>
             if length attr < numResults
             then Inl (UndefinedBehaviour ''ArrayAttrIntVal: index out of range'')
             else
               (let splitSizes = take numResults attr in
                if splitAxisSize = accumulate splitSizes then Inr splitSizes
                else Inl (AssertFailed ''split values must sum to axis size''))
         | None \<Rightarrow>
             if splitAxisSize smod int numResults = 0
             then Inr (replicate numResults (splitAxisSize sdiv int numResults))
             else Inl (AssertFailed
               ''The dimension at the split axis is expected to be divisible by the number of results'')))"

text \<open>
  \<open>OnnxElementsAttrBuilder::split\<close> is not part of the sources at hand.
  Modelled from the spec: the sum of \<open>sizes\<close> must equal \<open>src.shape[axis]\<close> (an internal
  invariant: abort otherwise); it returns one Elements per size, each a contiguous slab
  along \<open>axis\<close>. With the input seen as \<open>outer \<times> axisSize \<times> inner\<close>, the slab that starts
  at \<open>start\<close> and has \<open>sz\<close> rows holds, for each outer position \<open>k\<close> in turn, the
  \<open>sz * inner\<close> elements from \<open>(k * axisSize + start) * inner\<close> on.
\<close>

definition slab :: "'a ElementsAttr \<Rightarrow> nat \<Rightarrow> nat \<Rightarrow> nat \<Rightarrow> 'a ElementsAttr" where
  "slab src axis start sz =
     (let outer = nat (getNumElements (take axis (shape src)));
          axisSize = nat (shape src ! axis);
          inner = nat (getNumElements (drop (Suc axis) (shape src)))
      in \<lparr>shape = (shape src)[axis := int sz],
          elementType = elementType src,
          elems = concat (map (\<lambda>k. take (sz * inner) (drop ((k * axisSize + start) * inner) (elems src)))
                              [0..<outer])\<rparr>)"

fun slabs :: "'a ElementsAttr \<Rightarrow> nat \<Rightarrow> nat \<Rightarrow> int list \<Rightarrow> 'a ElementsAttr list" where
  "slabs src axis start [] = []"
| "slabs src axis start (sz # sizes) =
     slab src axis start (nat sz) # slabs src axis (start + nat sz) sizes"

definition split :: "'a ElementsAttr \<Rightarrow> nat \<Rightarrow> int list \<Rightarrow> abort + 'a ElementsAttr list" where
  "split src axis sizes =
     (if length (shape src) \<le> axis then Inl (UndefinedBehaviour ''shape[axis] out of range'')
      else if sum_list sizes = shape src ! axis then Inr (slabs src axis 0 sizes)
      else Inl (AssertFailed ''split sizes must sum to axis size''))"

definition ConstPropSplitPatternCommon ::
  "('a, 's) SplitOp \<Rightarrow> int list option \<Rightarrow> counter_map
     \<Rightarrow> abort + counter_map \<times> 'a ONNXConstantOp list option" where
  "ConstPropSplitPatternCommon splitOp splitAttr cs =
     (let numResults = length (splitResults splitOp) in
      case splitInput splitOp of
        OtherValue t \<Rightarrow> Inr (cs, None)
      | ConstantResult inputOp \<Rightarrow>
          (case count ''Split'' [resultType inputOp] cs of
             Inl e \<Rightarrow> Inl e
           | Inr cs' \<Rightarrow>
               (case resultType inputOp of
                  RankedTensorType inputShape ty \<Rightarrow>
                    if splitAxis splitOp < 0 \<or> int (length inputShape) \<le> splitAxis splitOp
                    then Inl (UndefinedBehaviour ''inputShape[splitAxis] out of range'')
                    else
                      (case splitSizes_of numResults (inputShape ! nat (splitAxis splitOp)) splitAttr of
                         Inl e \<Rightarrow> Inl e
                       | Inr splitSizes \<Rightarrow>
                           (case split (valueAttr inputOp) (nat (splitAxis splitOp)) splitSizes of
                              Inl e \<Rightarrow> Inl e
                            | Inr resElements \<Rightarrow>
                                if length resElements < numResults
                                then Inl (UndefinedBehaviour ''resElements[i] out of range'')
                                else Inr (cs', Some (map (\<lambda>i. createReplacingConstantOp
                                                              (splitResults splitOp ! i) (resElements ! i))
                                                        [0..<numResults]))))
                | t \<Rightarrow> Inl (AssertFailed ''cast<ShapedType>''))))"

text \<open>
  ConstPropSplitPattern (ONNXSplitOp): the split operand is a constant, whose values
  become the attribute, or of NoneType; anything else is \<open>llvm_unreachable\<close>. The check
  comes before any look at the input.
\<close>

definition ConstPropSplitPattern ::
  "('a, int Value) SplitOp \<Rightarrow> counter_map \<Rightarrow> abort + counter_map \<times> 'a ONNXConstantOp list option" where
  "ConstPropSplitPattern splitOp cs =
     (case splitSplit splitOp of
        ConstantResult splitConstOp \<Rightarrow>
          ConstPropSplitPatternCommon splitOp (Some (elems (valueAttr splitConstOp))) cs
      | OtherValue t \<Rightarrow>
          if t \<noteq> NoneType then Inl (Unreachable ''dynamic split not yet supported'')
          else ConstPropSplitPatternCommon splitOp None cs)"

definition ConstPropSplitV11Pattern ::
  "('a, int list option) SplitOp \<Rightarrow> counter_map \<Rightarrow> abort + counter_map \<times> 'a ONNXConstantOp list option" where
  "ConstPropSplitV11Pattern splitOp cs = ConstPropSplitPatternCommon splitOp (splitSplit splitOp) cs"


subsection \<open>Wide numbers and the element-wise templates\<close>

text \<open>
  WideNum.hpp is not part of the sources at hand.
  Modelled from the spec: a wide number is a union of the largest scalar of each family:
  a signed 64-bit integer, an unsigned 64-bit integer, a 64-bit float and a boolean. The
  tag is implicit in C++ (the element type selects the member that is read); the model
  makes the member explicit, and reading another member than the one stored is undefined
  behaviour. Floating-point numbers are a type parameter, with the floating-point
  operations of C++ as fields of \<open>float_ops\<close>.
\<close>

datatype 'f WideNum = WideI64 int | WideU64 int | WideDbl 'f | WideBool bool

datatype family = SignedInt | UnsignedInt | FloatFamily | BoolFamily

fun familyOf :: "elem_type \<Rightarrow> family" where
  "familyOf I1 = BoolFamily"
| "familyOf I8 = SignedInt"
| "familyOf I16 = SignedInt"
| "familyOf I32 = SignedInt"
| "familyOf I64 = SignedInt"
| "familyOf UI8 = UnsignedInt"
| "familyOf UI16 = UnsignedInt"
| "familyOf UI32 = UnsignedInt"
| "familyOf UI64 = UnsignedInt"
| "familyOf F16 = FloatFamily"
| "familyOf BF16 = FloatFamily"
| "familyOf F32 = FloatFamily"
| "familyOf F64 = FloatFamily"

fun bitWidth :: "elem_type \<Rightarrow> nat" where
  "bitWidth I1 = 1"
| "bitWidth I8 = 8"
| "bitWidth I16 = 16"
| "bitWidth I32 = 32"
| "bitWidth I64 = 64"
| "bitWidth UI8 = 8"
| "bitWidth UI16 = 16"
| "bitWidth UI32 = 32"
| "bitWidth UI64 = 64"
| "bitWidth F16 = 16"
| "bitWidth BF16 = 16"
| "bitWidth F32 = 32"
| "bitWidth F64 = 64"

text \<open>The template parameter \<open>OP\<close> of the element-wise templates and of the reductions.\<close>

datatype onnx_op =
    ONNXAddOp | ONNXSubOp | ONNXMulOp | ONNXDivOp | ONNXMinOp | ONNXMaxOp
  | ONNXReduceMeanOp | ONNXNegOp | ONNXSqrtOp | ONNXReluOp

record 'f float_ops =
  float_binary :: "onnx_op \<Rightarrow> elem_type \<Rightarrow> 'f \<Rightarrow> 'f \<Rightarrow> 'f"
  float_unary :: "onnx_op \<Rightarrow> elem_type \<Rightarrow> 'f \<Rightarrow> 'f"
  float_divide :: "'f \<Rightarrow> int \<Rightarrow> 'f"
  float_of_int :: "int \<Rightarrow> 'f"

text \<open>Narrowing an integer to the C++ type of an integer element type, and back.\<close>

definition narrow :: "elem_type \<Rightarrow> int \<Rightarrow> int" where
  "narrow ty x =
     (if familyOf ty = SignedInt then signed_take_bit (bitWidth ty - 1) x
      else take_bit (bitWidth ty) x)"

text \<open>
  Arithmetic at the C++ type \<open>T\<close> of an integer element type. The operands of a type
  narrower than \<open>int\<close> are promoted to \<open>int\<close> (32 bits, signed) and the result is
  converted back to \<open>T\<close>; \<open>int32_t\<close> and \<open>int64_t\<close> compute at their own width, where
  a result out of range is undefined behaviour; \<open>uint32_t\<close> and \<open>uint64_t\<close> wrap around.
  \<open>value_of T r\<close> is the value of an expression whose exact result is \<open>r\<close>.
\<close>

definition value_of :: "elem_type \<Rightarrow> int \<Rightarrow> abort + int" where
  "value_of T r =
     (if familyOf T = SignedInt \<or> bitWidth T < 32 then
        (if - (2 ^ (max 32 (bitWidth T) - 1)) \<le> r \<and> r < 2 ^ (max 32 (bitWidth T) - 1)
         then Inr (narrow T r)
         else Inl (UndefinedBehaviour ''signed integer overflow''))
      else Inr (narrow T r))"

text \<open>
  \<open>ElementWiseBinaryOpImpl<OP, T>::eval\<close> on integers: the four arithmetic
  operators and \<open>std::min\<close>, \<open>std::max\<close>; any other \<open>OP\<close> is the primary
  template, \<open>llvm_unreachable\<close>.
\<close>

fun eval_binary_int :: "elem_type \<Rightarrow> onnx_op \<Rightarrow> int \<Rightarrow> int \<Rightarrow> abort + int" where
  "eval_binary_int T ONNXAddOp lhs rhs = value_of T (lhs + rhs)"
| "eval_binary_int T ONNXSubOp lhs rhs = value_of T (lhs - rhs)"
| "eval_binary_int T ONNXMulOp lhs rhs = value_of T (lhs * rhs)"
| "eval_binary_int T ONNXDivOp lhs rhs =
     (if rhs = 0 then Inl (UndefinedBehaviour ''division by zero'') else value_of T (lhs sdiv rhs))"
| "eval_binary_int T ONNXMinOp lhs rhs = Inr (min lhs rhs)"
| "eval_binary_int T ONNXMaxOp lhs rhs = Inr (max lhs rhs)"
| "eval_binary_int T OP lhs rhs = Inl (Unreachable ''unsupported op or type'')"

definition is_binary_op :: "onnx_op \<Rightarrow> bool" where
  "is_binary_op OP = (OP \<in> {ONNXAddOp, ONNXSubOp, ONNXMulOp, ONNXDivOp, ONNXMinOp, ONNXMaxOp})"

text \<open>
  \<open>elementwiseBinaryOpCombiner<OP>(elemType)\<close>, that is
  \<open>getWideNumWrappedTemplateFunction<ElementWiseBinaryOpImpl, OP>(elemType)\<close>.
  Modelled from the spec for the wrapper: each wide operand is narrowed to the C++ type
  \<open>T\<close> of the element type, \<open>eval\<close> is invoked and its result is widened back. For
  \<open>bool\<close> only Min and Max are specialised.
\<close>

definition elementwiseBinaryOpCombiner ::
  "'f float_ops \<Rightarrow> onnx_op \<Rightarrow> elem_type \<Rightarrow> 'f WideNum \<Rightarrow> 'f WideNum \<Rightarrow> abort + 'f WideNum" where
  "elementwiseBinaryOpCombiner fo OP elemType lhs rhs =
     (case (familyOf elemType, lhs, rhs) of
        (SignedInt, WideI64 x, WideI64 y) \<Rightarrow>
          (case eval_binary_int elemType OP (narrow elemType x) (narrow elemType y) of
             Inl e \<Rightarrow> Inl e
           | Inr r \<Rightarrow> Inr (WideI64 r))
      | (UnsignedInt, WideU64 x, WideU64 y) \<Rightarrow>
          (case eval_binary_int elemType OP (narrow elemType x) (narrow elemType y) of
             Inl e \<Rightarrow> Inl e
           | Inr r \<Rightarrow> Inr (WideU64 r))
      | (FloatFamily, WideDbl x, WideDbl y) \<Rightarrow>
          if is_binary_op OP then Inr (WideDbl (float_binary fo OP elemType x y))
          else Inl (Unreachable ''unsupported op or type'')
      | (BoolFamily, WideBool x, WideBool y) \<Rightarrow>
          if OP = ONNXMinOp then Inr (WideBool (x \<and> y))
          else if OP = ONNXMaxOp then Inr (WideBool (x \<or> y))
          else Inl (Unreachable ''unsupported op or type'')
      | _ \<Rightarrow> Inl (UndefinedBehaviour ''inactive member of a wide number''))"

subsection \<open>The builder's transform and reduce\<close>

fun mapM :: "('a \<Rightarrow> abort + 'b) \<Rightarrow> 'a list \<Rightarrow> abort + 'b list" where
  "mapM f [] = Inr []"
| "mapM f (x # xs) =
     (case f x of
        Inl e \<Rightarrow> Inl e
      | Inr y \<Rightarrow> (case mapM f xs of Inl e \<Rightarrow> Inl e | Inr ys \<Rightarrow> Inr (y # ys)))"

fun foldM :: "('a \<Rightarrow> 'a \<Rightarrow> abort + 'a) \<Rightarrow> 'a \<Rightarrow> 'a list \<Rightarrow> abort + 'a" where
  "foldM f a [] = Inr a"
| "foldM f a (x # xs) = (case f a x of Inl e \<Rightarrow> Inl e | Inr b \<Rightarrow> foldM f b xs)"

text \<open>
  \<open>OnnxElementsAttrBuilder::transform\<close> is not part of the sources at hand.
  Modelled from the spec: apply \<open>unaryFn\<close> elementwise; the shape is preserved; the
  output element type may differ from the input's.
\<close>

definition transform ::
  "'a ElementsAttr \<Rightarrow> elem_type \<Rightarrow> ('a \<Rightarrow> abort + 'a) \<Rightarrow> abort + 'a ElementsAttr" where
  "transform src outType unaryFn =
     (case mapM unaryFn (elems src) of
        Inl e \<Rightarrow> Inl e
      | Inr ys \<Rightarrow> Inr \<lparr>shape = shape src, elementType = outType, elems = ys\<rparr>)"

text \<open>Row-major positions: the multi-index of a linear position and back.\<close>

fun unravel :: "nat list \<Rightarrow> nat \<Rightarrow> nat list" where
  "unravel [] p = []"
| "unravel (d # ds) p = (p div prod_list ds) mod d # unravel ds (p mod prod_list ds)"

fun ravel :: "nat list \<Rightarrow> nat list \<Rightarrow> nat" where
  "ravel (d # ds) (i # is) = i * prod_list ds + ravel ds is"
| "ravel ds is = 0"

text \<open>The strides of a shape in row-major order: the products of the extents that follow.\<close>

fun row_major_strides :: "int list \<Rightarrow> int list" where
  "row_major_strides [] = []"
| "row_major_strides (d # ds) = prod_list ds # row_major_strides ds"

text \<open>
  \<open>OnnxElementsAttrBuilder::reduce\<close> is not part of the sources at hand.
  Modelled from the spec: \<open>axes\<close> are distinct absolute axes; for a non-empty input the
  reduction is a left fold along the collapsed axes in row-major order; \<open>keepDims\<close> true
  keeps the reduced axes as size 1, false removes them; an empty input has no value
  without an identity. Position \<open>p\<close> of the input belongs to the output position whose
  multi-index is that of \<open>p\<close> with the reduced coordinates set to 0.
\<close>

definition reduce_dims :: "int list \<Rightarrow> nat list \<Rightarrow> int list" where
  "reduce_dims shp axes = map (\<lambda>i. if i \<in> set axes then 1 else shp ! i) [0..<length shp]"

definition reduce_shape :: "int list \<Rightarrow> nat list \<Rightarrow> bool \<Rightarrow> int list" where
  "reduce_shape shp axes keepDims =
     (if keepDims then reduce_dims shp axes
      else map (\<lambda>i. shp ! i) (filter (\<lambda>i. i \<notin> set axes) [0..<length shp]))"

definition project :: "int list \<Rightarrow> nat list \<Rightarrow> nat \<Rightarrow> nat" where
  "project shp axes p =
     ravel (map nat (reduce_dims shp axes))
       (map (\<lambda>(i, c). if i \<in> set axes then 0 else c)
          (zip [0..<length shp] (unravel (map nat shp) p)))"

definition reduce ::
  "'a ElementsAttr \<Rightarrow> nat list \<Rightarrow> bool \<Rightarrow> ('a \<Rightarrow> 'a \<Rightarrow> abort + 'a) \<Rightarrow> abort + 'a ElementsAttr" where
  "reduce src axes keepDims combiner =
     (case mapM
        (\<lambda>q. case filter (\<lambda>p. project (shape src) axes p = q) [0..<length (elems src)] of
               [] \<Rightarrow> Inl (AssertFailed ''reduce of an empty tensor has no identity'')
             | p # ps \<Rightarrow> foldM combiner (elems src ! p) (map (\<lambda>p. elems src ! p) ps))
        [0..<nat (getNumElements (reduce_dims (shape src) axes))] of
        Inl e \<Rightarrow> Inl e
      | Inr ys \<Rightarrow>
          Inr \<lparr>shape = reduce_shape (shape src) axes keepDims,
               elementType = elementType src, elems = ys\<rparr>)"

subsection \<open>Reductions\<close>

text \<open>
  The integer attributes of the op that defines \<open>replacingValue\<close>, by name.
\<close>

type_synonym attributes = "string \<Rightarrow> int option"

definition getSIntAttr :: "attributes \<Rightarrow> string \<Rightarrow> int \<Rightarrow> int" where
  "getSIntAttr op attrName deflt = (case op attrName of None \<Rightarrow> deflt | Some iattr \<Rightarrow> iattr)"

text \<open>
  \<open>getIdentity<ReduceOp>\<close>: zero for ONNXAddOp; for ONNXMulOp the integer 1 of the
  type's width or the float 1.0; \<open>llvm_unreachable\<close> for every other reduction.
\<close>

definition getIdentity :: "'f float_ops \<Rightarrow> onnx_op \<Rightarrow> elem_type \<Rightarrow> abort + 'f WideNum" where
  "getIdentity fo ReduceOp type =
     (if ReduceOp = ONNXAddOp then
        Inr (case familyOf type of
               SignedInt \<Rightarrow> WideI64 0
             | UnsignedInt \<Rightarrow> WideU64 0
             | FloatFamily \<Rightarrow> WideDbl (float_of_int fo 0)
             | BoolFamily \<Rightarrow> WideBool False)
      else if ReduceOp = ONNXMulOp then
        Inr (case familyOf type of
               SignedInt \<Rightarrow> WideI64 1
             | UnsignedInt \<Rightarrow> WideU64 1
             | BoolFamily \<Rightarrow> WideBool True
             | FloatFamily \<Rightarrow> WideDbl (float_of_int fo 1))
      else Inl (Unreachable ''reduce op has no identify, zero-size tensor unsupported''))"

text \<open>
  \<open>DenseElementsAttr::get(type, {identity})\<close>: the splat of one value over a static
  ranked tensor type.
\<close>

definition DenseElementsAttr_get :: "mtype \<Rightarrow> 'a \<Rightarrow> abort + 'a ElementsAttr" where
  "DenseElementsAttr_get type v =
     (case type of
        RankedTensorType shp ty \<Rightarrow>
          if list_all (\<lambda>d. 0 \<le> d) shp
          then Inr \<lparr>shape = shp, elementType = ty, elems = replicate (nat (getNumElements shp)) v\<rparr>
          else Inl (AssertFailed ''DenseElementsAttr::get: static shape expected'')
      | t \<Rightarrow> Inl (AssertFailed ''DenseElementsAttr::get: static shape expected''))"

text \<open>
  \<open>divideBy(type, denominator)\<close>: \<open>wideZeroDispatchNonBool\<close> selects the wide C++ type of
  the element type (\<open>int64_t\<close>, \<open>uint64_t\<close> or \<open>double\<close>; \<open>bool\<close> is refused), and the
  function returned divides a wide number, read and stored at that wide type, by the
  \<open>int64_t\<close> denominator. With \<open>uint64_t\<close> the denominator is converted to unsigned;
  with \<open>int64_t\<close> the quotient of the least value by -1 is out of range.
\<close>

definition divideBy ::
  "'f float_ops \<Rightarrow> elem_type \<Rightarrow> int \<Rightarrow> abort + ('f WideNum \<Rightarrow> abort + 'f WideNum)" where
  "divideBy fo type denominator =
     (case familyOf type of
        BoolFamily \<Rightarrow> Inl (Unreachable ''wideZeroDispatchNonBool: bool'')
      | SignedInt \<Rightarrow>
          Inr (\<lambda>x. case x of
                 WideI64 i \<Rightarrow>
                   if denominator = 0 then Inl (UndefinedBehaviour ''division by zero'')
                   else if i = - (2 ^ 63) \<and> denominator = - 1
                   then Inl (UndefinedBehaviour ''signed integer overflow'')
                   else Inr (WideI64 (i sdiv denominator))
               | _ \<Rightarrow> Inl (UndefinedBehaviour ''inactive member of a wide number''))
      | UnsignedInt \<Rightarrow>
          Inr (\<lambda>x. case x of
                 WideU64 u \<Rightarrow>
                   if take_bit 64 denominator = 0 then Inl (UndefinedBehaviour ''division by zero'')
                   else Inr (WideU64 (u div take_bit 64 denominator))
               | _ \<Rightarrow> Inl (UndefinedBehaviour ''inactive member of a wide number''))
      | FloatFamily \<Rightarrow>
          Inr (\<lambda>x. case x of
                 WideDbl d \<Rightarrow> Inr (WideDbl (float_divide fo d denominator))
               | _ \<Rightarrow> Inl (UndefinedBehaviour ''inactive member of a wide number'')))"

text \<open>
  The first loop of ConstPropReduceAxesRange: every axis is checked against the rank,
  made non-negative and checked against the axes collected so far.
\<close>

fun absolute_axes :: "int \<Rightarrow> int list \<Rightarrow> nat list \<Rightarrow> abort + nat list" where
  "absolute_axes rank [] absoluteAxes = Inr absoluteAxes"
| "absolute_axes rank (a # axesRange) absoluteAxes =
     (if \<not> (- rank \<le> a \<and> a < rank) then Inl (AssertFailed ''axis out of range'')
      else
        (let axis = (if a < 0 then a + rank else a) in
         if nat axis \<in> set absoluteAxes then Inl (AssertFailed ''duplicate axis'')
         else absolute_axes rank axesRange (absoluteAxes @ [nat axis])))"

text \<open>The axes that are reduced: all of them when none is given and the op is no no-op.\<close>

definition effective_axes :: "attributes \<Rightarrow> int \<Rightarrow> nat list \<Rightarrow> nat list" where
  "effective_axes op rank absoluteAxes =
     (if absoluteAxes = [] \<and> getSIntAttr op ''noop_with_empty_axes'' 0 = 0
      then absoluteAxes @ [0..<nat rank]
      else absoluteAxes)"

text \<open>The computation of \<open>reduced\<close> in ConstPropReduceAxesRange.\<close>

definition reduced_elements ::
  "'f float_ops \<Rightarrow> onnx_op \<Rightarrow> attributes \<Rightarrow> mtype \<Rightarrow> 'f WideNum ElementsAttr \<Rightarrow> nat list
     \<Rightarrow> abort + 'f WideNum ElementsAttr" where
  "reduced_elements fo ReduceOp op replacingType data absoluteAxes =
     (let elemType = elementType data in
      if absoluteAxes = [] then Inr data
      else if empty_attr data then
        (case getIdentity fo ReduceOp elemType of
           Inl e \<Rightarrow> Inl e
         | Inr identity \<Rightarrow> DenseElementsAttr_get replacingType identity)
      else
        (let keepdims = (getSIntAttr op ''keepdims'' 1 \<noteq> 0) in
         if ReduceOp = ONNXReduceMeanOp then
           (case reduce data absoluteAxes keepdims (elementwiseBinaryOpCombiner fo ONNXAddOp elemType) of
              Inl e \<Rightarrow> Inl e
            | Inr summed \<Rightarrow>
                if size_of summed = 0 then Inl (UndefinedBehaviour ''division by zero'')
                else if size_of data mod size_of summed \<noteq> 0
                then Inl (AssertFailed ''ReduceSum reduces tensor size by integer factor'')
                else
                  (case divideBy fo elemType (size_of data div size_of summed) of
                     Inl e \<Rightarrow> Inl e
                   | Inr f \<Rightarrow> transform summed elemType f))
         else reduce data absoluteAxes keepdims (elementwiseBinaryOpCombiner fo ReduceOp elemType)))"

definition ConstPropReduceAxesRange ::
  "'f float_ops \<Rightarrow> onnx_op \<Rightarrow> attributes \<Rightarrow> mtype \<Rightarrow> 'f WideNum ONNXConstantOp \<Rightarrow> int list
     \<Rightarrow> counter_map \<Rightarrow> abort + counter_map \<times> 'f WideNum ONNXConstantOp" where
  "ConstPropReduceAxesRange fo ReduceOp op replacingType dataValue axesRange cs =
     (case count ''Reduce'' [resultType dataValue] cs of
        Inl e \<Rightarrow> Inl e
      | Inr cs' \<Rightarrow>
          (let data = valueAttr dataValue; rank = int (length (shape data)) in
           case absolute_axes rank axesRange [] of
             Inl e \<Rightarrow> Inl e
           | Inr absoluteAxes \<Rightarrow>
               (case reduced_elements fo ReduceOp op replacingType data
                       (effective_axes op rank absoluteAxes) of
                  Inl e \<Rightarrow> Inl e
                | Inr reduced \<Rightarrow> Inr (cs', createReplacingConstantOp replacingType reduced))))"

text \<open>
  ConstPropReduce with the axes as an operand: a value from None gives no axes, anything
  else is read as a constant. With the axes as an attribute: the attribute's values, or
  no axes when it is absent.
\<close>

definition ConstPropReduce_operand ::
  "'f float_ops \<Rightarrow> onnx_op \<Rightarrow> attributes \<Rightarrow> mtype \<Rightarrow> 'f WideNum ONNXConstantOp \<Rightarrow> int Value
     \<Rightarrow> counter_map \<Rightarrow> abort + counter_map \<times> 'f WideNum ONNXConstantOp" where
  "ConstPropReduce_operand fo ReduceOp op replacingType dataValue axesValue cs =
     (case axesValue of
        OtherValue t \<Rightarrow>
          if t = NoneType then ConstPropReduceAxesRange fo ReduceOp op replacingType dataValue [] cs
          else Inl (UndefinedBehaviour ''getConstValueElements of a value that is no constant'')
      | ConstantResult axes \<Rightarrow>
          ConstPropReduceAxesRange fo ReduceOp op replacingType dataValue (elems (valueAttr axes)) cs)"

definition ConstPropReduce_attribute ::
  "'f float_ops \<Rightarrow> onnx_op \<Rightarrow> attributes \<Rightarrow> mtype \<Rightarrow> 'f WideNum ONNXConstantOp
     \<Rightarrow> int list option \<Rightarrow> counter_map \<Rightarrow> abort + counter_map \<times> 'f WideNum ONNXConstantOp" where
  "ConstPropReduce_attribute fo ReduceOp op replacingType dataValue axesArray cs =
     (case axesArray of
        Some axesRange \<Rightarrow> ConstPropReduceAxesRange fo ReduceOp op replacingType dataValue axesRange cs
      | None \<Rightarrow> ConstPropReduceAxesRange fo ReduceOp op replacingType dataValue [] cs)"

text \<open>
  A wide number that is an element of a tensor of the element type: it holds the member
  of the type's family, and an integer is a value of the type.
\<close>

fun wide_of :: "elem_type \<Rightarrow> 'f WideNum \<Rightarrow> bool" where
  "wide_of ty (WideI64 x) = (familyOf ty = SignedInt \<and> narrow ty x = x)"
| "wide_of ty (WideU64 x) = (familyOf ty = UnsignedInt \<and> narrow ty x = x)"
| "wide_of ty (WideDbl x) = (familyOf ty = FloatFamily)"
| "wide_of ty (WideBool b) = (familyOf ty = BoolFamily)"

text \<open>
  ReduceMean in the words of the spec: a sum divided by the denominator, by the
  truncating division of integers or the division of floats.
\<close>

fun mean_of_sum :: "'f float_ops \<Rightarrow> int \<Rightarrow> 'f WideNum \<Rightarrow> 'f WideNum" where
  "mean_of_sum fo n (WideI64 x) = WideI64 (x sdiv n)"
| "mean_of_sum fo n (WideU64 x) = WideU64 (x div n)"
| "mean_of_sum fo n (WideDbl x) = WideDbl (float_divide fo x n)"
| "mean_of_sum fo n (WideBool b) = WideBool b"

subsection \<open>Buffers\<close>

text \<open>
  \<open>std::copy_n(first, n, result)\<close> between two buffers: \<open>n\<close> elements of \<open>src\<close>
  from position \<open>first\<close> on are written to \<open>dst\<close> from position \<open>pos\<close> on. A range that
  leaves its buffer is undefined behaviour.
\<close>

definition copy_n :: "'a list \<Rightarrow> int \<Rightarrow> nat \<Rightarrow> 'a list \<Rightarrow> int \<Rightarrow> abort + 'a list" where
  "copy_n src first n dst pos =
     (if first < 0 \<or> int (length src) < first + int n
      then Inl (UndefinedBehaviour ''copy_n: read out of bounds'')
      else if pos < 0 \<or> int (length dst) < pos + int n
      then Inl (UndefinedBehaviour ''copy_n: write out of bounds'')
      else Inr (take (nat pos) dst @ take n (drop (nat first) src) @ drop (nat pos + n) dst))"

text \<open>
  \<open>OnnxElementsAttrBuilder::fromWideNums(type, filler)\<close> is not part of the sources at
  hand. Modelled from the spec (a producer that fills a buffer of wide scalars): the
  buffer has one entry for each element of \<open>type\<close>, its initial contents are not
  specified (\<open>uninit\<close>), and the elements are what \<open>filler\<close> leaves in the buffer.
\<close>

definition fromWideNums ::
  "mtype \<Rightarrow> 'a \<Rightarrow> ('a list \<Rightarrow> abort + 'a list) \<Rightarrow> abort + 'a ElementsAttr" where
  "fromWideNums type uninit filler =
     (case type of
        RankedTensorType shp ty \<Rightarrow>
          if list_all (\<lambda>d. 0 \<le> d) shp then
            (case filler (replicate (nat (getNumElements shp)) uninit) of
               Inl e \<Rightarrow> Inl e
             | Inr dst \<Rightarrow> Inr \<lparr>shape = shp, elementType = ty, elems = dst\<rparr>)
          else Inl (AssertFailed ''fromWideNums: static shape expected'')
      | t \<Rightarrow> Inl (AssertFailed ''fromWideNums: static shape expected''))"

subsection \<open>ScatterND\<close>

text \<open>
  \<open>getStrides\<close>: the loop runs from the last axis to the first, puts \<open>count\<close> in front
  of the strides found so far and multiplies \<open>count\<close> by the extent, also after the last
  stride. \<open>count\<close> is an \<open>int64_t\<close>: a product out of its range is undefined behaviour.
  \<open>strides_loop\<close> takes the extents that remain, last axis first, the strides found so
  far and \<open>count\<close> (here \<open>cnt\<close>).
\<close>

fun strides_loop :: "int list \<Rightarrow> int list \<Rightarrow> int \<Rightarrow> abort + int list" where
  "strides_loop [] strides cnt = Inr strides"
| "strides_loop (d # rest) strides cnt =
     (if fits_int64 (cnt * d) then strides_loop rest (cnt # strides) (cnt * d)
      else Inl (UndefinedBehaviour ''signed integer overflow''))"

definition getStrides :: "int list \<Rightarrow> abort + int list" where
  "getStrides shp = strides_loop (rev shp) [] 1"

text \<open>
  \<open>getLinearAccessIndex\<close>: one entry of \<open>indices\<close> is read for each stride; the
  products and the sum are computed in \<open>int64_t\<close>. \<open>index_loop\<close> takes the values of \<open>i\<close>
  that remain.
\<close>

fun index_loop :: "int list \<Rightarrow> int list \<Rightarrow> nat list \<Rightarrow> int \<Rightarrow> abort + int" where
  "index_loop indices strides [] index = Inr index"
| "index_loop indices strides (i # rest) index =
     (if fits_int64 (indices ! i * strides ! i) \<and> fits_int64 (index + indices ! i * strides ! i)
      then index_loop indices strides rest (index + indices ! i * strides ! i)
      else Inl (UndefinedBehaviour ''signed integer overflow''))"

definition getLinearAccessIndex :: "int list \<Rightarrow> int list \<Rightarrow> abort + int" where
  "getLinearAccessIndex indices strides =
     (if length indices < length strides
      then Inl (UndefinedBehaviour ''indices[i] out of range'')
      else index_loop indices strides [0..<length strides] 0)"

text \<open>
  The loop of ScatterNDImpl over the slices. \<open>indicesIter\<close> and \<open>updatesIter\<close> are the
  positions of the two iterators in their buffers; \<open>idxs\<close> is the view of \<open>indices_nd\<close>
  entries at \<open>indicesIter\<close>.
\<close>

fun scatter_loop ::
  "nat \<Rightarrow> nat \<Rightarrow> nat \<Rightarrow> nat \<Rightarrow> int list \<Rightarrow> nat \<Rightarrow> int list \<Rightarrow> 'a list \<Rightarrow> 'a list
     \<Rightarrow> abort + 'a list" where
  "scatter_loop 0 indicesIter updatesIter indices_nd sliceStrides slice_size indices updates output =
     Inr output"
| "scatter_loop (Suc n) indicesIter updatesIter indices_nd sliceStrides slice_size indices updates output =
     (case getLinearAccessIndex (take indices_nd (drop indicesIter indices)) sliceStrides of
        Inl e \<Rightarrow> Inl e
      | Inr pos \<Rightarrow>
          (case copy_n updates (int updatesIter) slice_size output pos of
             Inl e \<Rightarrow> Inl e
           | Inr output' \<Rightarrow>
               scatter_loop n (indicesIter + indices_nd) (updatesIter + slice_size)
                 indices_nd sliceStrides slice_size indices updates output'))"

text \<open>
  ScatterNDImpl. \<open>readElementsWideNums\<close> fills the whole of \<open>output\<close> with the data;
  \<open>back\<close> needs a non-empty shape and \<open>drop_front\<close> enough extents; \<open>take_front\<close> of more
  than there is gives all there is.
\<close>

definition ScatterNDImpl ::
  "'a ElementsAttr \<Rightarrow> int ElementsAttr \<Rightarrow> 'a ElementsAttr \<Rightarrow> 'a list \<Rightarrow> abort + 'a list" where
  "ScatterNDImpl dataElements indicesElements updatesElements output =
     (if length output \<noteq> length (elems dataElements)
      then Inl (AssertFailed ''readElementsWideNums: size mismatch'')
      else
        (let indices = elems indicesElements;
             updates = elems updatesElements;
             dataShape = shape dataElements;
             indicesShape = shape indicesElements;
             updatesShape = shape updatesElements
         in if indicesShape = [] then Inl (AssertFailed ''back() of an empty ArrayRef'')
            else
              (let indices_nd = nat (last indicesShape);
                   outer = butlast indicesShape;
                   n_slices = nat (getNumElements outer)
               in if length updatesShape < length outer
                  then Inl (AssertFailed ''Dropping more elements than exist'')
                  else
                    (let slice_size = nat (getNumElements (drop (length outer) updatesShape)) in
                     case getStrides dataShape of
                       Inl e \<Rightarrow> Inl e
                     | Inr dataStrides \<Rightarrow>
                         (let sliceStrides = take indices_nd dataStrides
                          in scatter_loop n_slices 0 0 indices_nd sliceStrides slice_size
                               indices updates (elems dataElements))))))"

record 'a ScatterNDOp =
  scatterResultType :: mtype
  scatterData :: "'a Value"
  scatterIndices :: "int Value"
  scatterUpdates :: "'a Value"

fun isRankedTensorType :: "mtype \<Rightarrow> bool" where
  "isRankedTensorType (RankedTensorType shp ty) = True"
| "isRankedTensorType t = False"

text \<open>
  ConstPropScatterNDPattern. The elements get the type of the data's elements, and the
  value handed to \<open>createReplacingConstantOp\<close> is the data operand.
\<close>

definition ConstPropScatterNDPattern ::
  "'a ScatterNDOp \<Rightarrow> 'a \<Rightarrow> counter_map \<Rightarrow> abort + counter_map \<times> 'a ONNXConstantOp option" where
  "ConstPropScatterNDPattern scatterNdOp uninit cs =
     (if \<not> isRankedTensorType (scatterResultType scatterNdOp) then Inr (cs, None)
      else
        (case scatterData scatterNdOp of
           OtherValue t \<Rightarrow> Inr (cs, None)
         | ConstantResult dataOp \<Rightarrow>
             (case scatterIndices scatterNdOp of
                OtherValue t \<Rightarrow> Inr (cs, None)
              | ConstantResult indicesOp \<Rightarrow>
                  (case scatterUpdates scatterNdOp of
                     OtherValue t \<Rightarrow> Inr (cs, None)
                   | ConstantResult updatesOp \<Rightarrow>
                       (case count ''Scatter''
                               [resultType dataOp, resultType indicesOp, resultType updatesOp] cs of
                          Inl e \<Rightarrow> Inl e
                        | Inr cs' \<Rightarrow>
                            (case fromWideNums (getType (valueAttr dataOp)) uninit
                                    (ScatterNDImpl (valueAttr dataOp) (valueAttr indicesOp)
                                       (valueAttr updatesOp)) of
                               Inl e \<Rightarrow> Inl e
                             | Inr scatteredElements \<Rightarrow>
                                 Inr (cs', Some (createReplacingConstantOp (resultType dataOp)
                                                   scatteredElements))))))))"

subsection \<open>Gather\<close>

text \<open>
  The inner loop shared by ConstPropGatherImpl and ConstPropConcatImpl:
  \<open>for (offset = start; offset < outputData.size(); offset += stride)\<close> copies \<open>len\<close>
  elements from \<open>in\<close> to \<open>out + offset\<close> and advances \<open>in\<close> by \<open>inStep\<close>. With a stride
  of 0 the loop makes no progress. The result is the buffer and the final \<open>in\<close>. The two
  iterators are positions in their buffers, checked when \<open>std::copy_n\<close> reads and
  writes. \<open>offset\<close> is below the size of a buffer in memory and the stride is a number
  of elements, an \<open>int64_t\<close> that is not negative: \<open>offset += stride\<close> does not wrap
  around.
\<close>

function copy_loop ::
  "nat \<Rightarrow> nat \<Rightarrow> nat \<Rightarrow> nat \<Rightarrow> int \<Rightarrow> int \<Rightarrow> 'a list \<Rightarrow> 'a list \<Rightarrow> abort + 'a list \<times> int" where
  "copy_loop bufSize stride len offset inp inStep inputData outputData =
     (if offset < bufSize then
        (if stride = 0 then Inl (Diverges ''offset += 0'')
         else
           (case copy_n inputData inp len outputData (int offset) of
              Inl e \<Rightarrow> Inl e
            | Inr outputData' \<Rightarrow>
                copy_loop bufSize stride len (offset + stride) (inp + inStep) inStep
                  inputData outputData'))
      else Inr (outputData, inp))"
  by pat_completeness auto
termination
  by (relation "measure (\<lambda>(bufSize, stride, len, offset, rest). bufSize - offset)") auto

declare copy_loop.simps [simp del]

text \<open>
  The loop of ConstPropGatherImpl over the indices. \<open>idx < 0 ? idx + axisSize : idx\<close> has
  the type \<open>size_t\<close> and is stored in the \<open>int64_t\<close> \<open>adjustedIdx\<close>;
  \<open>adjustedIdx * len\<close> is a product in \<open>size_t\<close>, which wraps around, and so does
  \<open>start += len\<close>. No index is compared with the axis size.
\<close>

fun gather_loop ::
  "int list \<Rightarrow> nat \<Rightarrow> nat \<Rightarrow> nat \<Rightarrow> nat \<Rightarrow> nat \<Rightarrow> 'a list \<Rightarrow> 'a list \<Rightarrow> abort + 'a list" where
  "gather_loop [] start axisSize len inputStride outputStride inputData outputData = Inr outputData"
| "gather_loop (idx # indicesData) start axisSize len inputStride outputStride inputData outputData =
     (let adjustedIdx = to_int64 (if idx < 0 then to_size_t (idx + int axisSize) else to_size_t idx) in
      case copy_loop (length outputData) outputStride len start (to_size_t (adjustedIdx * int len))
             (int inputStride) inputData outputData of
        Inl e \<Rightarrow> Inl e
      | Inr (outputData', inp) \<Rightarrow>
          gather_loop indicesData (nat (to_size_t (int start + int len))) axisSize len inputStride
            outputStride inputData outputData')"

text \<open>
  ConstPropGatherImpl: the axis size, the two strides and the product in the assertion
  are \<open>size_t\<close> values.
\<close>

definition ConstPropGatherImpl ::
  "int list \<Rightarrow> 'a ElementsAttr \<Rightarrow> int ElementsAttr \<Rightarrow> int \<Rightarrow> 'a list \<Rightarrow> abort + 'a list" where
  "ConstPropGatherImpl outputShape inputElements indicesElements axis outputData =
     (let inputData = elems inputElements;
          indicesData = elems indicesElements;
          inputShape = shape inputElements
      in if axis < 0 \<or> int (length inputShape) \<le> axis
         then Inl (UndefinedBehaviour ''inputShape[axis] out of range'')
         else
           (let axisSize = nat (to_size_t (inputShape ! nat axis));
                inputStride = nat (to_size_t (getNumElements (drop (nat axis) inputShape)))
            in if axisSize = 0 then Inl (UndefinedBehaviour ''division by zero'')
               else
                 (let len = inputStride div axisSize in
                  if length outputShape < nat axis
                  then Inl (AssertFailed ''Dropping more elements than exist'')
                  else
                    (let outputStride = nat (to_size_t (getNumElements (drop (nat axis) outputShape))) in
                     if int outputStride \<noteq> to_size_t (int (length indicesData) * int len)
                     then Inl (AssertFailed ''outputStride == indicesData.get().size() * len'')
                     else gather_loop indicesData 0 axisSize len inputStride outputStride
                            inputData outputData))))"

text \<open>
  ConstPropGather: a negative axis attribute is moved by the rank of the input's type.
\<close>

definition ConstPropGather ::
  "mtype \<Rightarrow> 'a ONNXConstantOp \<Rightarrow> int ONNXConstantOp \<Rightarrow> int \<Rightarrow> 'a \<Rightarrow> counter_map
     \<Rightarrow> abort + counter_map \<times> 'a ONNXConstantOp" where
  "ConstPropGather replacingType inputValue indicesValue axisAttr uninit cs =
     (case count ''Gather'' [resultType inputValue, resultType indicesValue] cs of
        Inl e \<Rightarrow> Inl e
      | Inr cs' \<Rightarrow>
          (case resultType inputValue of
             RankedTensorType inputShape inputTy \<Rightarrow>
               (let axis = (if axisAttr < 0 then axisAttr + int (length inputShape) else axisAttr) in
                case replacingType of
                  RankedTensorType outputShape outputTy \<Rightarrow>
                    (case fromWideNums replacingType uninit
                            (ConstPropGatherImpl outputShape (valueAttr inputValue)
                               (valueAttr indicesValue) axis) of
                       Inl e \<Rightarrow> Inl e
                     | Inr gatheredElements \<Rightarrow>
                         Inr (cs', createReplacingConstantOp replacingType gatheredElements))
                | t \<Rightarrow> Inl (AssertFailed ''cast<ShapedType>''))
           | t \<Rightarrow> Inl (AssertFailed ''cast<ShapedType>'')))"

text \<open>The position along the axis that the index \<open>idx\<close> selects.\<close>

definition adjusted :: "nat \<Rightarrow> int \<Rightarrow> nat" where
  "adjusted axisSize idx = nat (if idx < 0 then idx + int axisSize else idx)"

subsection \<open>ScatterND in the words of the spec\<close>

text \<open>
  The meaning of ScatterND in the words of the spec, to compare ScatterNDImpl with:
  \<open>indices\<close> has shape \<open>[..., k]\<close>; each \<open>k\<close>-tuple addresses the leading \<open>k\<close> axes of
  \<open>data\<close>, and the remaining axes form a slice that is replaced by the corresponding slab
  of \<open>updates\<close>; when tuples collide, the last one in row-major order of \<open>indices\<close> wins.
  \<open>hits\<close> are the tuples, among \<open>slices\<close>, that address the position \<open>p\<close> of the data:
  those equal to the leading \<open>k\<close> coordinates of \<open>p\<close>. The element of the slab that
  belongs to \<open>p\<close> is the one at the remaining coordinates of \<open>p\<close>.
\<close>

definition hits :: "nat list \<Rightarrow> nat \<Rightarrow> int list \<Rightarrow> nat \<Rightarrow> nat list \<Rightarrow> nat list" where
  "hits dims k indices p slices =
     filter (\<lambda>i. map int (take k (unravel dims p)) = take k (drop (i * k) indices)) slices"

definition scatterNd_spec :: "'a ElementsAttr \<Rightarrow> int ElementsAttr \<Rightarrow> 'a ElementsAttr \<Rightarrow> 'a list" where
  "scatterNd_spec dataElements indicesElements updatesElements =
     (let dims = map nat (shape dataElements);
          k = nat (last (shape indicesElements));
          n_slices = nat (getNumElements (butlast (shape indicesElements)))
      in map (\<lambda>p. case hits dims k (elems indicesElements) p [0..<n_slices] of
                     [] \<Rightarrow> elems dataElements ! p
                   | i # rest \<Rightarrow>
                       elems updatesElements !
                         (last (i # rest) * prod_list (drop k dims)
                            + ravel (drop k dims) (drop k (unravel dims p))))
           [0..<length (elems dataElements)])"

subsection \<open>The other rewriters\<close>

text \<open>
  \<open>ElementWiseUnaryOpImpl<OP, T>::eval\<close> on integers: Neg and Relu for every type but
  \<open>bool\<close>; Sqrt is specialised for \<open>double\<close> alone.
\<close>

fun eval_unary_int :: "elem_type \<Rightarrow> onnx_op \<Rightarrow> int \<Rightarrow> abort + int" where
  "eval_unary_int T ONNXNegOp val = value_of T (- val)"
| "eval_unary_int T ONNXReluOp val = Inr (if val < 0 then 0 else val)"
| "eval_unary_int T OP val = Inl (Unreachable ''unsupported op or type'')"

definition elementwiseUnaryOpFunction ::
  "'f float_ops \<Rightarrow> onnx_op \<Rightarrow> elem_type \<Rightarrow> 'f WideNum \<Rightarrow> abort + 'f WideNum" where
  "elementwiseUnaryOpFunction fo OP elemType val =
     (case (familyOf elemType, val) of
        (SignedInt, WideI64 x) \<Rightarrow>
          (case eval_unary_int elemType OP (narrow elemType x) of
             Inl e \<Rightarrow> Inl e
           | Inr r \<Rightarrow> Inr (WideI64 r))
      | (UnsignedInt, WideU64 x) \<Rightarrow>
          (case eval_unary_int elemType OP (narrow elemType x) of
             Inl e \<Rightarrow> Inl e
           | Inr r \<Rightarrow> Inr (WideU64 r))
      | (FloatFamily, WideDbl x) \<Rightarrow>
          if OP = ONNXNegOp \<or> OP = ONNXReluOp \<or> (OP = ONNXSqrtOp \<and> elemType = F64)
          then Inr (WideDbl (float_unary fo OP elemType x))
          else Inl (Unreachable ''unsupported op or type'')
      | (BoolFamily, WideBool x) \<Rightarrow> Inl (Unreachable ''unsupported op or type'')
      | _ \<Rightarrow> Inl (UndefinedBehaviour ''inactive member of a wide number''))"

text \<open>
  The methods of OnnxElementsAttrBuilder that the remaining rewriters call are not part
  of the sources at hand, and no property below depends on the elements they compute:
  they are the fields of a record that the rewriters take as a parameter.
\<close>

record 'a Builder =
  combine :: "'a ElementsAttr \<Rightarrow> 'a ElementsAttr \<Rightarrow> mtype \<Rightarrow> ('a \<Rightarrow> 'a \<Rightarrow> abort + 'a)
                \<Rightarrow> abort + 'a ElementsAttr"
  whereElements :: "'a ElementsAttr \<Rightarrow> 'a ElementsAttr \<Rightarrow> 'a ElementsAttr \<Rightarrow> mtype
                \<Rightarrow> abort + 'a ElementsAttr"
  transpose :: "'a ElementsAttr \<Rightarrow> int list \<Rightarrow> abort + 'a ElementsAttr"
  reshape :: "'a ElementsAttr \<Rightarrow> int list \<Rightarrow> abort + 'a ElementsAttr"
  castElementType :: "'a ElementsAttr \<Rightarrow> elem_type \<Rightarrow> abort + 'a ElementsAttr"
  expand :: "'a ElementsAttr \<Rightarrow> int list \<Rightarrow> abort + 'a ElementsAttr"

text \<open>\<open>cast<ShapedType>().getElementType()\<close> and \<open>getShape\<close> of a type.\<close>

fun getElementType :: "mtype \<Rightarrow> abort + elem_type" where
  "getElementType (RankedTensorType shp ty) = Inr ty"
| "getElementType (UnrankedTensorType ty) = Inr ty"
| "getElementType NoneType = Inl (AssertFailed ''cast<ShapedType>'')"

fun getShape :: "mtype \<Rightarrow> abort + int list" where
  "getShape (RankedTensorType shp ty) = Inr shp"
| "getShape t = Inl (AssertFailed ''expected a shaped type with rank'')"

text \<open>
  The common end of the rewriters that a generated pattern calls: the counters as they
  are after \<open>count\<close>, and the new constant of the type of \<open>replacingValue\<close>.
\<close>

definition replaceWith ::
  "counter_map \<Rightarrow> mtype \<Rightarrow> abort + 'a ElementsAttr \<Rightarrow> abort + counter_map \<times> 'a ONNXConstantOp" where
  "replaceWith cs' replacingType elements =
     (case elements of
        Inl e \<Rightarrow> Inl e
      | Inr resultElements \<Rightarrow> Inr (cs', createReplacingConstantOp replacingType resultElements))"

definition ConstPropElementwiseBinary ::
  "'f float_ops \<Rightarrow> 'f WideNum Builder \<Rightarrow> onnx_op \<Rightarrow> mtype \<Rightarrow> 'f WideNum ONNXConstantOp
     \<Rightarrow> 'f WideNum ONNXConstantOp \<Rightarrow> counter_map
     \<Rightarrow> abort + counter_map \<times> 'f WideNum ONNXConstantOp" where
  "ConstPropElementwiseBinary fo elementsBuilder OP replacingType lhsValue rhsValue cs =
     (case count ''ElementwiseBinary'' [resultType lhsValue, resultType rhsValue] cs of
        Inl e \<Rightarrow> Inl e
      | Inr cs' \<Rightarrow>
          if replacingType = NoneType then Inl (AssertFailed ''cast<ShapedType>'')
          else
            (let lhs = valueAttr lhsValue; rhs = valueAttr rhsValue;
                 operandsElemType = elementType lhs
             in if operandsElemType \<noteq> elementType rhs
                then Inl (AssertFailed
                  ''all element-wise binary ops have matching operands element types'')
                else replaceWith cs' replacingType
                       (combine elementsBuilder lhs rhs replacingType
                          (elementwiseBinaryOpCombiner fo OP operandsElemType))))"

definition ConstPropElementwiseUnary ::
  "'f float_ops \<Rightarrow> onnx_op \<Rightarrow> mtype \<Rightarrow> 'f WideNum ONNXConstantOp \<Rightarrow> counter_map
     \<Rightarrow> abort + counter_map \<times> 'f WideNum ONNXConstantOp" where
  "ConstPropElementwiseUnary fo OP replacingType constValue cs =
     (case count ''ElementwiseUnary'' [resultType constValue] cs of
        Inl e \<Rightarrow> Inl e
      | Inr cs' \<Rightarrow>
          (case getElementType replacingType of
             Inl e \<Rightarrow> Inl e
           | Inr replacingElemType \<Rightarrow>
               (let constElements = valueAttr constValue in
                if replacingElemType \<noteq> elementType constElements
                then Inl (AssertFailed ''all element-wise unary ops preserve element type'')
                else replaceWith cs' replacingType
                       (transform constElements replacingElemType
                          (elementwiseUnaryOpFunction fo OP replacingElemType)))))"

definition ConstPropWhere ::
  "'a Builder \<Rightarrow> mtype \<Rightarrow> 'a ONNXConstantOp \<Rightarrow> 'a ONNXConstantOp \<Rightarrow> 'a ONNXConstantOp
     \<Rightarrow> counter_map \<Rightarrow> abort + counter_map \<times> 'a ONNXConstantOp" where
  "ConstPropWhere elementsBuilder replacingType condValue lhsValue rhsValue cs =
     (case count ''Where'' [resultType condValue, resultType lhsValue, resultType rhsValue] cs of
        Inl e \<Rightarrow> Inl e
      | Inr cs' \<Rightarrow>
          if replacingType = NoneType then Inl (AssertFailed ''cast<ShapedType>'')
          else
            (let cond = valueAttr condValue; lhs = valueAttr lhsValue; rhs = valueAttr rhsValue in
             if elementType cond \<noteq> I1
             then Inl (AssertFailed ''ONNXWhereOp condition has bool element type'')
             else if elementType lhs \<noteq> elementType rhs
             then Inl (AssertFailed ''ONNXWhereOp branches have matching element types'')
             else replaceWith cs' replacingType
                    (whereElements elementsBuilder cond lhs rhs replacingType)))"

text \<open>ConstPropTranspose reads the attribute \<open>perm\<close>; without it the cast fails.\<close>

definition ConstPropTranspose ::
  "'a Builder \<Rightarrow> int list option \<Rightarrow> mtype \<Rightarrow> 'a ONNXConstantOp \<Rightarrow> counter_map
     \<Rightarrow> abort + counter_map \<times> 'a ONNXConstantOp" where
  "ConstPropTranspose elementsBuilder permAttr replacingType constValue cs =
     (case count ''Transpose'' [resultType constValue] cs of
        Inl e \<Rightarrow> Inl e
      | Inr cs' \<Rightarrow>
          (case permAttr of
             None \<Rightarrow> Inl (AssertFailed ''cast<ArrayAttr>'')
           | Some perm \<Rightarrow>
               replaceWith cs' replacingType
                 (transpose elementsBuilder (valueAttr constValue) perm)))"

definition ConstPropReshapeImpl :: "'a Builder \<Rightarrow> 'a ONNXConstantOp \<Rightarrow> int list \<Rightarrow> abort + 'a ElementsAttr" where
  "ConstPropReshapeImpl elementsBuilder constValue reshapedShape =
     reshape elementsBuilder (valueAttr constValue) reshapedShape"

text \<open>Unsqueeze, Squeeze and Reshape differ in the name they count under.\<close>

definition reshape_to_result ::
  "string \<Rightarrow> 'a Builder \<Rightarrow> mtype \<Rightarrow> 'a ONNXConstantOp \<Rightarrow> counter_map
     \<Rightarrow> abort + counter_map \<times> 'a ONNXConstantOp" where
  "reshape_to_result name elementsBuilder replacingType input cs =
     (case count name [resultType input] cs of
        Inl e \<Rightarrow> Inl e
      | Inr cs' \<Rightarrow>
          (case getShape replacingType of
             Inl e \<Rightarrow> Inl e
           | Inr reshapedShape \<Rightarrow>
               replaceWith cs' replacingType
                 (ConstPropReshapeImpl elementsBuilder input reshapedShape)))"

definition ConstPropUnsqueeze ::
  "'a Builder \<Rightarrow> mtype \<Rightarrow> 'a ONNXConstantOp \<Rightarrow> counter_map
     \<Rightarrow> abort + counter_map \<times> 'a ONNXConstantOp" where
  "ConstPropUnsqueeze = reshape_to_result ''Unsqueeze''"

definition ConstPropSqueeze ::
  "'a Builder \<Rightarrow> mtype \<Rightarrow> 'a ONNXConstantOp \<Rightarrow> counter_map
     \<Rightarrow> abort + counter_map \<times> 'a ONNXConstantOp" where
  "ConstPropSqueeze = reshape_to_result ''Squeeze''"

definition ConstPropReshape ::
  "'a Builder \<Rightarrow> mtype \<Rightarrow> 'a ONNXConstantOp \<Rightarrow> counter_map
     \<Rightarrow> abort + counter_map \<times> 'a ONNXConstantOp" where
  "ConstPropReshape = reshape_to_result ''Reshape''"

definition ConstPropCast ::
  "'a Builder \<Rightarrow> mtype \<Rightarrow> 'a ONNXConstantOp \<Rightarrow> counter_map
     \<Rightarrow> abort + counter_map \<times> 'a ONNXConstantOp" where
  "ConstPropCast elementsBuilder replacingType constValue cs =
     (case count ''Cast'' [resultType constValue] cs of
        Inl e \<Rightarrow> Inl e
      | Inr cs' \<Rightarrow>
          (case getElementType replacingType of
             Inl e \<Rightarrow> Inl e
           | Inr replacingElemType \<Rightarrow>
               replaceWith cs' replacingType
                 (castElementType elementsBuilder (valueAttr constValue) replacingElemType)))"

definition ConstPropExpand ::
  "'a Builder \<Rightarrow> mtype \<Rightarrow> 'a ONNXConstantOp \<Rightarrow> counter_map
     \<Rightarrow> abort + counter_map \<times> 'a ONNXConstantOp" where
  "ConstPropExpand elementsBuilder replacingType constValue cs =
     (case count ''Expand'' [resultType constValue] cs of
        Inl e \<Rightarrow> Inl e
      | Inr cs' \<Rightarrow>
          (case getShape replacingType of
             Inl e \<Rightarrow> Inl e
           | Inr expandedShape \<Rightarrow>
               replaceWith cs' replacingType
                 (expand elementsBuilder (valueAttr constValue) expandedShape)))"

subsection \<open>Slice\<close>

text \<open>
  ConstPropSliceImpl works in \<open>size_t\<close>: the product of a start or a step and a stride is
  computed in \<open>int64_t\<close> and converted, so that a negative one wraps around, and so does
  every addition to \<open>start\<close>, \<open>srcPos\<close> and \<open>dstPos\<close>.
\<close>

text \<open>
  The recursive lambda \<open>traverse\<close>, for the axes that remain, each with its extent in the
  output, its step in the input and its stride in the output; \<open>traverse_loop\<close> is the
  \<open>for\<close> loop over one axis, with the number of iterations that remain.
\<close>

fun traverse ::
    "(nat \<times> int \<times> int) list \<Rightarrow> int \<Rightarrow> int \<Rightarrow> 'a list \<Rightarrow> 'a list \<Rightarrow> abort + 'a list"
  and traverse_loop ::
    "nat \<Rightarrow> int \<Rightarrow> int \<Rightarrow> (nat \<times> int \<times> int) list \<Rightarrow> int \<Rightarrow> int \<Rightarrow> 'a list \<Rightarrow> 'a list
       \<Rightarrow> abort + 'a list" where
  "traverse [] srcPos dstPos inputData outputData =
     (if int (length inputData) \<le> srcPos then Inl (UndefinedBehaviour ''inputData[srcPos] out of range'')
      else if int (length outputData) \<le> dstPos
      then Inl (UndefinedBehaviour ''outputData[dstPos] out of range'')
      else Inr (outputData[nat dstPos := inputData ! nat srcPos]))"
| "traverse ((dimSize, srcStep, dstStride) # axes) srcPos dstPos inputData outputData =
     traverse_loop dimSize srcStep dstStride axes srcPos dstPos inputData outputData"
| "traverse_loop 0 srcStep dstStride axes srcPos dstPos inputData outputData = Inr outputData"
| "traverse_loop (Suc i) srcStep dstStride axes srcPos dstPos inputData outputData =
     (case traverse axes srcPos dstPos inputData outputData of
        Inl e \<Rightarrow> Inl e
      | Inr outputData' \<Rightarrow>
          traverse_loop i srcStep dstStride axes (to_size_t (srcPos + srcStep))
            (to_size_t (dstPos + dstStride)) inputData outputData')"

text \<open>
  ConstPropSliceImpl: \<open>starts\<close> and \<open>steps\<close> are the literals of the shape helper, one
  for each axis of the output.
\<close>

definition ConstPropSliceImpl ::
  "int list \<Rightarrow> int list \<Rightarrow> int list \<Rightarrow> 'a ElementsAttr \<Rightarrow> 'a list \<Rightarrow> abort + 'a list" where
  "ConstPropSliceImpl outputShape starts steps inputElements outputData =
     (let rank = length outputShape in
      case getStrides outputShape of
        Inl e \<Rightarrow> Inl e
      | Inr outputStrides \<Rightarrow>
          (case getStrides (shape inputElements) of
             Inl e \<Rightarrow> Inl e
           | Inr inputStrides \<Rightarrow>
               if length starts < rank \<or> length steps < rank \<or> length inputStrides < rank
               then Inl (UndefinedBehaviour
                 ''starts[axis], steps[axis] or inputStrides[axis] out of range'')
               else if list_ex (\<lambda>axis. \<not> fits_int64 (starts ! axis * inputStrides ! axis)
                                      \<or> \<not> fits_int64 (steps ! axis * inputStrides ! axis))
                         [0..<rank]
               then Inl (UndefinedBehaviour ''signed integer overflow'')
               else
                 (let start = foldl (\<lambda>start axis. to_size_t (start + starts ! axis * inputStrides ! axis))
                                0 [0..<rank];
                      axes = map (\<lambda>axis. (nat (to_size_t (outputShape ! axis)),
                                           to_size_t (steps ! axis * inputStrides ! axis),
                                           to_size_t (outputStrides ! axis)))
                               [0..<rank]
                  in traverse axes start 0 (elems inputElements) outputData)))"

text \<open>
  The outcome of ConstPropSlice: a new constant, or the null value after \<open>emitError\<close>.
\<close>

datatype 'a SliceResult = EmitError string | Sliced "'a ONNXConstantOp"

text \<open>
  ConstPropSlice. ONNXSliceOpShapeHelper is not part of the sources at hand: its outcome
  is a parameter, \<open>None\<close> when \<open>computeShape\<close> fails and the literal starts and steps
  otherwise.
\<close>

definition ConstPropSlice ::
  "(int list \<times> int list) option \<Rightarrow> mtype \<Rightarrow> 'a ONNXConstantOp \<Rightarrow> 'a \<Rightarrow> counter_map
     \<Rightarrow> abort + counter_map \<times> 'a SliceResult" where
  "ConstPropSlice shapeHelper replacingType constValue uninit cs =
     (case count ''Slice'' [resultType constValue] cs of
        Inl e \<Rightarrow> Inl e
      | Inr cs' \<Rightarrow>
          (case shapeHelper of
             None \<Rightarrow> Inr (cs', EmitError ''Failed to scan onnx.Slice parameters successfully'')
           | Some (starts, steps) \<Rightarrow>
               (case getShape replacingType of
                  Inl e \<Rightarrow> Inl e
                | Inr outputShape \<Rightarrow>
                    (case fromWideNums replacingType uninit
                            (ConstPropSliceImpl outputShape starts steps (valueAttr constValue)) of
                       Inl e \<Rightarrow> Inl e
                     | Inr slicedElements \<Rightarrow>
                         Inr (cs', Sliced (createReplacingConstantOp replacingType slicedElements))))))"

subsection \<open>Concat\<close>

text \<open>
  The loop of ConstPropConcatImpl over the inputs; after the inner loop the assertion
  compares \<open>in\<close> with the end of the input.
\<close>

fun concat_loop ::
  "'a ElementsAttr list \<Rightarrow> nat \<Rightarrow> nat \<Rightarrow> nat \<Rightarrow> 'a list \<Rightarrow> abort + 'a list" where
  "concat_loop [] axis stride start outputData = Inr outputData"
| "concat_loop (input # inputElements) axis stride start outputData =
     (if length (shape input) < axis then Inl (AssertFailed ''Dropping more elements than exist'')
      else
        (let len = nat (getNumElements (drop axis (shape input))) in
         case copy_loop (length outputData) stride len start 0 (int len) (elems input) outputData of
           Inl e \<Rightarrow> Inl e
         | Inr (outputData', inp) \<Rightarrow>
             if inp \<noteq> int (length (elems input)) then Inl (AssertFailed ''input num elements mismatch'')
             else concat_loop inputElements axis stride (start + len) outputData'))"

definition ConstPropConcatImpl ::
  "int list \<Rightarrow> 'a ElementsAttr list \<Rightarrow> int \<Rightarrow> 'a list \<Rightarrow> abort + 'a list" where
  "ConstPropConcatImpl outputShape inputElements axis outputData =
     (if axis < 0 \<or> int (length outputShape) < axis
      then Inl (AssertFailed ''Dropping more elements than exist'')
      else concat_loop inputElements (nat axis)
             (nat (getNumElements (drop (nat axis) outputShape))) 0 outputData)"

definition ConstPropConcat ::
  "mtype \<Rightarrow> 'a ONNXConstantOp list \<Rightarrow> int \<Rightarrow> 'a \<Rightarrow> counter_map
     \<Rightarrow> abort + counter_map \<times> 'a ONNXConstantOp" where
  "ConstPropConcat replacingType operands axisAttr uninit cs =
     (case count ''Concat'' (map resultType operands) cs of
        Inl e \<Rightarrow> Inl e
      | Inr cs' \<Rightarrow>
          (case getShape replacingType of
             Inl e \<Rightarrow> Inl e
           | Inr outputShape \<Rightarrow>
               (let axis = (if axisAttr < 0 then axisAttr + int (length outputShape) else axisAttr) in
                replaceWith cs' replacingType
                  (fromWideNums replacingType uninit
                     (ConstPropConcatImpl outputShape (map valueAttr operands) axis)))))"

subsection \<open>The report and the pass\<close>

text \<open>The decimal digits that \<open>raw_ostream\<close> prints for a \<open>size_t\<close>.\<close>

function show_nat :: "nat \<Rightarrow> string" where
  "show_nat n =
     (if n < 10 then [char_of (48 + n)]
      else show_nat (n div 10) @ [char_of (48 + n mod 10)])"
  by pat_completeness auto
termination
  by (relation "measure id") auto

declare show_nat.simps [simp del]

definition show_size_t :: "64 word \<Rightarrow> string" where
  "show_size_t w = show_nat (unat w)"

text \<open>The two totals of \<open>dump\<close>, summed in \<open>size_t\<close> over the entries of the map.\<close>

definition dump_totals :: "counter_map \<Rightarrow> 64 word \<times> 64 word" where
  "dump_totals m =
     foldl (\<lambda>(total_invocations, total_input_elms) entry.
              (total_invocations + invocations (snd entry),
               total_input_elms + input_elms (snd entry)))
       (0, 0) m"

definition dump :: "counter_map \<Rightarrow> string" where
  "dump m =
     (let (total_invocations, total_input_elms) = dump_totals m in
      ''constprop report (cumulative), entries: '' @ show_nat (length m)
        @ '', total invocations:'' @ show_size_t total_invocations
        @ '', total input elements:'' @ show_size_t total_input_elms @ [CHR 0x0A]
        @ concat (map (\<lambda>entry. ''  '' @ fst entry
                        @ '' invocations:'' @ show_size_t (invocations (snd entry))
                        @ '' input elements:'' @ show_size_t (input_elms (snd entry)) @ [CHR 0x0A])
                    m))"

text \<open>
  The pass. \<open>applyPatternsAndFoldGreedily\<close> is the driver of the host: it is a
  parameter that takes the counter map to the map after all folds and tells whether it
  failed. The pass prints the report to \<open>llvm::outs()\<close> when it was created with
  \<open>report\<close>.
\<close>

record PassResult =
  counters :: counter_map
  passFailure :: bool
  outs :: string

definition runOnOperation ::
  "bool \<Rightarrow> (counter_map \<Rightarrow> abort + counter_map \<times> bool) \<Rightarrow> counter_map \<Rightarrow> abort + PassResult" where
  "runOnOperation report applyPatternsAndFoldGreedily cs =
     (case applyPatternsAndFoldGreedily cs of
        Inl e \<Rightarrow> Inl e
      | Inr (cs', failed) \<Rightarrow>
          Inr \<lparr>counters = cs', passFailure = failed,
               outs = (if report then dump cs' else [])\<rparr>)"

text \<open>
  The number of elements that one operand adds to an entry: \<open>count\<close> adds
  \<open>getNumberOfElements\<close> of each operand it is given, which is defined for the ranked
  tensor types only.
\<close>

fun type_elements :: "mtype \<Rightarrow> int" where
  "type_elements (RankedTensorType shp ty) = getNumElements shp"
| "type_elements t = 0"

subsection \<open>Concrete inputs\<close>

text \<open>A 2 x 2 constant, the input of the Splits below.\<close>

definition split_input_2x2 :: "int Value" where
  "split_input_2x2 = ConstantResult
     \<lparr>resultType = RankedTensorType [2, 2] I32,
      valueAttr = \<lparr>shape = [2, 2], elementType = I32, elems = [1, 2, 3, 4]\<rparr>\<rparr>"

text \<open>A Split of it along axis 0 (of extent 2) into three results.\<close>

definition split_op_uneven :: "(int, int list option) SplitOp" where
  "split_op_uneven =
     \<lparr>splitResults = [RankedTensorType [1, 2] I32, RankedTensorType [1, 2] I32,
                      RankedTensorType [1, 2] I32],
      splitInput = split_input_2x2, splitAxis = 0, splitSplit = None\<rparr>"

text \<open>A Split of a 2 x 4 constant along axis 1 (of extent 4) into two results.\<close>

definition split_op_halves :: "(int, int list option) SplitOp" where
  "split_op_halves =
     \<lparr>splitResults = [RankedTensorType [2, 2] I32, RankedTensorType [2, 2] I32],
      splitInput = ConstantResult
        \<lparr>resultType = RankedTensorType [2, 4] I32,
         valueAttr = \<lparr>shape = [2, 4], elementType = I32, elems = [1, 2, 3, 4, 5, 6, 7, 8]\<rparr>\<rparr>,
      splitAxis = 1, splitSplit = None\<rparr>"

text \<open>A Split of the 2 x 2 constant whose split operand is no constant and not of NoneType.\<close>

definition split_op_dynamic :: "(int, int Value) SplitOp" where
  "split_op_dynamic =
     \<lparr>splitResults = [RankedTensorType [2, 1] I32, RankedTensorType [2, 1] I32],
      splitInput = split_input_2x2, splitAxis = 1,
      splitSplit = OtherValue (RankedTensorType [2] I64)\<rparr>"

text \<open>
  A constant of shape 2147483648 x 0 (no elements), split along axis 0 into two halves
  of 1073741824 rows each.
\<close>

definition split_op_large :: "(int, int list option) SplitOp" where
  "split_op_large =
     \<lparr>splitResults = [RankedTensorType [1073741824, 0] I8, RankedTensorType [1073741824, 0] I8],
      splitInput = ConstantResult
        \<lparr>resultType = RankedTensorType [2147483648, 0] I8,
         valueAttr = \<lparr>shape = [2147483648, 0], elementType = I8, elems = []\<rparr>\<rparr>,
      splitAxis = 0,
      splitSplit = Some [1073741824, 1073741824]\<rparr>"

text \<open>
  Floating-point operations for the examples on integer tensors, none of which is ever
  applied.
\<close>

definition no_floats :: "unit float_ops" where
  "no_floats = \<lparr>float_binary = (\<lambda>OP ty x y. ()), float_unary = (\<lambda>OP ty x. ()),
                 float_divide = (\<lambda>x d. ()), float_of_int = (\<lambda>i. ())\<rparr>"

text \<open>The constant [[1, 2, 3], [4, 5, 6]] of 32-bit integers.\<close>

definition reduce_data_2x3 :: "unit WideNum ONNXConstantOp" where
  "reduce_data_2x3 =
     \<lparr>resultType = RankedTensorType [2, 3] I32,
      valueAttr = \<lparr>shape = [2, 3], elementType = I32,
                   elems = [WideI64 1, WideI64 2, WideI64 3, WideI64 4, WideI64 5, WideI64 6]\<rparr>\<rparr>"

text \<open>
  Floating-point operations without rounding, on rational numbers: they are those of
  C++ wherever the C++ result is exact, as it is in the examples. The square root is
  not among them.
\<close>

definition exact_floats :: "rat float_ops" where
  "exact_floats =
     \<lparr>float_binary = (\<lambda>OP ty x y.
        if OP = ONNXAddOp then x + y else if OP = ONNXSubOp then x - y
        else if OP = ONNXMulOp then x * y else if OP = ONNXDivOp then x / y
        else if OP = ONNXMinOp then min x y else max x y),
      float_unary = (\<lambda>OP ty x. if OP = ONNXNegOp then - x else if OP = ONNXReluOp then max 0 x else x),
      float_divide = (\<lambda>x d. x / of_int d),
      float_of_int = of_int\<rparr>"

text \<open>The constant [[1, 2, 3], [4, 5, 6]] of 32-bit floats.\<close>

definition reduce_data_2x3_f32 :: "rat WideNum ONNXConstantOp" where
  "reduce_data_2x3_f32 =
     \<lparr>resultType = RankedTensorType [2, 3] F32,
      valueAttr = \<lparr>shape = [2, 3], elementType = F32,
                   elems = [WideDbl 1, WideDbl 2, WideDbl 3, WideDbl 4, WideDbl 5, WideDbl 6]\<rparr>\<rparr>"

text \<open>The constant [[10, 20, 30], [40, 50, 61]] of 8-bit unsigned integers.\<close>

definition reduce_data_2x3_ui8 :: "unit WideNum ONNXConstantOp" where
  "reduce_data_2x3_ui8 =
     \<lparr>resultType = RankedTensorType [2, 3] UI8,
      valueAttr = \<lparr>shape = [2, 3], elementType = UI8,
                   elems = [WideU64 10, WideU64 20, WideU64 30, WideU64 40, WideU64 50, WideU64 61]\<rparr>\<rparr>"

text \<open>An empty constant of shape 0 x 3.\<close>

definition reduce_data_empty :: "unit WideNum ONNXConstantOp" where
  "reduce_data_empty =
     \<lparr>resultType = RankedTensorType [0, 3] I32,
      valueAttr = \<lparr>shape = [0, 3], elementType = I32, elems = []\<rparr>\<rparr>"

text \<open>The constant [[10, 20], [30, 40], [50, 60]] and the indices [2, 0, -1].\<close>

definition gather_input_3x2 :: "int ElementsAttr" where
  "gather_input_3x2 = \<lparr>shape = [3, 2], elementType = F32, elems = [10, 20, 30, 40, 50, 60]\<rparr>"

definition gather_indices_3 :: "int ElementsAttr" where
  "gather_indices_3 = \<lparr>shape = [3], elementType = I64, elems = [2, 0, - 1]\<rparr>"

text \<open>The two constants as operands of a Gather.\<close>

definition gather_input_op :: "int ONNXConstantOp" where
  "gather_input_op = \<lparr>resultType = RankedTensorType [3, 2] F32, valueAttr = gather_input_3x2\<rparr>"

definition gather_indices_op :: "int ONNXConstantOp" where
  "gather_indices_op = \<lparr>resultType = RankedTensorType [3] I64, valueAttr = gather_indices_3\<rparr>"

text \<open>
  A ScatterND with a collision: the rows 1, 3 and again 1 of a 4 x 2 tensor of zeros are
  written with the three rows of the updates.
\<close>

definition scatter_data_4x2 :: "int ElementsAttr" where
  "scatter_data_4x2 = \<lparr>shape = [4, 2], elementType = F32, elems = [0, 0, 0, 0, 0, 0, 0, 0]\<rparr>"

definition scatter_indices_3x1 :: "int ElementsAttr" where
  "scatter_indices_3x1 = \<lparr>shape = [3, 1], elementType = I64, elems = [1, 3, 1]\<rparr>"

definition scatter_updates_3x2 :: "int ElementsAttr" where
  "scatter_updates_3x2 = \<lparr>shape = [3, 2], elementType = F32, elems = [1, 2, 3, 4, 5, 6]\<rparr>"

definition slice_input_10 :: "int ONNXConstantOp" where
  "slice_input_10 =
     \<lparr>resultType = RankedTensorType [10] I64,
      valueAttr = \<lparr>shape = [10], elementType = I64, elems = [0, 1, 2, 3, 4, 5, 6, 7, 8, 9]\<rparr>\<rparr>"

text \<open>
  The ScatterND of these three constants; its result is declared with the type of the
  data, as shape inference assigns it.
\<close>

definition scatter_op_4x2 :: "int ScatterNDOp" where
  "scatter_op_4x2 =
     \<lparr>scatterResultType = RankedTensorType [4, 2] F32,
      scatterData = ConstantResult \<lparr>resultType = RankedTensorType [4, 2] F32, valueAttr = scatter_data_4x2\<rparr>,
      scatterIndices = ConstantResult \<lparr>resultType = RankedTensorType [3, 1] I64, valueAttr = scatter_indices_3x1\<rparr>,
      scatterUpdates = ConstantResult \<lparr>resultType = RankedTensorType [3, 2] F32, valueAttr = scatter_updates_3x2\<rparr>\<rparr>"

section \<open>Properties\<close>

subsection \<open>Counters\<close>

lemma count_ranked:
  "count name [RankedTensorType shp ty] cs =
     Inr (AList.update name
            \<lparr>invocations = invocations (entry_of cs name) + 1,
             input_elms = input_elms (entry_of cs name) + word_of_int (getNumElements shp)\<rparr> cs)"
  by (simp add: count_def Let_def)

subsection \<open>Split\<close>

lemma slabs_replicate_nth:
  "i < n \<Longrightarrow> slabs src axis start (replicate n q) ! i = slab src axis (start + i * nat q) (nat q)"
proof (induction n arbitrary: start i)
  case 0
  then show ?case by simp
next
  case (Suc n)
  show ?case
  proof (cases i)
    case 0
    then show ?thesis by simp
  next
    case (Suc j)
    with Suc.prems have "j < n" by simp
    from Suc.IH [OF this, of "start + nat q"] Suc show ?thesis
      by (simp add: algebra_simps)
  qed
qed

lemma length_slabs: "length (slabs src axis start sizes) = length sizes"
  by (induction sizes arbitrary: start) auto

text \<open>
  C8, as the code has it. A split operand that is neither a constant nor of NoneType
  takes ConstPropSplitPattern to \<open>llvm_unreachable("dynamic split not yet supported")\<close>:
  the compilation is aborted, whatever the input of the op is; no diagnostic is attached
  to the op, the counters are not touched and the op is neither folded nor skipped.
\<close>

theorem split_dynamic_sizes_unreachable:
  "splitSplit splitOp = OtherValue t \<Longrightarrow> t \<noteq> NoneType \<Longrightarrow>
   ConstPropSplitPattern splitOp cs = Inl (Unreachable ''dynamic split not yet supported'')"
  by (simp add: ConstPropSplitPattern_def)

theorem split_dynamic_sizes_unreachable_witness:
  "splitSplit split_op_dynamic = OtherValue (RankedTensorType [2] I64)
   \<and> RankedTensorType [2] I64 \<noteq> NoneType
   \<and> ConstPropSplitPattern split_op_dynamic [] =
       Inl (Unreachable ''dynamic split not yet supported'')"
  using split_dynamic_sizes_unreachable [of split_op_dynamic "RankedTensorType [2] I64" "[]"]
  by (simp add: split_op_dynamic_def)

text \<open>
  C8 as stated fails: for a Split whose sizes operand is dynamic the pattern does not
  return with a diagnostic (no rewriter of the file but Slice emits one); it aborts in
  \<open>llvm_unreachable\<close>.
\<close>

theorem split_dynamic_sizes_counterexample:
  "ConstPropSplitPattern
     \<lparr>splitResults = [RankedTensorType [2, 1] I32, RankedTensorType [2, 1] I32],
      splitInput = ConstantResult
        \<lparr>resultType = RankedTensorType [2, 2] I32,
         valueAttr = \<lparr>shape = [2, 2], elementType = I32, elems = [1, 2, 3, 4 :: int]\<rparr>\<rparr>,
      splitAxis = 1,
      splitSplit = OtherValue (RankedTensorType [2] I64)\<rparr> []
   = Inl (Unreachable ''dynamic split not yet supported'')"
  by (simp add: ConstPropSplitPattern_def)

text \<open>
  C9 at a failing input. The two sizes 1073741824 and 1073741824 sum to the extent
  2147483648 of the split axis, and yet the assertion "split values must sum to axis
  size" fails: \<open>std::accumulate\<close> with the initial value \<open>0\<close> sums in a 32-bit
  \<open>int\<close>, where the sum is -2147483648. In the other direction the sizes 4294967296
  and 4 pass the assertion for an axis of extent 4.
\<close>

theorem split_sizes_assertion_wraps:
  "sum_list [1073741824, 1073741824] = (2147483648 :: int)
   \<and> accumulate [1073741824, 1073741824] = - 2147483648
   \<and> ConstPropSplitV11Pattern split_op_large [] =
       Inl (AssertFailed ''split values must sum to axis size'')
   \<and> splitSizes_of 2 4 (Some [4294967296, 4]) = Inr [4294967296, 4]"
  by (simp add: ConstPropSplitV11Pattern_def ConstPropSplitPatternCommon_def split_op_large_def
      count_ranked splitSizes_of_def accumulate_def to_int32_def)

lemma sum_list_replicate_int: "sum_list (replicate n (q :: int)) = int n * q"
  by (induction n) (simp_all add: algebra_simps)

lemma slabs_replicate:
  "slabs src axis start (replicate n q) = map (\<lambda>i. slab src axis (start + i * nat q) (nat q)) [0..<n]"
  by (rule nth_equalityI) (simp_all add: length_slabs slabs_replicate_nth)

lemma sdiv_exact: "(s :: int) smod n = 0 \<Longrightarrow> n * (s sdiv n) = s"
  using mult_sdiv_smod_eq [of n s] by simp

lemma split_even:
  assumes "splitInput splitOp = ConstantResult inputOp"
    and "resultType inputOp = RankedTensorType inputShape ty"
    and "shape (valueAttr inputOp) = inputShape"
    and "0 \<le> splitAxis splitOp" and "splitAxis splitOp < int (length inputShape)"
    and "splitResults splitOp \<noteq> []"
    and "inputShape ! nat (splitAxis splitOp) smod int (length (splitResults splitOp)) = 0"
  shows "ConstPropSplitPatternCommon splitOp None cs =
      Inr (AList.update ''Split''
                  \<lparr>invocations = invocations (entry_of cs ''Split'') + 1,
                   input_elms = input_elms (entry_of cs ''Split'')
                                  + word_of_int (getNumElements inputShape)\<rparr> cs,
                Some (map (\<lambda>i. createReplacingConstantOp (splitResults splitOp ! i)
                             (slab (valueAttr inputOp) (nat (splitAxis splitOp))
                                (i * nat (inputShape ! nat (splitAxis splitOp)
                                            sdiv int (length (splitResults splitOp))))
                                (nat (inputShape ! nat (splitAxis splitOp)
                                        sdiv int (length (splitResults splitOp))))))
                        [0..<length (splitResults splitOp)]))"
proof -
  from assms have "nat (splitAxis splitOp) < length inputShape" by simp
  with assms show ?thesis
    by (simp add: ConstPropSplitPatternCommon_def count_ranked splitSizes_of_def split_def Let_def
        slabs_replicate length_slabs sum_list_replicate_int sdiv_exact)
qed

text \<open>
  C10. A Split of a constant without split sizes. When the extent of the split axis is
  not a multiple of the number of results the fold stops at its assertion. When it is,
  and the elements have the shape of the input's type, the fold returns: it counts the
  input and result \<open>i\<close> is the constant, of the declared type of result \<open>i\<close>, that holds
  the slab of \<open>splitAxisSize / numResults\<close> rows starting at row
  \<open>i * (splitAxisSize / numResults)\<close>. Whenever the fold returns, the extent is such a
  multiple and the results are these slabs.
\<close>

theorem split_without_sizes_is_even:
  assumes "splitInput splitOp = ConstantResult inputOp"
    and "resultType inputOp = RankedTensorType inputShape ty"
    and "0 \<le> splitAxis splitOp" and "splitAxis splitOp < int (length inputShape)"
    and "splitResults splitOp \<noteq> []"
  shows "(inputShape ! nat (splitAxis splitOp) smod int (length (splitResults splitOp)) \<noteq> 0
            \<longrightarrow> ConstPropSplitPatternCommon splitOp None cs = Inl (AssertFailed
               ''The dimension at the split axis is expected to be divisible by the number of results''))
       \<and> (\<forall>cs' res. ConstPropSplitPatternCommon splitOp None cs = Inr (cs', Some res)
            \<longrightarrow> inputShape ! nat (splitAxis splitOp) smod int (length (splitResults splitOp)) = 0
              \<and> length res = length (splitResults splitOp)
              \<and> (\<forall>i < length (splitResults splitOp).
                    res ! i = createReplacingConstantOp (splitResults splitOp ! i)
                      (slab (valueAttr inputOp) (nat (splitAxis splitOp))
                         (i * nat (inputShape ! nat (splitAxis splitOp) sdiv int (length (splitResults splitOp))))
                         (nat (inputShape ! nat (splitAxis splitOp) sdiv int (length (splitResults splitOp)))))))
       \<and> (shape (valueAttr inputOp) = inputShape
            \<longrightarrow> inputShape ! nat (splitAxis splitOp) smod int (length (splitResults splitOp)) = 0
            \<longrightarrow> ConstPropSplitPatternCommon splitOp None cs =
                  Inr (AList.update ''Split''
                         \<lparr>invocations = invocations (entry_of cs ''Split'') + 1,
                          input_elms = input_elms (entry_of cs ''Split'')
                                         + word_of_int (getNumElements inputShape)\<rparr> cs,
                       Some (map (\<lambda>i. createReplacingConstantOp (splitResults splitOp ! i)
                                    (slab (valueAttr inputOp) (nat (splitAxis splitOp))
                                       (i * nat (inputShape ! nat (splitAxis splitOp)
                                                   sdiv int (length (splitResults splitOp))))
                                       (nat (inputShape ! nat (splitAxis splitOp)
                                               sdiv int (length (splitResults splitOp))))))
                               [0..<length (splitResults splitOp)])))"
proof (intro conjI)
  show "inputShape ! nat (splitAxis splitOp) smod int (length (splitResults splitOp)) \<noteq> 0
            \<longrightarrow> ConstPropSplitPatternCommon splitOp None cs = Inl (AssertFailed
               ''The dimension at the split axis is expected to be divisible by the number of results'')"
    using assms
    by (auto simp: ConstPropSplitPatternCommon_def count_ranked splitSizes_of_def Let_def)
  show "\<forall>cs' res. ConstPropSplitPatternCommon splitOp None cs = Inr (cs', Some res)
            \<longrightarrow> inputShape ! nat (splitAxis splitOp) smod int (length (splitResults splitOp)) = 0
              \<and> length res = length (splitResults splitOp)
              \<and> (\<forall>i < length (splitResults splitOp).
                    res ! i = createReplacingConstantOp (splitResults splitOp ! i)
                      (slab (valueAttr inputOp) (nat (splitAxis splitOp))
                         (i * nat (inputShape ! nat (splitAxis splitOp) sdiv int (length (splitResults splitOp))))
                         (nat (inputShape ! nat (splitAxis splitOp) sdiv int (length (splitResults splitOp))))))"
    using assms
    by (auto simp: ConstPropSplitPatternCommon_def count_ranked splitSizes_of_def split_def Let_def
        slabs_replicate_nth length_slabs split: if_splits sum.splits)
  show "shape (valueAttr inputOp) = inputShape
            \<longrightarrow> inputShape ! nat (splitAxis splitOp) smod int (length (splitResults splitOp)) = 0
            \<longrightarrow> ConstPropSplitPatternCommon splitOp None cs =
                  Inr (AList.update ''Split''
                         \<lparr>invocations = invocations (entry_of cs ''Split'') + 1,
                          input_elms = input_elms (entry_of cs ''Split'')
                                         + word_of_int (getNumElements inputShape)\<rparr> cs,
                       Some (map (\<lambda>i. createReplacingConstantOp (splitResults splitOp ! i)
                                    (slab (valueAttr inputOp) (nat (splitAxis splitOp))
                                       (i * nat (inputShape ! nat (splitAxis splitOp)
                                                   sdiv int (length (splitResults splitOp))))
                                       (nat (inputShape ! nat (splitAxis splitOp)
                                               sdiv int (length (splitResults splitOp))))))
                               [0..<length (splitResults splitOp)]))"
    using split_even [OF assms(1,2) _ assms(3,4,5)] by blast
qed

theorem split_without_sizes_is_even_witness:
  "ConstPropSplitPatternCommon split_op_uneven None [] = Inl (AssertFailed
     ''The dimension at the split axis is expected to be divisible by the number of results'')
   \<and> ConstPropSplitPatternCommon split_op_halves None [] =
       Inr ([(''Split'', \<lparr>invocations = 1, input_elms = 8\<rparr>)],
            Some [\<lparr>resultType = RankedTensorType [2, 2] I32,
                   valueAttr = \<lparr>shape = [2, 2], elementType = I32, elems = [1, 2, 5, 6]\<rparr>\<rparr>,
                  \<lparr>resultType = RankedTensorType [2, 2] I32,
                   valueAttr = \<lparr>shape = [2, 2], elementType = I32, elems = [3, 4, 7, 8]\<rparr>\<rparr>])
   \<and> [2, 4] ! nat (splitAxis split_op_halves) sdiv int (length (splitResults split_op_halves)) = (2 :: int)"
proof -
  let ?c = "\<lparr>resultType = RankedTensorType [2, 2] I32,
             valueAttr = \<lparr>shape = [2, 2], elementType = I32, elems = [1, 2, 3, 4 :: int]\<rparr>\<rparr>"
  let ?d = "\<lparr>resultType = RankedTensorType [2, 4] I32,
             valueAttr = \<lparr>shape = [2, 4], elementType = I32, elems = [1, 2, 3, 4, 5, 6, 7, 8 :: int]\<rparr>\<rparr>"
  have h1: "splitInput split_op_uneven = ConstantResult ?c"
    and h2: "resultType ?c = RankedTensorType [2, 2] I32"
    and h3: "0 \<le> splitAxis split_op_uneven" "splitAxis split_op_uneven < int (length [2, 2 :: int])"
    and h4: "splitResults split_op_uneven \<noteq> []"
    and h5: "[2, 2] ! nat (splitAxis split_op_uneven) smod int (length (splitResults split_op_uneven)) \<noteq> 0"
    by (simp_all add: split_op_uneven_def split_input_2x2_def signed_modulo_int_def)
  have uneven: "ConstPropSplitPatternCommon split_op_uneven None [] = Inl (AssertFailed
     ''The dimension at the split axis is expected to be divisible by the number of results'')"
    using split_without_sizes_is_even [OF h1 h2 h3 h4, of "[]"] h5 by blast
  have g1: "splitInput split_op_halves = ConstantResult ?d"
    and g2: "resultType ?d = RankedTensorType [2, 4] I32"
    and g3: "0 \<le> splitAxis split_op_halves" "splitAxis split_op_halves < int (length [2, 4 :: int])"
    and g4: "splitResults split_op_halves \<noteq> []"
    and g5: "shape (valueAttr ?d) = [2, 4]"
    and g6: "[2, 4] ! nat (splitAxis split_op_halves) smod int (length (splitResults split_op_halves)) = 0"
    and q: "[2, 4] ! nat (splitAxis split_op_halves) sdiv int (length (splitResults split_op_halves)) = (2 :: int)"
    by (simp_all add: split_op_halves_def signed_modulo_int_def signed_divide_int_def)
  from split_without_sizes_is_even [OF g1 g2 g3 g4, of "[]"] g5 g6
  have "ConstPropSplitPatternCommon split_op_halves None [] =
                  Inr (AList.update ''Split''
                         \<lparr>invocations = invocations (entry_of [] ''Split'') + 1,
                          input_elms = input_elms (entry_of [] ''Split'')
                                         + word_of_int (getNumElements [2, 4])\<rparr> [],
                       Some (map (\<lambda>i. createReplacingConstantOp (splitResults split_op_halves ! i)
                                    (slab (valueAttr ?d) (nat (splitAxis split_op_halves))
                                       (i * nat ([2, 4] ! nat (splitAxis split_op_halves)
                                                   sdiv int (length (splitResults split_op_halves))))
                                       (nat ([2, 4] ! nat (splitAxis split_op_halves)
                                               sdiv int (length (splitResults split_op_halves))))))
                               [0..<length (splitResults split_op_halves)]))"
    by blast
  then have halves: "ConstPropSplitPatternCommon split_op_halves None [] =
       Inr ([(''Split'', \<lparr>invocations = 1, input_elms = 8\<rparr>)],
            Some [\<lparr>resultType = RankedTensorType [2, 2] I32,
                   valueAttr = \<lparr>shape = [2, 2], elementType = I32, elems = [1, 2, 5, 6]\<rparr>\<rparr>,
                  \<lparr>resultType = RankedTensorType [2, 2] I32,
                   valueAttr = \<lparr>shape = [2, 2], elementType = I32, elems = [3, 4, 7, 8]\<rparr>\<rparr>])"
    by (simp add: q split_op_halves_def entry_of_def slab_def Let_def
        createReplacingConstantOp_def getNumElements_def upt_conv_Cons)
  from uneven halves q show ?thesis by blast
qed

subsection \<open>Reductions\<close>

lemma mapM_length: "mapM f xs = Inr ys \<Longrightarrow> length ys = length xs"
  by (induction xs arbitrary: ys) (auto split: sum.splits)

lemma reduce_shape_elems:
  "reduce src axes keepDims combiner = Inr r \<Longrightarrow>
     shape r = reduce_shape (shape src) axes keepDims \<and> elementType r = elementType src
     \<and> length (elems r) = nat (getNumElements (reduce_dims (shape src) axes))"
  by (auto simp: reduce_def split: sum.splits dest: mapM_length)

lemma prod_reduce_dims:
  "prod_list (reduce_dims shp axes) = (\<Prod>i \<in> {0..<length shp} - set axes. shp ! i)"
proof -
  have "prod_list (reduce_dims shp axes) = (\<Prod>i = 0..<length shp. if i \<in> set axes then 1 else shp ! i)"
    by (simp add: reduce_dims_def prod.distinct_set_conv_list [symmetric])
  also have "\<dots> = (\<Prod>i \<in> {0..<length shp} - set axes. shp ! i)"
    by (rule prod.mono_neutral_cong_right) auto
  finally show ?thesis .
qed

lemma prod_reduce_shape:
  "prod_list (reduce_shape shp axes keepDims) = (\<Prod>i \<in> {0..<length shp} - set axes. shp ! i)"
proof (cases keepDims)
  case True
  then show ?thesis by (simp add: reduce_shape_def prod_reduce_dims)
next
  case False
  have "set (filter (\<lambda>i. i \<notin> set axes) [0..<length shp]) = {0..<length shp} - set axes" by auto
  moreover have "distinct (filter (\<lambda>i. i \<notin> set axes) [0..<length shp])" by simp
  ultimately show ?thesis using False
    by (simp add: reduce_shape_def prod.distinct_set_conv_list [symmetric])
qed

lemma prod_split_axes:
  assumes "distinct axes" and "set axes \<subseteq> {0..<length shp}"
  shows "prod_list shp = prod_list (reduce_dims shp axes) * prod_list (map (\<lambda>a. shp ! a) axes)"
proof -
  have "prod_list shp = prod_list (map (\<lambda>i. shp ! i) [0..<length shp])" by (simp add: map_nth)
  also have "\<dots> = (\<Prod>i = 0..<length shp. shp ! i)"
    by (simp add: prod.distinct_set_conv_list [symmetric])
  also have "\<dots> = (\<Prod>i \<in> {0..<length shp} - set axes. shp ! i) * (\<Prod>i \<in> set axes. shp ! i)"
    using assms by (intro prod.subset_diff) auto
  also have "(\<Prod>i \<in> set axes. shp ! i) = prod_list (map (\<lambda>a. shp ! a) axes)"
    using assms by (simp add: prod.distinct_set_conv_list)
  finally show ?thesis by (simp add: prod_reduce_dims)
qed

lemma absolute_axes_inv:
  "absolute_axes rank axesRange acc = Inr axes \<Longrightarrow> distinct acc \<Longrightarrow> set acc \<subseteq> {0..<nat rank}
     \<Longrightarrow> distinct axes \<and> set axes \<subseteq> {0..<nat rank}"
proof (induction axesRange arbitrary: acc)
  case Nil then show ?case by simp
next
  case (Cons a axesRange)
  from Cons.prems(1) have ok: "- rank \<le> a" "a < rank"
    and nd: "nat (if a < 0 then a + rank else a) \<notin> set acc"
    and rec: "absolute_axes rank axesRange (acc @ [nat (if a < 0 then a + rank else a)]) = Inr axes"
    by (auto simp: Let_def split: if_splits)
  show ?case
  proof (rule Cons.IH [OF rec])
    show "distinct (acc @ [nat (if a < 0 then a + rank else a)])" using nd Cons.prems(2) by simp
    show "set (acc @ [nat (if a < 0 then a + rank else a)]) \<subseteq> {0..<nat rank}"
      using ok Cons.prems(3) by auto
  qed
qed


lemma effective_axes_inv:
  assumes "absolute_axes rank axesRange [] = Inr absoluteAxes" and "0 \<le> rank"
  shows "distinct (effective_axes op rank absoluteAxes)
       \<and> set (effective_axes op rank absoluteAxes) \<subseteq> {0..<nat rank}"
  using absolute_axes_inv [OF assms(1)] by (auto simp: effective_axes_def)

lemma mapM_nth: "mapM f xs = Inr ys \<Longrightarrow> i < length xs \<Longrightarrow> f (xs ! i) = Inr (ys ! i)"
proof (induction xs arbitrary: ys i)
  case Nil then show ?case by simp
next
  case (Cons x xs)
  then show ?case by (cases i) (auto split: sum.splits)
qed

lemma size_of_reduce:
  assumes "reduce src axes keepDims combiner = Inr r"
  shows "size_of r = prod_list (reduce_dims (shape src) axes)"
  using reduce_shape_elems [OF assms]
  by (simp add: size_of_def getNumElements_def prod_reduce_shape prod_reduce_dims)

lemma mean_denominator:
  assumes red: "reduce data A keepDims combiner = Inr s"
    and A: "distinct A" "set A \<subseteq> {0..<length (shape data)}"
    and ne: "size_of data \<noteq> 0"
  shows "size_of s \<noteq> 0" and "size_of data mod size_of s = 0"
    and "size_of data div size_of s = prod_list (map (\<lambda>a. shape data ! a) A)"
proof -
  have eq: "size_of data = size_of s * prod_list (map (\<lambda>a. shape data ! a) A)"
    using prod_split_axes [OF A] size_of_reduce [OF red] by (simp add: size_of_def getNumElements_def)
  with ne show nz: "size_of s \<noteq> 0" by auto
  from eq show "size_of data mod size_of s = 0" by simp
  from eq nz show "size_of data div size_of s = prod_list (map (\<lambda>a. shape data ! a) A)" by simp
qed

lemma reduce_mean_structure:
  assumes nonempty: "\<not> empty_attr (valueAttr dataValue)"
    and cnt: "count ''Reduce'' [resultType dataValue] cs = Inr cs'"
    and axes: "absolute_axes (int (length (shape (valueAttr dataValue)))) axesRange [] = Inr absoluteAxes"
    and eff: "effective_axes op (int (length (shape (valueAttr dataValue)))) absoluteAxes = A" "A \<noteq> []"
  shows "ConstPropReduceAxesRange fo ONNXReduceMeanOp op replacingType dataValue axesRange cs =
      (case reduce (valueAttr dataValue) A (getSIntAttr op ''keepdims'' 1 \<noteq> 0)
              (elementwiseBinaryOpCombiner fo ONNXAddOp (elementType (valueAttr dataValue))) of
         Inl e \<Rightarrow> Inl e
       | Inr s \<Rightarrow>
           (case divideBy fo (elementType (valueAttr dataValue))
                   (prod_list (map (\<lambda>a. shape (valueAttr dataValue) ! a) A)) of
              Inl e \<Rightarrow> Inl e
            | Inr f \<Rightarrow>
                (case transform s (elementType (valueAttr dataValue)) f of
                   Inl e \<Rightarrow> Inl e
                 | Inr reduced \<Rightarrow> Inr (cs', createReplacingConstantOp replacingType reduced))))"
    (is "?lhs = ?rhs")
proof -
  let ?data = "valueAttr dataValue"
  have A: "distinct A" "set A \<subseteq> {0..<length (shape ?data)}"
    using effective_axes_inv [OF axes, of op] eff by auto
  have ne: "size_of ?data \<noteq> 0" using nonempty by (simp add: empty_attr_def)
  show ?thesis
  proof (cases "reduce ?data A (getSIntAttr op ''keepdims'' 1 \<noteq> 0)
              (elementwiseBinaryOpCombiner fo ONNXAddOp (elementType ?data))")
    case (Inl e)
    then show ?thesis using cnt axes eff nonempty
      by (simp add: ConstPropReduceAxesRange_def reduced_elements_def Let_def)
  next
    case (Inr s)
    note d = mean_denominator [OF Inr A ne]
    show ?thesis using cnt axes eff nonempty Inr d
      by (simp add: ConstPropReduceAxesRange_def reduced_elements_def Let_def split: sum.splits)
  qed
qed


lemma prod_list_nonneg_int: "list_all (\<lambda>d. 0 \<le> d) (xs :: int list) \<Longrightarrow> 0 \<le> prod_list xs"
  by (induction xs) auto

lemma reduced_extents_bounds:
  assumes red: "reduce data A keepDims combiner = Inr s"
    and A: "distinct A" "set A \<subseteq> {0..<length (shape data)}"
    and ne: "size_of data \<noteq> 0" and wf: "list_all (\<lambda>d. 0 \<le> d) (shape data)"
  shows "0 < prod_list (map (\<lambda>a. shape data ! a) A)"
    and "prod_list (map (\<lambda>a. shape data ! a) A) \<le> size_of data"
proof -
  let ?P = "prod_list (map (\<lambda>a. shape data ! a) A)"
  let ?K = "prod_list (reduce_dims (shape data) A)"
  have eq: "size_of data = ?K * ?P"
    using prod_split_axes [OF A] by (simp add: size_of_def getNumElements_def)
  have "list_all (\<lambda>d. 0 \<le> d) (map (\<lambda>a. shape data ! a) A)"
    using wf A by (auto simp: list_all_iff)
  then have P0: "0 \<le> ?P" by (rule prod_list_nonneg_int)
  have "list_all (\<lambda>d. 0 \<le> d) (reduce_dims (shape data) A)"
    using wf by (auto simp: list_all_iff reduce_dims_def)
  then have K0: "0 \<le> ?K" by (rule prod_list_nonneg_int)
  from eq ne have "?P \<noteq> 0" "?K \<noteq> 0" by auto
  with P0 K0 show "0 < ?P" and "?P \<le> size_of data" using eq by (auto simp: mult_le_cancel_right1)
qed


lemma absolute_axes_upt:
  "k \<le> n \<Longrightarrow> absolute_axes (int n) (map int [k..<n]) [0..<k] = Inr [0..<n]"
proof (induction "n - k" arbitrary: k)
  case 0
  then show ?case by simp
next
  case (Suc m)
  then have k: "k < n" and m: "m = n - Suc k" by auto
  from Suc.hyps(1) [OF m] k have "absolute_axes (int n) (map int [Suc k..<n]) [0..<Suc k] = Inr [0..<n]"
    by simp
  with k show ?case by (simp add: upt_conv_Cons Let_def)
qed

lemma absolute_axes_all:
  "absolute_axes (int n) (map int [0..<n]) [] = Inr [0..<n]"
  using absolute_axes_upt [of 0 n] by simp

lemma reduce_all_axes:
  assumes "getSIntAttr op ''noop_with_empty_axes'' 0 = 0"
  shows "ConstPropReduceAxesRange fo ReduceOp op replacingType dataValue [] cs =
         ConstPropReduceAxesRange fo ReduceOp op replacingType dataValue
           (map int [0..<length (shape (valueAttr dataValue))]) cs"
  using assms
  by (simp add: ConstPropReduceAxesRange_def Let_def absolute_axes_all effective_axes_def
      split: sum.splits)

lemma reduce_noop:
  assumes "getSIntAttr op ''noop_with_empty_axes'' 0 \<noteq> 0"
  shows "ConstPropReduceAxesRange fo ReduceOp op replacingType dataValue [] cs =
         (case count ''Reduce'' [resultType dataValue] cs of
            Inl e \<Rightarrow> Inl e
          | Inr cs' \<Rightarrow> Inr (cs', createReplacingConstantOp replacingType (valueAttr dataValue)))"
  using assms
  by (simp add: ConstPropReduceAxesRange_def Let_def effective_axes_def reduced_elements_def
      split: sum.splits)

lemma reduce_all_axes_direct:
  assumes "getSIntAttr op ''noop_with_empty_axes'' 0 = 0"
    and "shape (valueAttr dataValue) \<noteq> []" and "\<not> empty_attr (valueAttr dataValue)"
    and "ReduceOp \<noteq> ONNXReduceMeanOp"
  shows "ConstPropReduceAxesRange fo ReduceOp op replacingType dataValue [] cs =
         (case count ''Reduce'' [resultType dataValue] cs of
            Inl e \<Rightarrow> Inl e
          | Inr cs' \<Rightarrow>
              (case reduce (valueAttr dataValue) [0..<length (shape (valueAttr dataValue))]
                      (getSIntAttr op ''keepdims'' 1 \<noteq> 0)
                      (elementwiseBinaryOpCombiner fo ReduceOp (elementType (valueAttr dataValue))) of
                 Inl e \<Rightarrow> Inl e
               | Inr reduced \<Rightarrow> Inr (cs', createReplacingConstantOp replacingType reduced)))"
  using assms
  by (simp add: ConstPropReduceAxesRange_def Let_def effective_axes_def reduced_elements_def
      split: sum.splits)

lemma reduce_result_shape:
  assumes ne: "\<not> empty_attr (valueAttr dataValue)"
    and axes: "absolute_axes (int (length (shape (valueAttr dataValue)))) axesRange [] = Inr absoluteAxes"
    and eff: "effective_axes op (int (length (shape (valueAttr dataValue)))) absoluteAxes = A" "A \<noteq> []"
    and run: "ConstPropReduceAxesRange fo ReduceOp op replacingType dataValue axesRange cs = Inr (cs', c)"
  shows "shape (valueAttr c) =
           reduce_shape (shape (valueAttr dataValue)) A (getSIntAttr op ''keepdims'' 1 \<noteq> 0)"
proof (cases "ReduceOp = ONNXReduceMeanOp")
  case True
  with run ne axes eff show ?thesis
    by (auto simp: ConstPropReduceAxesRange_def Let_def reduced_elements_def transform_def
        createReplacingConstantOp_def split: sum.splits if_splits dest: reduce_shape_elems)
next
  case False
  with run ne axes eff show ?thesis
    by (auto simp: ConstPropReduceAxesRange_def Let_def reduced_elements_def
        createReplacingConstantOp_def split: sum.splits dest: reduce_shape_elems)
qed

lemma reduce_empty:
  assumes empty: "empty_attr (valueAttr dataValue)"
    and cnt: "count ''Reduce'' [resultType dataValue] cs = Inr cs'"
    and axes: "absolute_axes (int (length (shape (valueAttr dataValue)))) axesRange [] = Inr absoluteAxes"
    and eff: "effective_axes op (int (length (shape (valueAttr dataValue)))) absoluteAxes \<noteq> []"
  shows "ConstPropReduceAxesRange fo ReduceOp op replacingType dataValue axesRange cs =
           (case getIdentity fo ReduceOp (elementType (valueAttr dataValue)) of
              Inl e \<Rightarrow> Inl e
            | Inr identity \<Rightarrow>
                (case DenseElementsAttr_get replacingType identity of
                   Inl e \<Rightarrow> Inl e
                 | Inr reduced \<Rightarrow> Inr (cs', createReplacingConstantOp replacingType reduced)))"
  using assms
  by (simp add: ConstPropReduceAxesRange_def Let_def reduced_elements_def split: sum.splits)


text \<open>
  C2. The attribute \<open>noop_with_empty_axes\<close> is 0 and the attribute \<open>keepdims\<close> is 1
  when absent. With no axes and \<open>noop_with_empty_axes\<close> equal to 0 the fold is the fold
  over the axes \<open>0, ..., rank - 1\<close>: for a non-empty constant of rank at least 1 it is
  the builder's reduce over all axes. With no axes and \<open>noop_with_empty_axes\<close> not 0 the
  fold returns a constant that holds the elements attribute of the input. When a
  non-empty constant is reduced over a non-empty set of axes, \<open>keepdims\<close> decides the
  shape of the elements: the reduced axes have extent 1 when it is not 0 and are removed
  when it is 0.
\<close>

theorem reduce_empty_axes_and_keepdims:
  "(op ''noop_with_empty_axes'' = None \<longrightarrow> getSIntAttr op ''noop_with_empty_axes'' 0 = 0)
   \<and> (op ''keepdims'' = None \<longrightarrow> getSIntAttr op ''keepdims'' 1 = 1)
   \<and> (getSIntAttr op ''noop_with_empty_axes'' 0 = 0 \<longrightarrow>
        ConstPropReduceAxesRange fo ReduceOp op replacingType dataValue [] cs =
        ConstPropReduceAxesRange fo ReduceOp op replacingType dataValue
          (map int [0..<length (shape (valueAttr dataValue))]) cs)
   \<and> (getSIntAttr op ''noop_with_empty_axes'' 0 = 0 \<longrightarrow> shape (valueAttr dataValue) \<noteq> [] \<longrightarrow>
        \<not> empty_attr (valueAttr dataValue) \<longrightarrow> ReduceOp \<noteq> ONNXReduceMeanOp \<longrightarrow>
        ConstPropReduceAxesRange fo ReduceOp op replacingType dataValue [] cs =
         (case count ''Reduce'' [resultType dataValue] cs of
            Inl e \<Rightarrow> Inl e
          | Inr cs' \<Rightarrow>
              (case reduce (valueAttr dataValue) [0..<length (shape (valueAttr dataValue))]
                      (getSIntAttr op ''keepdims'' 1 \<noteq> 0)
                      (elementwiseBinaryOpCombiner fo ReduceOp (elementType (valueAttr dataValue))) of
                 Inl e \<Rightarrow> Inl e
               | Inr reduced \<Rightarrow> Inr (cs', createReplacingConstantOp replacingType reduced))))
   \<and> (getSIntAttr op ''noop_with_empty_axes'' 0 \<noteq> 0 \<longrightarrow>
        ConstPropReduceAxesRange fo ReduceOp op replacingType dataValue [] cs =
         (case count ''Reduce'' [resultType dataValue] cs of
            Inl e \<Rightarrow> Inl e
          | Inr cs' \<Rightarrow> Inr (cs', createReplacingConstantOp replacingType (valueAttr dataValue))))
   \<and> (\<forall>absoluteAxes A cs' c.
        \<not> empty_attr (valueAttr dataValue) \<longrightarrow>
        absolute_axes (int (length (shape (valueAttr dataValue)))) axesRange [] = Inr absoluteAxes \<longrightarrow>
        effective_axes op (int (length (shape (valueAttr dataValue)))) absoluteAxes = A \<longrightarrow>
        A \<noteq> [] \<longrightarrow>
        ConstPropReduceAxesRange fo ReduceOp op replacingType dataValue axesRange cs = Inr (cs', c) \<longrightarrow>
        shape (valueAttr c) =
          (if getSIntAttr op ''keepdims'' 1 \<noteq> 0
           then map (\<lambda>i. if i \<in> set A then 1 else shape (valueAttr dataValue) ! i)
                  [0..<length (shape (valueAttr dataValue))]
           else map (\<lambda>i. shape (valueAttr dataValue) ! i)
                  (filter (\<lambda>i. i \<notin> set A) [0..<length (shape (valueAttr dataValue))])))"
proof (intro conjI allI impI)
  show "getSIntAttr op ''noop_with_empty_axes'' 0 = 0" if "op ''noop_with_empty_axes'' = None"
    using that by (simp add: getSIntAttr_def)
  show "getSIntAttr op ''keepdims'' 1 = 1" if "op ''keepdims'' = None"
    using that by (simp add: getSIntAttr_def)
next
  assume "getSIntAttr op ''noop_with_empty_axes'' 0 = 0"
  then show "ConstPropReduceAxesRange fo ReduceOp op replacingType dataValue [] cs =
        ConstPropReduceAxesRange fo ReduceOp op replacingType dataValue
          (map int [0..<length (shape (valueAttr dataValue))]) cs"
    by (rule reduce_all_axes)
next
  assume "getSIntAttr op ''noop_with_empty_axes'' 0 = 0" "shape (valueAttr dataValue) \<noteq> []"
    "\<not> empty_attr (valueAttr dataValue)" "ReduceOp \<noteq> ONNXReduceMeanOp"
  then show "ConstPropReduceAxesRange fo ReduceOp op replacingType dataValue [] cs =
         (case count ''Reduce'' [resultType dataValue] cs of
            Inl e \<Rightarrow> Inl e
          | Inr cs' \<Rightarrow>
              (case reduce (valueAttr dataValue) [0..<length (shape (valueAttr dataValue))]
                      (getSIntAttr op ''keepdims'' 1 \<noteq> 0)
                      (elementwiseBinaryOpCombiner fo ReduceOp (elementType (valueAttr dataValue))) of
                 Inl e \<Rightarrow> Inl e
               | Inr reduced \<Rightarrow> Inr (cs', createReplacingConstantOp replacingType reduced)))"
    by (rule reduce_all_axes_direct)
next
  assume "getSIntAttr op ''noop_with_empty_axes'' 0 \<noteq> 0"
  then show "ConstPropReduceAxesRange fo ReduceOp op replacingType dataValue [] cs =
         (case count ''Reduce'' [resultType dataValue] cs of
            Inl e \<Rightarrow> Inl e
          | Inr cs' \<Rightarrow> Inr (cs', createReplacingConstantOp replacingType (valueAttr dataValue)))"
    by (rule reduce_noop)
next
  fix absoluteAxes A cs' c
  assume "\<not> empty_attr (valueAttr dataValue)"
    "absolute_axes (int (length (shape (valueAttr dataValue)))) axesRange [] = Inr absoluteAxes"
    "effective_axes op (int (length (shape (valueAttr dataValue)))) absoluteAxes = A" "A \<noteq> []"
    "ConstPropReduceAxesRange fo ReduceOp op replacingType dataValue axesRange cs = Inr (cs', c)"
  from reduce_result_shape [OF this]
  show "shape (valueAttr c) =
          (if getSIntAttr op ''keepdims'' 1 \<noteq> 0
           then map (\<lambda>i. if i \<in> set A then 1 else shape (valueAttr dataValue) ! i)
                  [0..<length (shape (valueAttr dataValue))]
           else map (\<lambda>i. shape (valueAttr dataValue) ! i)
                  (filter (\<lambda>i. i \<notin> set A) [0..<length (shape (valueAttr dataValue))]))"
    by (simp add: reduce_shape_def reduce_dims_def)
qed


theorem reduce_empty_axes_and_keepdims_witness:
  "ConstPropReduceAxesRange no_floats ONNXAddOp Map.empty (RankedTensorType [1, 1] I32)
       reduce_data_2x3 [] []
     = Inr ([(''Reduce'', \<lparr>invocations = 1, input_elms = 6\<rparr>)],
            \<lparr>resultType = RankedTensorType [1, 1] I32,
             valueAttr = \<lparr>shape = [1, 1], elementType = I32, elems = [WideI64 21]\<rparr>\<rparr>)
   \<and> ConstPropReduceAxesRange no_floats ONNXMaxOp [''noop_with_empty_axes'' \<mapsto> 1]
       (RankedTensorType [2, 3] I32) reduce_data_2x3 [] []
     = Inr ([(''Reduce'', \<lparr>invocations = 1, input_elms = 6\<rparr>)],
            \<lparr>resultType = RankedTensorType [2, 3] I32, valueAttr = valueAttr reduce_data_2x3\<rparr>)
   \<and> ConstPropReduceAxesRange no_floats ONNXAddOp [''keepdims'' \<mapsto> 0]
       (RankedTensorType [2] I32) reduce_data_2x3 [1] []
     = Inr ([(''Reduce'', \<lparr>invocations = 1, input_elms = 6\<rparr>)],
            \<lparr>resultType = RankedTensorType [2] I32,
             valueAttr = \<lparr>shape = [2], elementType = I32, elems = [WideI64 6, WideI64 15]\<rparr>\<rparr>)
   \<and> shape \<lparr>shape = [2], elementType = I32, elems = [WideI64 6, WideI64 15 :: unit WideNum]\<rparr>
       = map (\<lambda>i. shape (valueAttr reduce_data_2x3) ! i) (filter (\<lambda>i. i \<notin> set [1]) [0..<2])"
proof -
  let ?all = "ConstPropReduceAxesRange no_floats ONNXAddOp Map.empty (RankedTensorType [1, 1] I32)
       reduce_data_2x3"
  have rank: "length (shape (valueAttr reduce_data_2x3)) = 2"
    and ne: "\<not> empty_attr (valueAttr reduce_data_2x3)"
    by (simp_all add: reduce_data_2x3_def empty_attr_def size_of_def getNumElements_def)
  have "getSIntAttr Map.empty ''noop_with_empty_axes'' 0 = 0"
    by (simp add: getSIntAttr_def)
  with reduce_empty_axes_and_keepdims [where op = Map.empty and fo = no_floats
      and ReduceOp = ONNXAddOp and replacingType = "RankedTensorType [1, 1] I32"
      and dataValue = reduce_data_2x3 and cs = "[]"]
  have "?all [] [] = ?all (map int [0..<length (shape (valueAttr reduce_data_2x3))]) []"
    by blast
  also have "map int [0..<length (shape (valueAttr reduce_data_2x3))] = [0, 1]"
    by (simp add: rank upt_conv_Cons)
  also have "?all [0, 1] [] = Inr ([(''Reduce'', \<lparr>invocations = 1, input_elms = 6\<rparr>)],
            \<lparr>resultType = RankedTensorType [1, 1] I32,
             valueAttr = \<lparr>shape = [1, 1], elementType = I32, elems = [WideI64 21]\<rparr>\<rparr>)"
    by code_simp
  finally have first: "?all [] [] = Inr ([(''Reduce'', \<lparr>invocations = 1, input_elms = 6\<rparr>)],
            \<lparr>resultType = RankedTensorType [1, 1] I32,
             valueAttr = \<lparr>shape = [1, 1], elementType = I32, elems = [WideI64 21]\<rparr>\<rparr>)" .
  have "getSIntAttr [''noop_with_empty_axes'' \<mapsto> 1] ''noop_with_empty_axes'' 0 \<noteq> 0"
    by (simp add: getSIntAttr_def)
  with reduce_empty_axes_and_keepdims [where op = "[''noop_with_empty_axes'' \<mapsto> 1]"
      and fo = no_floats and ReduceOp = ONNXMaxOp and replacingType = "RankedTensorType [2, 3] I32"
      and dataValue = reduce_data_2x3 and cs = "[]"]
  have "ConstPropReduceAxesRange no_floats ONNXMaxOp [''noop_with_empty_axes'' \<mapsto> 1]
       (RankedTensorType [2, 3] I32) reduce_data_2x3 [] []
     = (case count ''Reduce'' [resultType reduce_data_2x3] [] of
            Inl e \<Rightarrow> Inl e
          | Inr cs' \<Rightarrow> Inr (cs', createReplacingConstantOp (RankedTensorType [2, 3] I32)
                                  (valueAttr reduce_data_2x3)))"
    by blast
  then have second: "ConstPropReduceAxesRange no_floats ONNXMaxOp [''noop_with_empty_axes'' \<mapsto> 1]
       (RankedTensorType [2, 3] I32) reduce_data_2x3 [] []
     = Inr ([(''Reduce'', \<lparr>invocations = 1, input_elms = 6\<rparr>)],
            \<lparr>resultType = RankedTensorType [2, 3] I32, valueAttr = valueAttr reduce_data_2x3\<rparr>)"
    by (simp add: reduce_data_2x3_def count_ranked entry_of_def getNumElements_def
        createReplacingConstantOp_def)
  let ?c = "\<lparr>resultType = RankedTensorType [2] I32,
             valueAttr = \<lparr>shape = [2], elementType = I32, elems = [WideI64 6, WideI64 15 :: unit WideNum]\<rparr>\<rparr>"
  have run: "ConstPropReduceAxesRange no_floats ONNXAddOp [''keepdims'' \<mapsto> 0]
       (RankedTensorType [2] I32) reduce_data_2x3 [1] []
     = Inr ([(''Reduce'', \<lparr>invocations = 1, input_elms = 6\<rparr>)], ?c)"
    by code_simp
  have axes: "absolute_axes (int (length (shape (valueAttr reduce_data_2x3)))) [1] [] = Inr [1]"
    and eff: "effective_axes [''keepdims'' \<mapsto> 0] (int (length (shape (valueAttr reduce_data_2x3)))) [1] = [1]"
    and kd: "\<not> getSIntAttr [''keepdims'' \<mapsto> 0] ''keepdims'' 1 \<noteq> 0"
    by (simp_all add: rank effective_axes_def getSIntAttr_def)
  from reduce_empty_axes_and_keepdims [where op = "[''keepdims'' \<mapsto> 0]"
      and fo = no_floats and ReduceOp = ONNXAddOp and replacingType = "RankedTensorType [2] I32"
      and dataValue = reduce_data_2x3 and cs = "[]" and axesRange = "[1]"] ne axes eff run
  have "shape (valueAttr ?c) =
          (if getSIntAttr [''keepdims'' \<mapsto> 0] ''keepdims'' 1 \<noteq> 0
           then map (\<lambda>i. if i \<in> set [1] then 1 else shape (valueAttr reduce_data_2x3) ! i)
                  [0..<length (shape (valueAttr reduce_data_2x3))]
           else map (\<lambda>i. shape (valueAttr reduce_data_2x3) ! i)
                  (filter (\<lambda>i. i \<notin> set [1]) [0..<length (shape (valueAttr reduce_data_2x3))]))"
    by blast
  with kd have third: "shape \<lparr>shape = [2], elementType = I32, elems = [WideI64 6, WideI64 15 :: unit WideNum]\<rparr>
       = map (\<lambda>i. shape (valueAttr reduce_data_2x3) ! i) (filter (\<lambda>i. i \<notin> set [1]) [0..<2])"
    by (simp add: rank)
  from first second run third show ?thesis by blast
qed

text \<open>
  C5, as the code has it. For an empty constant and a non-empty set of effective axes,
  ReduceSum gives the declared (static) result type filled with the zero of the data's
  element type and ReduceProd gives it filled with the one; ReduceMin, ReduceMax and
  ReduceMean reach \<open>llvm_unreachable\<close> in \<open>getIdentity\<close>: the compilation is aborted and
  no value is produced.
\<close>

theorem reduce_of_empty_tensor:
  assumes empty: "empty_attr (valueAttr dataValue)"
    and cnt: "count ''Reduce'' [resultType dataValue] cs = Inr cs'"
    and axes: "absolute_axes (int (length (shape (valueAttr dataValue)))) axesRange [] = Inr absoluteAxes"
    and eff: "effective_axes op (int (length (shape (valueAttr dataValue)))) absoluteAxes \<noteq> []"
    and static: "list_all (\<lambda>d. 0 \<le> d) shp"
  shows "ConstPropReduceAxesRange fo ONNXAddOp op (RankedTensorType shp ty) dataValue axesRange cs =
           Inr (cs', \<lparr>resultType = RankedTensorType shp ty,
                      valueAttr = \<lparr>shape = shp, elementType = ty,
                        elems = replicate (nat (prod_list shp))
                          (case familyOf (elementType (valueAttr dataValue)) of
                             SignedInt \<Rightarrow> WideI64 0
                           | UnsignedInt \<Rightarrow> WideU64 0
                           | FloatFamily \<Rightarrow> WideDbl (float_of_int fo 0)
                           | BoolFamily \<Rightarrow> WideBool False)\<rparr>\<rparr>)
       \<and> ConstPropReduceAxesRange fo ONNXMulOp op (RankedTensorType shp ty) dataValue axesRange cs =
           Inr (cs', \<lparr>resultType = RankedTensorType shp ty,
                      valueAttr = \<lparr>shape = shp, elementType = ty,
                        elems = replicate (nat (prod_list shp))
                          (case familyOf (elementType (valueAttr dataValue)) of
                             SignedInt \<Rightarrow> WideI64 1
                           | UnsignedInt \<Rightarrow> WideU64 1
                           | FloatFamily \<Rightarrow> WideDbl (float_of_int fo 1)
                           | BoolFamily \<Rightarrow> WideBool True)\<rparr>\<rparr>)
       \<and> ConstPropReduceAxesRange fo ONNXMinOp op replacingType dataValue axesRange cs =
           Inl (Unreachable ''reduce op has no identify, zero-size tensor unsupported'')
       \<and> ConstPropReduceAxesRange fo ONNXMaxOp op replacingType dataValue axesRange cs =
           Inl (Unreachable ''reduce op has no identify, zero-size tensor unsupported'')
       \<and> ConstPropReduceAxesRange fo ONNXReduceMeanOp op replacingType dataValue axesRange cs =
           Inl (Unreachable ''reduce op has no identify, zero-size tensor unsupported'')"
  using static
  by (simp add: reduce_empty [OF empty cnt axes eff] getIdentity_def DenseElementsAttr_get_def
      createReplacingConstantOp_def getNumElements_def split: family.splits)

theorem reduce_of_empty_tensor_witness:
  "ConstPropReduceAxesRange no_floats ONNXAddOp Map.empty (RankedTensorType [1, 3] I32)
       reduce_data_empty [0] []
     = Inr ([(''Reduce'', \<lparr>invocations = 1, input_elms = 0\<rparr>)],
            \<lparr>resultType = RankedTensorType [1, 3] I32,
             valueAttr = \<lparr>shape = [1, 3], elementType = I32, elems = [WideI64 0, WideI64 0, WideI64 0]\<rparr>\<rparr>)
   \<and> ConstPropReduceAxesRange no_floats ONNXMulOp Map.empty (RankedTensorType [1, 3] I32)
       reduce_data_empty [0] []
     = Inr ([(''Reduce'', \<lparr>invocations = 1, input_elms = 0\<rparr>)],
            \<lparr>resultType = RankedTensorType [1, 3] I32,
             valueAttr = \<lparr>shape = [1, 3], elementType = I32, elems = [WideI64 1, WideI64 1, WideI64 1]\<rparr>\<rparr>)
   \<and> ConstPropReduceAxesRange no_floats ONNXReduceMeanOp Map.empty (RankedTensorType [1, 3] I32)
       reduce_data_empty [0] []
     = Inl (Unreachable ''reduce op has no identify, zero-size tensor unsupported'')"
proof -
  have empty: "empty_attr (valueAttr reduce_data_empty)"
    and cnt: "count ''Reduce'' [resultType reduce_data_empty] []
               = Inr [(''Reduce'', \<lparr>invocations = 1, input_elms = 0\<rparr>)]"
    and axes: "absolute_axes (int (length (shape (valueAttr reduce_data_empty)))) [0] [] = Inr [0]"
    and eff: "effective_axes Map.empty (int (length (shape (valueAttr reduce_data_empty)))) [0] \<noteq> []"
    and static: "list_all (\<lambda>d. 0 \<le> d) [1, 3 :: int]"
    by (simp_all add: reduce_data_empty_def empty_attr_def size_of_def getNumElements_def
        count_ranked entry_of_def effective_axes_def)
  from reduce_of_empty_tensor [OF empty cnt axes eff static, of no_floats I32 "RankedTensorType [1, 3] I32"]
  show ?thesis
    by (simp add: reduce_data_empty_def numeral_3_eq_3)
qed

text \<open>
  C5 as stated fails: ReduceMin of an empty constant does not end in a diagnostic with
  which the pass fails; it aborts in \<open>llvm_unreachable\<close>.
\<close>

theorem reduce_min_of_empty_tensor_counterexample:
  "ConstPropReduceAxesRange no_floats ONNXMinOp Map.empty (RankedTensorType [1, 3] I32)
     \<lparr>resultType = RankedTensorType [0, 3] I32,
      valueAttr = \<lparr>shape = [0, 3], elementType = I32, elems = []\<rparr>\<rparr> [0] []
   = Inl (Unreachable ''reduce op has no identify, zero-size tensor unsupported'')"
  by code_simp

subsection \<open>Gather\<close>

lemma copy_n_ok:
  assumes "f + n \<le> length src" and "p + n \<le> length dst"
  shows "copy_n src (int f) n dst (int p) = Inr (take p dst @ take n (drop f src) @ drop (p + n) dst)"
  using assms by (simp add: copy_n_def)

lemma copy_n_length:
  assumes "f + n \<le> length src" and "p + n \<le> length dst"
  shows "length (take p dst @ take n (drop f src) @ drop (p + n) dst) = length dst"
  using assms by simp

lemma copy_n_nth:
  assumes "f + n \<le> length src" and "p + n \<le> length dst" and "q < length dst"
  shows "(take p dst @ take n (drop f src) @ drop (p + n) dst) ! q =
           (if p \<le> q \<and> q < p + n then src ! (f + (q - p)) else dst ! q)"
proof -
  have lp: "length (take p dst) = p" and lm: "length (take n (drop f src)) = n"
    using assms by simp_all
  consider "q < p" | "p \<le> q" "q < p + n" | "p + n \<le> q" by linarith
  then show ?thesis
  proof cases
    case 1
    then show ?thesis using lp by (simp add: nth_append)
  next
    case 2
    then have qp: "q - p < n" by arith
    from 2 have "(take p dst @ take n (drop f src) @ drop (p + n) dst) ! q
                 = (take n (drop f src) @ drop (p + n) dst) ! (q - p)"
      using lp by (simp add: nth_append)
    also have "\<dots> = take n (drop f src) ! (q - p)"
      using qp lm by (simp add: nth_append)
    also have "\<dots> = src ! (f + (q - p))" using qp assms by simp
    finally show ?thesis using 2 by simp
  next
    case 3
    then have np: "\<not> q < p" and nn: "\<not> q - p < n" by arith+
    have "(take p dst @ take n (drop f src) @ drop (p + n) dst) ! q
                 = (take n (drop f src) @ drop (p + n) dst) ! (q - p)"
      using np lp by (simp add: nth_append)
    also have "\<dots> = drop (p + n) dst ! (q - p - n)"
      using nn lm by (simp add: nth_append)
    also have "\<dots> = dst ! q" using 3 assms by simp
    finally show ?thesis using 3 by simp
  qed
qed

lemma block_iff:
  fixes q :: nat
  assumes "0 < len"
  shows "(b * len \<le> q \<and> q < b * len + len) \<longleftrightarrow> q div len = b"
proof
  assume a: "b * len \<le> q \<and> q < b * len + len"
  then have "q div len \<ge> b" using assms
    by (metis div_le_mono div_mult_self_is_m)
  moreover have "q div len < b + 1"
  proof -
    from a have "q < (b + 1) * len" by simp
    then show ?thesis using assms by (simp add: less_mult_imp_div_less)
  qed
  ultimately show "q div len = b" by simp
next
  assume "q div len = b"
  then show "b * len \<le> q \<and> q < b * len + len"
    using assms by (metis div_mult_mod_eq le_add1 mod_less_divisor nat_add_left_cancel_less)
qed

lemma pair_iff:
  fixes x :: nat
  assumes "j < n"
  shows "x = k * n + j \<longleftrightarrow> (x div n = k \<and> x mod n = j)"
  using assms by (metis div_mult_mod_eq div_mult_self3 div_less add.right_neutral mod_less mod_mult_self3 less_nat_zero_code neq0_conv)


lemma row_bound:
  fixes k n j m :: nat
  assumes "k < m" and "j < n"
  shows "k * n + j + 1 \<le> m * n"
proof -
  have "k * n + j + 1 \<le> k * n + n" using assms by simp
  also have "\<dots> = (k + 1) * n" by simp
  also have "\<dots> \<le> m * n" using assms by (intro mult_le_mono1) simp
  finally show ?thesis .
qed

lemma block_offset:
  fixes q :: nat
  assumes "0 < len" and "q div len = b"
  shows "q - b * len = q mod len"
  using assms by (metis add_diff_cancel_left' div_mult_mod_eq mult.commute)

lemma copy_loop_gather:
  fixes n len outer axisSize a j :: nat
  assumes len: "0 < len" and j: "j < n" and a: "a < axisSize"
    and lin: "length inputData = outer * axisSize * len"
    and lout: "length out = outer * n * len"
    and o0: "o0 \<le> outer"
  shows "\<exists>out' inp'.
           copy_loop (outer * n * len) (n * len) len ((o0 * n + j) * len)
             (int ((o0 * axisSize + a) * len)) (int (axisSize * len)) inputData out = Inr (out', inp')
         \<and> length out' = length out
         \<and> (\<forall>q < length out. out' ! q =
               (if (q div len) mod n = j \<and> o0 \<le> q div (n * len)
                then inputData ! ((q div (n * len) * axisSize + a) * len + q mod len)
                else out ! q))"
  using lout o0
proof (induction "outer - o0" arbitrary: o0 out)
  case 0
  then have eq: "o0 = outer" by simp
  have "\<not> (outer * n + j) * len < outer * n * len" by (simp add: add_mult_distrib)
  moreover have "\<forall>q < length out. \<not> outer \<le> q div (n * len)"
    using 0 len j by (simp add: less_mult_imp_div_less mult.assoc not_le)
  ultimately show ?case using eq by (subst copy_loop.simps) simp
next
  case (Suc m)
  then have lt: "o0 < outer" and m: "m = outer - Suc o0" by auto
  let ?off = "(o0 * n + j) * len"
  let ?inp = "(o0 * axisSize + a) * len"
  have rd: "?inp + len \<le> length inputData"
  proof -
    have "?inp + len = (o0 * axisSize + a + 1) * len" by (simp add: add_mult_distrib)
    also have "\<dots> \<le> (outer * axisSize) * len"
      using row_bound [OF lt a] by (intro mult_le_mono1)
    finally show ?thesis using lin by simp
  qed
  have wr: "?off + len \<le> length out"
  proof -
    have "?off + len = (o0 * n + j + 1) * len" by (simp add: add_mult_distrib)
    also have "\<dots> \<le> (outer * n) * len"
      using row_bound [OF lt j] by (intro mult_le_mono1)
    finally show ?thesis using Suc.prems by simp
  qed
  let ?out1 = "take ?off out @ take len (drop ?inp inputData) @ drop (?off + len) out"
  have c: "copy_n inputData (int ?inp) len out (int ?off) = Inr ?out1"
    by (rule copy_n_ok [OF rd wr])
  have l1: "length ?out1 = outer * n * len"
    using copy_n_length [OF rd wr] Suc.prems by simp
  have inside: "?off < outer * n * len" using wr len Suc.prems by linarith
  have n0: "n * len \<noteq> 0" using len j by simp
  have next_off: "?off + n * len = (Suc o0 * n + j) * len" by (simp add: algebra_simps)
  have next_inp: "int ?inp + int (axisSize * len) = int ((Suc o0 * axisSize + a) * len)"
    by (simp add: algebra_simps)
  from Suc.hyps(1) [OF m l1] lt obtain out' inp' where
    run: "copy_loop (outer * n * len) (n * len) len ((Suc o0 * n + j) * len)
             (int ((Suc o0 * axisSize + a) * len)) (int (axisSize * len)) inputData ?out1 = Inr (out', inp')"
    and len': "length out' = length ?out1"
    and nth': "\<forall>q < length ?out1. out' ! q =
               (if (q div len) mod n = j \<and> Suc o0 \<le> q div (n * len)
                then inputData ! ((q div (n * len) * axisSize + a) * len + q mod len)
                else ?out1 ! q)"
    by (metis Suc_leI)
  have step: "copy_loop (outer * n * len) (n * len) len ?off (int ?inp) (int (axisSize * len))
                inputData out = Inr (out', inp')"
    using inside n0 c run next_off next_inp by (subst copy_loop.simps) simp
  have "out' ! q =
          (if (q div len) mod n = j \<and> o0 \<le> q div (n * len)
           then inputData ! ((q div (n * len) * axisSize + a) * len + q mod len)
           else out ! q)" if q: "q < length out" for q
  proof -
    have q1: "q < length ?out1" using q l1 Suc.prems by simp
    have dd: "q div (n * len) = (q div len) div n"
      by (simp add: div_mult2_eq mult.commute)
    have blk: "(?off \<le> q \<and> q < ?off + len) \<longleftrightarrow> (q div len) mod n = j \<and> q div (n * len) = o0"
      using block_iff [OF len, of "o0 * n + j" q] pair_iff [OF j, of "q div len" o0] dd by auto
    have o1: "?out1 ! q = (if ?off \<le> q \<and> q < ?off + len then inputData ! (?inp + (q - ?off)) else out ! q)"
      by (rule copy_n_nth [OF rd wr q])
    show ?thesis
    proof (cases "?off \<le> q \<and> q < ?off + len")
      case True
      with blk have b: "(q div len) mod n = j" "q div (n * len) = o0" by auto
      from True have "q div len = o0 * n + j" using block_iff [OF len] by blast
      then have "q - ?off = q mod len" by (rule block_offset [OF len])
      with True b o1 nth' q1 show ?thesis by simp
    next
      case False
      with blk have "\<not> ((q div len) mod n = j \<and> q div (n * len) = o0)" by simp
      with False o1 nth' q1 show ?thesis by (auto simp: Suc_le_eq le_less)
    qed
  qed
  with step len' l1 Suc.prems show ?case by auto
qed


lemma gather_loop_empty:
  "length out = 0 \<Longrightarrow>
   gather_loop rest start axisSize len inputStride outputStride inputData out = Inr out"
  by (induction rest arbitrary: start) (simp_all add: Let_def copy_loop.simps)

lemma gather_loop_spec:
  fixes n len outer axisSize :: nat
  assumes len: "0 < len"
    and lin: "length inputData = outer * axisSize * len"
    and lout: "length out = outer * n * len"
    and j0: "j0 + length rest = n"
    and range: "\<forall>idx \<in> set rest. - int axisSize \<le> idx \<and> idx < int axisSize"
    and sb: "int axisSize < 2 ^ 63"
    and ib: "int (axisSize * len) < 2 ^ 64"
    and ob: "int (n * len) < 2 ^ 64"
  shows "\<exists>out'.
           gather_loop rest (j0 * len) axisSize len (axisSize * len) (n * len) inputData out = Inr out'
         \<and> length out' = length out
         \<and> (\<forall>q < length out. out' ! q =
               (if j0 \<le> (q div len) mod n
                then inputData ! ((q div (n * len) * axisSize
                                    + adjusted axisSize (rest ! ((q div len) mod n - j0))) * len + q mod len)
                else out ! q))"
  using lout j0 range
proof (induction rest arbitrary: j0 out)
  case Nil
  then have "j0 = n" by simp
  moreover have "\<forall>q < length out. \<not> n \<le> (q div len) mod n"
  proof (cases "n = 0")
    case True
    with Nil show ?thesis by simp
  next
    case False
    then show ?thesis by (simp add: not_le)
  qed
  ultimately show ?case by simp
next
  case (Cons idx rest)
  then have j: "j0 < n" and r: "- int axisSize \<le> idx" "idx < int axisSize" by auto
  let ?a = "adjusted axisSize idx"
  have a: "?a < axisSize" using r by (auto simp: adjusted_def)
  have "to_size_t (if idx < 0 then idx + int axisSize else idx) = int ?a"
    using r sb by (auto simp: adjusted_def to_size_t_def take_bit_int_eq_self)
  then have "(if idx < 0 then to_size_t (idx + int axisSize) else to_size_t idx) = int ?a"
    by (simp split: if_splits)
  moreover have "to_int64 (int ?a) = int ?a"
    using a sb by (simp add: to_int64_def signed_take_bit_int_eq_self)
  moreover have "to_size_t (int ?a * int len) = int (?a * len)"
  proof -
    have "?a * len \<le> axisSize * len" using a by (intro mult_le_mono1) simp
    with ib have "int (?a * len) < 2 ^ 64" by linarith
    then show ?thesis by (simp add: to_size_t_def take_bit_int_eq_self)
  qed
  ultimately have adj: "to_size_t (to_int64 (if idx < 0 then to_size_t (idx + int axisSize)
                                              else to_size_t idx) * int len)
                          = int ((0 * axisSize + ?a) * len)"
    by simp
  from copy_loop_gather [OF len j a lin Cons.prems(1), of 0]
  obtain out1 inp1 where
    c: "copy_loop (outer * n * len) (n * len) len ((0 * n + j0) * len)
             (int ((0 * axisSize + ?a) * len)) (int (axisSize * len)) inputData out = Inr (out1, inp1)"
    and l1: "length out1 = length out"
    and n1: "\<forall>q < length out. out1 ! q =
               (if (q div len) mod n = j0 \<and> 0 \<le> q div (n * len)
                then inputData ! ((q div (n * len) * axisSize + ?a) * len + q mod len)
                else out ! q)"
    by auto
  have l1': "length out1 = outer * n * len" using l1 Cons.prems(1) by simp
  have j1: "Suc j0 + length rest = n" using Cons.prems(2) by simp
  have r1: "\<forall>idx \<in> set rest. - int axisSize \<le> idx \<and> idx < int axisSize"
    using Cons.prems(3) by simp
  from Cons.IH [OF l1' j1 r1] obtain out' where
    g: "gather_loop rest (Suc j0 * len) axisSize len (axisSize * len) (n * len) inputData out1 = Inr out'"
    and l': "length out' = length out1"
    and n': "\<forall>q < length out1. out' ! q =
               (if Suc j0 \<le> (q div len) mod n
                then inputData ! ((q div (n * len) * axisSize
                                    + adjusted axisSize (rest ! ((q div len) mod n - Suc j0))) * len + q mod len)
                else out1 ! q)"
    by auto
  have start: "nat (to_size_t (int (j0 * len) + int len)) = Suc j0 * len"
  proof -
    have "Suc j0 * len \<le> n * len" using j by (intro mult_le_mono1) simp
    with ob have "int (Suc j0 * len) < 2 ^ 64" by linarith
    then have "to_size_t (int (Suc j0 * len)) = int (Suc j0 * len)"
      by (simp add: to_size_t_def take_bit_int_eq_self)
    moreover have "int (j0 * len) + int len = int (Suc j0 * len)" by simp
    ultimately show ?thesis by (simp only: nat_int)
  qed
  have c': "copy_loop (length out) (n * len) len (j0 * len)
              (to_size_t (to_int64 (if idx < 0 then to_size_t (idx + int axisSize)
                                    else to_size_t idx) * int len)) (int (axisSize * len))
              inputData out = Inr (out1, inp1)"
    using c Cons.prems(1) by (simp only: adj) simp
  have run: "gather_loop (idx # rest) (j0 * len) axisSize len (axisSize * len) (n * len) inputData out
               = Inr out'"
    by (simp only: gather_loop.simps Let_def c' sum.case prod.case start g)
  have "out' ! q =
          (if j0 \<le> (q div len) mod n
           then inputData ! ((q div (n * len) * axisSize
                               + adjusted axisSize ((idx # rest) ! ((q div len) mod n - j0))) * len + q mod len)
           else out ! q)" if q: "q < length out" for q
  proof -
    consider "(q div len) mod n < j0" | "(q div len) mod n = j0" | "Suc j0 \<le> (q div len) mod n"
      by linarith
    then show ?thesis
    proof cases
      case 1
      with n' n1 q l1 show ?thesis by simp
    next
      case 2
      with n' n1 q l1 show ?thesis by simp
    next
      case 3
      then have "(q div len) mod n - j0 = Suc ((q div len) mod n - Suc j0)" by simp
      with 3 n' q l1 show ?thesis by simp
    qed
  qed
  with run l' l1 show ?case by auto
qed


lemma list_all_take_drop:
  "list_all P xs \<Longrightarrow> list_all P (take k xs) \<and> list_all P (drop k xs)"
  by (auto simp: list_all_iff dest: in_set_takeD in_set_dropD)

lemma decompose_position:
  fixes k n j len l :: nat
  assumes "j < n" and "l < len"
  shows "((k * n + j) * len + l) div len = k * n + j"
    and "(((k * n + j) * len + l) div len) mod n = j"
    and "((k * n + j) * len + l) div (n * len) = k"
    and "((k * n + j) * len + l) mod len = l"
    and "(k * n + j) mod n = j"
proof -
  show d: "((k * n + j) * len + l) div len = k * n + j" using assms by simp
  show "(((k * n + j) * len + l) div len) mod n = j" using assms d by simp
  have "((k * n + j) * len + l) div (n * len) = (((k * n + j) * len + l) div len) div n"
    by (simp add: div_mult2_eq mult.commute)
  then show "((k * n + j) * len + l) div (n * len) = k" using assms d by simp
  show "((k * n + j) * len + l) mod len = l" using assms by simp
  show "(k * n + j) mod n = j" using assms by simp
qed

lemma prod_max_ge1: "1 \<le> prod_list (map (max 1) (xs :: int list))"
proof (induction xs)
  case Nil
  then show ?case by simp
next
  case (Cons x xs)
  have "1 * 1 \<le> max 1 x * prod_list (map (max 1) xs)"
    using Cons by (intro mult_mono) simp_all
  then show ?case by simp
qed

lemma prod_le_prod_max:
  "list_all (\<lambda>d. 0 \<le> d) xs \<Longrightarrow> prod_list xs \<le> prod_list (map (max 1) (xs :: int list))"
proof (induction xs)
  case Nil
  then show ?case by simp
next
  case (Cons x xs)
  then have "0 \<le> x" "0 \<le> prod_list xs" "prod_list xs \<le> prod_list (map (max 1) xs)"
    by (simp_all add: prod_list_nonneg_int)
  then have "x * prod_list xs \<le> max 1 x * prod_list (map (max 1) xs)"
    by (intro mult_mono) simp_all
  then show ?case by simp
qed

lemma prod_max_drop: "prod_list (map (max 1) (drop j xs)) \<le> prod_list (map (max 1) (xs :: int list))"
proof -
  have "prod_list (map (max 1) xs)
          = prod_list (map (max 1) (take j xs)) * prod_list (map (max 1) (drop j xs))"
    by (metis append_take_drop_id map_append prod_list.append)
  moreover have "1 * prod_list (map (max 1) (drop j xs))
          \<le> prod_list (map (max 1) (take j xs)) * prod_list (map (max 1) (drop j xs))"
    using prod_max_ge1 [of "take j xs"] prod_max_ge1 [of "drop j xs"]
    by (intro mult_right_mono) simp_all
  ultimately show ?thesis by simp
qed

lemma prod_max_append_left: "prod_list (map (max 1) xs) \<le> prod_list (map (max 1) (xs @ (ys :: int list)))"
proof -
  have "prod_list (map (max 1) xs) * 1 \<le> prod_list (map (max 1) xs) * prod_list (map (max 1) ys)"
    using prod_max_ge1 [of xs] prod_max_ge1 [of ys] by (intro mult_left_mono) simp_all
  then show ?thesis by simp
qed

lemma fits_shape_drop:
  assumes "fits_shape shp" and "list_all (\<lambda>d. 0 \<le> d) shp"
  shows "getNumElements (drop j shp) < 2 ^ 63"
proof -
  have "list_all (\<lambda>d. 0 \<le> d) (drop j shp)" using list_all_take_drop [OF assms(2)] by simp
  from prod_le_prod_max [OF this] prod_max_drop [of j shp] assms(1)
  show ?thesis by (simp add: fits_shape_def getNumElements_def)
qed

lemma fits_shape_nth:
  assumes "fits_shape shp" and "list_all (\<lambda>d. 0 \<le> d) shp" and "a < length shp"
  shows "shp ! a < 2 ^ 63"
proof -
  have d: "drop a shp = shp ! a # drop (Suc a) shp" using assms(3) by (simp add: Cons_nth_drop_Suc)
  have "shp ! a * 1 \<le> max 1 (shp ! a) * prod_list (map (max 1) (drop (Suc a) shp))"
    using prod_max_ge1 [of "drop (Suc a) shp"] assms(2,3)
    by (intro mult_mono) (simp_all add: list_all_length)
  also have "\<dots> = prod_list (map (max 1) (drop a shp))" by (simp add: d)
  also have "\<dots> \<le> prod_list (map (max 1) shp)" by (rule prod_max_drop)
  finally show ?thesis using assms(1) by (simp add: fits_shape_def)
qed

lemma ConstPropGatherImpl_in_range:
  fixes inputElements :: "'a ElementsAttr" and indicesElements :: "int ElementsAttr"
  assumes wf: "wf_elements inputElements" and wfi: "wf_elements indicesElements"
    and axis: "0 \<le> axis" "axis < int (length (shape inputElements))"
    and s: "0 < shape inputElements ! nat axis"
    and oshape: "outputShape = take (nat axis) (shape inputElements) @ shape indicesElements
                                @ drop (Suc (nat axis)) (shape inputElements)"
    and obuf: "int (length outputData) = getNumElements outputShape"
    and range: "\<forall>idx \<in> set (elems indicesElements).
                  - (shape inputElements ! nat axis) \<le> idx \<and> idx < shape inputElements ! nat axis"
    and sbound: "shape inputElements ! nat axis < 2 ^ 63"
    and ibound: "getNumElements (drop (nat axis) (shape inputElements)) < 2 ^ 63"
    and obound: "getNumElements (drop (nat axis) outputShape) < 2 ^ 63"
  shows "\<exists>out. ConstPropGatherImpl outputShape inputElements indicesElements axis outputData = Inr out
      \<and> length out = length outputData
      \<and> (\<forall>k < nat (getNumElements (take (nat axis) (shape inputElements))).
         \<forall>j < length (elems indicesElements).
         \<forall>l < nat (getNumElements (drop (Suc (nat axis)) (shape inputElements))).
           out ! ((k * length (elems indicesElements) + j)
                    * nat (getNumElements (drop (Suc (nat axis)) (shape inputElements))) + l)
             = elems inputElements !
                 ((k * nat (shape inputElements ! nat axis)
                    + nat (if elems indicesElements ! j < 0
                           then elems indicesElements ! j + shape inputElements ! nat axis
                           else elems indicesElements ! j))
                    * nat (getNumElements (drop (Suc (nat axis)) (shape inputElements))) + l))"
proof -
  let ?shp = "shape inputElements"
  let ?a = "nat axis"
  let ?outer = "nat (getNumElements (take ?a ?shp))"
  let ?sz = "nat (?shp ! ?a)"
  let ?len = "nat (getNumElements (drop (Suc ?a) ?shp))"
  let ?n = "length (elems indicesElements)"
  have a: "?a < length ?shp" using axis by simp
  have ext: "list_all (\<lambda>d. 0 \<le> d) ?shp" and ilen: "int (length (elems inputElements)) = prod_list ?shp"
    using wf by (simp_all add: wf_elements_def size_of_def getNumElements_def)
  have exti: "list_all (\<lambda>d. 0 \<le> d) (shape indicesElements)"
    and n: "int ?n = prod_list (shape indicesElements)"
    using wfi by (simp_all add: wf_elements_def size_of_def getNumElements_def)
  have p1: "0 \<le> prod_list (take ?a ?shp)" and p2: "0 \<le> prod_list (drop (Suc ?a) ?shp)"
    using list_all_take_drop [OF ext] by (auto intro: prod_list_nonneg_int)
  have sz0: "0 < ?sz" using s by simp
  have dropa: "drop ?a ?shp = ?shp ! ?a # drop (Suc ?a) ?shp"
    using a by (simp add: Cons_nth_drop_Suc)
  have "prod_list ?shp = prod_list (take ?a ?shp @ drop ?a ?shp)" by simp
  also have "\<dots> = prod_list (take ?a ?shp) * (?shp ! ?a * prod_list (drop (Suc ?a) ?shp))"
    by (simp only: dropa prod_list.append prod_list.Cons)
  finally have total: "prod_list ?shp = prod_list (take ?a ?shp) * (?shp ! ?a * prod_list (drop (Suc ?a) ?shp))" .
  have lin: "length (elems inputElements) = ?outer * ?sz * ?len"
  proof -
    have "length (elems inputElements) = nat (prod_list ?shp)" using ilen by simp
    also have "\<dots> = ?outer * ?sz * ?len"
      using p1 p2 s by (simp add: total getNumElements_def nat_mult_distrib mult.assoc)
    finally show ?thesis .
  qed
  have istride: "nat (getNumElements (drop ?a ?shp)) = ?sz * ?len"
    using s p2 by (simp add: dropa getNumElements_def nat_mult_distrib)
  have len_eq: "(?sz * ?len) div ?sz = ?len" using sz0 by simp
  have dropo: "drop ?a outputShape = shape indicesElements @ drop (Suc ?a) ?shp"
    using a by (simp add: oshape)
  have np: "0 \<le> prod_list (shape indicesElements)" using exti by (rule prod_list_nonneg_int)
  have ostride: "nat (getNumElements (drop ?a outputShape)) = ?n * ?len"
  proof -
    have "nat (getNumElements (drop ?a outputShape))
            = nat (prod_list (shape indicesElements) * prod_list (drop (Suc ?a) ?shp))"
      by (simp add: dropo getNumElements_def)
    also have "\<dots> = nat (prod_list (shape indicesElements)) * ?len"
      using np by (simp add: nat_mult_distrib getNumElements_def)
    also have "nat (prod_list (shape indicesElements)) = ?n" using n by simp
    finally show ?thesis .
  qed
  have lout: "length outputData = ?outer * ?n * ?len"
  proof -
    have "getNumElements outputShape
            = prod_list (take ?a ?shp) * (prod_list (shape indicesElements) * prod_list (drop (Suc ?a) ?shp))"
      by (simp add: oshape getNumElements_def)
    then have "length outputData
            = nat (prod_list (take ?a ?shp) * (prod_list (shape indicesElements) * prod_list (drop (Suc ?a) ?shp)))"
      using obuf by simp
    also have "\<dots> = ?outer * (nat (prod_list (shape indicesElements)) * ?len)"
      using p1 np by (simp add: nat_mult_distrib getNumElements_def)
    also have "nat (prod_list (shape indicesElements)) = ?n" using n by simp
    finally show ?thesis by (simp add: mult.assoc)
  qed
  have olen: "\<not> length outputShape < ?a" using a by (simp add: oshape)
  have ts: "nat (to_size_t (?shp ! ?a)) = ?sz"
    using s sbound by (simp add: to_size_t_def take_bit_int_eq_self)
  have "0 \<le> getNumElements (drop ?a ?shp)"
    using list_all_take_drop [OF ext, of ?a] by (simp add: getNumElements_def prod_list_nonneg_int)
  with ibound have ti: "nat (to_size_t (getNumElements (drop ?a ?shp))) = ?sz * ?len"
    using istride by (simp add: to_size_t_def take_bit_int_eq_self)
  have o0: "0 \<le> getNumElements (drop ?a outputShape)"
    using np p2 by (simp add: dropo getNumElements_def)
  with obound have tout: "nat (to_size_t (getNumElements (drop ?a outputShape))) = ?n * ?len"
    using ostride by (simp add: to_size_t_def take_bit_int_eq_self)
  have on: "int (?n * ?len) = getNumElements (drop ?a outputShape)"
    using ostride o0 by (metis int_nat_eq)
  from obound have "int (?n * ?len) < 2 ^ 63" by (simp only: on)
  then have "int (?n * ?len) < 2 ^ 64" by simp
  moreover have "0 \<le> int (?n * ?len)" by (rule of_nat_0_le_iff)
  ultimately have "to_size_t (int (?n * ?len)) = int (?n * ?len)"
    unfolding to_size_t_def by (intro take_bit_int_eq_self)
  then have tp: "to_size_t (int ?n * int ?len) = int (?n * ?len)"
    by simp
  have impl: "ConstPropGatherImpl outputShape inputElements indicesElements axis outputData =
          gather_loop (elems indicesElements) 0 ?sz ?len (?sz * ?len) (?n * ?len)
            (elems inputElements) outputData"
    unfolding ConstPropGatherImpl_def Let_def ts ti len_eq tout tp
    using axis sz0 olen by simp
  have sb: "int ?sz < 2 ^ 63" using s sbound by simp
  have ib: "int (?sz * ?len) < 2 ^ 64"
  proof -
    have "int (?sz * ?len) = getNumElements (drop ?a ?shp)"
      using istride \<open>0 \<le> getNumElements (drop ?a ?shp)\<close> by (metis int_nat_eq)
    with ibound show ?thesis by simp
  qed
  have ob: "int (?n * ?len) < 2 ^ 64" by fact
  show ?thesis
  proof (cases "?len = 0")
    case True
    then have "length outputData = 0" using lout by simp
    then have "gather_loop (elems indicesElements) 0 ?sz ?len (?sz * ?len) (?n * ?len)
            (elems inputElements) outputData = Inr outputData"
      by (rule gather_loop_empty)
    with impl True show ?thesis by (intro exI [of _ outputData]) simp
  next
    case False
    then have len: "0 < ?len" by simp
    have range': "\<forall>idx \<in> set (elems indicesElements). - int ?sz \<le> idx \<and> idx < int ?sz"
      using range s by simp
    from gather_loop_spec [OF len lin lout _ range' sb ib ob, of 0]
    obtain out where
      g: "gather_loop (elems indicesElements) (0 * ?len) ?sz ?len (?sz * ?len) (?n * ?len)
            (elems inputElements) outputData = Inr out"
      and l: "length out = length outputData"
      and nth: "\<forall>q < length outputData. out ! q =
               (if 0 \<le> (q div ?len) mod ?n
                then elems inputElements ! ((q div (?n * ?len) * ?sz
                        + adjusted ?sz (elems indicesElements ! ((q div ?len) mod ?n - 0))) * ?len + q mod ?len)
                else outputData ! q)"
      by auto
    have "out ! ((k * ?n + j) * ?len + l)
             = elems inputElements !
                 ((k * ?sz + nat (if elems indicesElements ! j < 0
                                  then elems indicesElements ! j + ?shp ! ?a
                                  else elems indicesElements ! j)) * ?len + l)"
      if k: "k < ?outer" and j: "j < ?n" and l: "l < ?len" for k j l
    proof -
      have "(k * ?n + j) * ?len + l < (k * ?n + j) * ?len + ?len" using l by simp
      also have "\<dots> = (k * ?n + j + 1) * ?len" by (simp add: add_mult_distrib)
      also have "\<dots> \<le> (?outer * ?n) * ?len" using row_bound [OF k j] by (intro mult_le_mono1)
      finally have q: "(k * ?n + j) * ?len + l < length outputData" using lout by simp
      have sz: "int ?sz = ?shp ! ?a" using s by simp
      from nth [rule_format, OF q]
      have "out ! ((k * ?n + j) * ?len + l) =
               elems inputElements ! ((k * ?sz + adjusted ?sz (elems indicesElements ! j)) * ?len + l)"
        by (simp only: decompose_position [OF j l, of k] le0 if_True diff_zero)
      then show ?thesis by (simp only: adjusted_def sz)
    qed
    then have "\<forall>k < ?outer. \<forall>j < ?n. \<forall>l < ?len.
           out ! ((k * ?n + j) * ?len + l)
             = elems inputElements !
                 ((k * ?sz + nat (if elems indicesElements ! j < 0
                                  then elems indicesElements ! j + ?shp ! ?a
                                  else elems indicesElements ! j)) * ?len + l)"
      by blast
    moreover have "ConstPropGatherImpl outputShape inputElements indicesElements axis outputData = Inr out"
      using g impl by simp
    ultimately show ?thesis using l by (intro exI [of _ out]) (intro conjI)
  qed
qed


text \<open>
  C4, as the code has it. Let the axis, moved by the rank when it is negative, have a
  positive size \<open>s\<close>, let every index lie in \<open>[-s, s)\<close>, let the replaced value have
  the shape of the input with the axis replaced by the shape of the indices, and let the
  products of the extents of the input and of the output be values of \<open>int64_t\<close>. Then
  the fold returns:
  it counts the two operands and the new constant has the declared type; with the input
  seen as \<open>outer \<times> s \<times> len\<close> and the output as \<open>outer \<times> n \<times> len\<close>, for the \<open>n\<close>
  indices, the slab \<open>j\<close> of the output is the slab of the input at index \<open>j\<close>, moved by
  \<open>s\<close> when it is negative. No index is compared with \<open>s\<close>.
\<close>

theorem gather_in_range:
  assumes cnt: "count ''Gather'' [resultType inputValue, resultType indicesValue] cs = Inr cs'"
    and ity: "resultType inputValue = getType (valueAttr inputValue)"
    and wf: "wf_elements (valueAttr inputValue)" and wfi: "wf_elements (valueAttr indicesValue)"
    and shp: "shape (valueAttr inputValue) = shp"
    and rank: "- int (length shp) \<le> axisAttr" "axisAttr < int (length shp)"
    and a: "a = nat (if axisAttr < 0 then axisAttr + int (length shp) else axisAttr)"
    and s: "0 < shp ! a"
    and oshape: "outputShape = take a shp @ shape (valueAttr indicesValue) @ drop (Suc a) shp"
    and rty: "replacingType = RankedTensorType outputShape outputTy"
    and range: "\<forall>idx \<in> set (elems (valueAttr indicesValue)). - (shp ! a) \<le> idx \<and> idx < shp ! a"
    and fits: "fits_shape shp" "fits_shape outputShape"
  shows "\<exists>out. ConstPropGather replacingType inputValue indicesValue axisAttr uninit cs
             = Inr (cs', \<lparr>resultType = replacingType,
                          valueAttr = \<lparr>shape = outputShape, elementType = outputTy, elems = out\<rparr>\<rparr>)
      \<and> int (length out) = getNumElements outputShape
      \<and> (\<forall>k < nat (getNumElements (take a shp)).
         \<forall>j < length (elems (valueAttr indicesValue)).
         \<forall>l < nat (getNumElements (drop (Suc a) shp)).
           out ! ((k * length (elems (valueAttr indicesValue)) + j)
                    * nat (getNumElements (drop (Suc a) shp)) + l)
             = elems (valueAttr inputValue) !
                 ((k * nat (shp ! a)
                    + nat (if elems (valueAttr indicesValue) ! j < 0
                           then elems (valueAttr indicesValue) ! j + shp ! a
                           else elems (valueAttr indicesValue) ! j))
                    * nat (getNumElements (drop (Suc a) shp)) + l))"
proof -
  let ?input = "valueAttr inputValue"
  let ?indices = "valueAttr indicesValue"
  let ?axis = "if axisAttr < 0 then axisAttr + int (length shp) else axisAttr"
  let ?buf = "replicate (nat (getNumElements outputShape)) uninit"
  have axis: "0 \<le> ?axis" "?axis < int (length (shape ?input))" and na: "nat ?axis = a"
    using rank a shp by auto
  have ext: "list_all (\<lambda>d. 0 \<le> d) shp" using wf shp by (simp add: wf_elements_def)
  have exti: "list_all (\<lambda>d. 0 \<le> d) (shape ?indices)" using wfi by (simp add: wf_elements_def)
  have exto: "list_all (\<lambda>d. 0 \<le> d) outputShape"
    using list_all_take_drop [OF ext, of a] list_all_take_drop [OF ext, of "Suc a"] exti
    by (simp add: oshape)
  then have "0 \<le> getNumElements outputShape"
    by (simp add: getNumElements_def prod_list_nonneg_int)
  then have obuf: "int (length ?buf) = getNumElements outputShape" by simp
  have oshape': "outputShape = take (nat ?axis) (shape ?input) @ shape ?indices
                                 @ drop (Suc (nat ?axis)) (shape ?input)"
    by (simp only: na shp oshape)
  have alen: "a < length shp" using rank a by auto
  have s': "0 < shape ?input ! nat ?axis" "shape ?input ! nat ?axis < 2 ^ 63"
    using s fits_shape_nth [OF fits(1) ext alen] by (simp_all only: na shp)
  have range': "\<forall>idx \<in> set (elems ?indices).
                  - (shape ?input ! nat ?axis) \<le> idx \<and> idx < shape ?input ! nat ?axis"
    using range by (simp only: na shp)
  have ib: "getNumElements (drop (nat ?axis) (shape ?input)) < 2 ^ 63"
    using fits_shape_drop [OF fits(1) ext, of a] by (simp only: na shp)
  have ob: "getNumElements (drop (nat ?axis) outputShape) < 2 ^ 63"
    using fits_shape_drop [OF fits(2) exto, of a] by (simp only: na)
  from ConstPropGatherImpl_in_range [OF wf wfi axis s'(1) oshape' obuf range' s'(2) ib ob]
  obtain out where
    impl: "ConstPropGatherImpl outputShape ?input ?indices ?axis ?buf = Inr out"
    and len: "length out = length ?buf"
    and nth: "\<forall>k < nat (getNumElements (take (nat ?axis) (shape ?input))).
         \<forall>j < length (elems ?indices).
         \<forall>l < nat (getNumElements (drop (Suc (nat ?axis)) (shape ?input))).
           out ! ((k * length (elems ?indices) + j)
                    * nat (getNumElements (drop (Suc (nat ?axis)) (shape ?input))) + l)
             = elems ?input !
                 ((k * nat (shape ?input ! nat ?axis)
                    + nat (if elems ?indices ! j < 0
                           then elems ?indices ! j + shape ?input ! nat ?axis
                           else elems ?indices ! j))
                    * nat (getNumElements (drop (Suc (nat ?axis)) (shape ?input))) + l)"
    by blast
  from impl exto have fw: "fromWideNums replacingType uninit
        (ConstPropGatherImpl outputShape ?input ?indices ?axis)
      = Inr \<lparr>shape = outputShape, elementType = outputTy, elems = out\<rparr>"
    by (simp add: fromWideNums_def rty)
  have t: "resultType inputValue = RankedTensorType shp (elementType ?input)"
    using ity shp by (simp add: getType_def)
  have run: "ConstPropGather replacingType inputValue indicesValue axisAttr uninit cs
             = Inr (cs', \<lparr>resultType = replacingType,
                          valueAttr = \<lparr>shape = outputShape, elementType = outputTy, elems = out\<rparr>\<rparr>)"
    using fw cnt t by (simp add: ConstPropGather_def rty createReplacingConstantOp_def Let_def)
  from len obuf have l: "int (length out) = getNumElements outputShape" by simp
  from nth have n: "\<forall>k < nat (getNumElements (take a shp)).
         \<forall>j < length (elems ?indices).
         \<forall>l < nat (getNumElements (drop (Suc a) shp)).
           out ! ((k * length (elems ?indices) + j) * nat (getNumElements (drop (Suc a) shp)) + l)
             = elems ?input !
                 ((k * nat (shp ! a)
                    + nat (if elems ?indices ! j < 0 then elems ?indices ! j + shp ! a
                           else elems ?indices ! j))
                    * nat (getNumElements (drop (Suc a) shp)) + l)"
    by (simp only: na shp)
  from run l n show ?thesis by (intro exI [of _ out]) (intro conjI)
qed

theorem gather_in_range_witness:
  "ConstPropGather (RankedTensorType [3, 2] F32) gather_input_op gather_indices_op 0 0 []
     = Inr ([(''Gather'', \<lparr>invocations = 1, input_elms = 9\<rparr>)],
            \<lparr>resultType = RankedTensorType [3, 2] F32,
             valueAttr = \<lparr>shape = [3, 2], elementType = F32, elems = [50, 60, 10, 20, 50, 60]\<rparr>\<rparr>)
   \<and> [50, 60, 10, 20, 50, 60 :: int] ! 5 = elems (valueAttr gather_input_op) ! 5"
proof -
  have run: "ConstPropGather (RankedTensorType [3, 2] F32) gather_input_op gather_indices_op 0 0 []
     = Inr ([(''Gather'', \<lparr>invocations = 1, input_elms = 9\<rparr>)],
            \<lparr>resultType = RankedTensorType [3, 2] F32,
             valueAttr = \<lparr>shape = [3, 2], elementType = F32, elems = [50, 60, 10, 20, 50, 60]\<rparr>\<rparr>)"
    by code_simp
  have cnt: "count ''Gather'' [resultType gather_input_op, resultType gather_indices_op] []
               = Inr [(''Gather'', \<lparr>invocations = 1, input_elms = 9\<rparr>)]"
    by (simp add: gather_input_op_def gather_indices_op_def count_def Let_def entry_of_def
        getNumElements_def)
  have h: "resultType gather_input_op = getType (valueAttr gather_input_op)"
      "wf_elements (valueAttr gather_input_op)" "wf_elements (valueAttr gather_indices_op)"
      "shape (valueAttr gather_input_op) = [3, 2]"
      "- int (length [3, 2 :: int]) \<le> 0" "(0 :: int) < int (length [3, 2 :: int])"
      "0 = nat (if (0 :: int) < 0 then 0 + int (length [3, 2 :: int]) else 0)"
      "0 < [3, 2 :: int] ! 0"
      "[3, 2] = take 0 [3, 2 :: int] @ shape (valueAttr gather_indices_op) @ drop (Suc 0) [3, 2]"
      "RankedTensorType [3, 2] F32 = RankedTensorType [3, 2] F32"
      "\<forall>idx \<in> set (elems (valueAttr gather_indices_op)). - ([3, 2] ! 0) \<le> idx \<and> idx < [3, 2] ! 0"
      "fits_shape [3, 2]" "fits_shape [3, 2]"
    by (simp_all add: gather_input_op_def gather_indices_op_def gather_input_3x2_def
        gather_indices_3_def wf_elements_def size_of_def getNumElements_def getType_def
        fits_shape_def)
  from gather_in_range [OF cnt h, of 0]
  obtain out where r: "ConstPropGather (RankedTensorType [3, 2] F32) gather_input_op gather_indices_op
                         0 0 []
             = Inr ([(''Gather'', \<lparr>invocations = 1, input_elms = 9\<rparr>)],
                    \<lparr>resultType = RankedTensorType [3, 2] F32,
                     valueAttr = \<lparr>shape = [3, 2], elementType = F32, elems = out\<rparr>\<rparr>)"
    and p: "\<forall>k < nat (getNumElements (take 0 [3, 2])).
         \<forall>j < length (elems (valueAttr gather_indices_op)).
         \<forall>l < nat (getNumElements (drop (Suc 0) [3, 2])).
           out ! ((k * length (elems (valueAttr gather_indices_op)) + j)
                    * nat (getNumElements (drop (Suc 0) [3, 2])) + l)
             = elems (valueAttr gather_input_op) !
                 ((k * nat ([3, 2] ! 0)
                    + nat (if elems (valueAttr gather_indices_op) ! j < 0
                           then elems (valueAttr gather_indices_op) ! j + [3, 2] ! 0
                           else elems (valueAttr gather_indices_op) ! j))
                    * nat (getNumElements (drop (Suc 0) [3, 2])) + l)"
    by blast
  from r run have out: "out = [50, 60, 10, 20, 50, 60]" by simp
  have k: "0 < nat (getNumElements (take 0 [3, 2]))"
    and j: "2 < length (elems (valueAttr gather_indices_op))"
    and l: "1 < nat (getNumElements (drop (Suc 0) [3, 2]))"
    by (simp_all add: gather_indices_op_def gather_indices_3_def getNumElements_def)
  from p [rule_format, OF k j l] out
  have "[50, 60, 10, 20, 50, 60 :: int] ! 5 = elems (valueAttr gather_input_op) ! 5"
    by (simp add: gather_indices_op_def gather_indices_3_def getNumElements_def)
  with run show ?thesis by simp
qed

text \<open>
  C4 as stated fails: an index outside \<open>[-s, s)\<close> is no error. With the index 2^62 on
  an axis of size 3 of slabs of 4 elements the product \<open>adjustedIdx * len\<close> is 2^64 in
  \<open>size_t\<close>, that is 0, and the fold returns the slab at index 0. With the index 7 on
  the empty slabs of a 3 x 0 input it returns as well.
\<close>

theorem gather_out_of_range_counterexample:
  "ConstPropGather (RankedTensorType [1, 4] F32)
     \<lparr>resultType = RankedTensorType [3, 4] F32,
      valueAttr = \<lparr>shape = [3, 4], elementType = F32,
                   elems = [10, 11, 12, 13, 20, 21, 22, 23, 30, 31, 32, 33 :: int]\<rparr>\<rparr>
     \<lparr>resultType = RankedTensorType [1] I64,
      valueAttr = \<lparr>shape = [1], elementType = I64, elems = [4611686018427387904]\<rparr>\<rparr> 0 0 []
     = Inr ([(''Gather'', \<lparr>invocations = 1, input_elms = 13\<rparr>)],
            \<lparr>resultType = RankedTensorType [1, 4] F32,
             valueAttr = \<lparr>shape = [1, 4], elementType = F32, elems = [10, 11, 12, 13]\<rparr>\<rparr>)
   \<and> ConstPropGather (RankedTensorType [1, 0] F32)
       \<lparr>resultType = RankedTensorType [3, 0] F32,
        valueAttr = \<lparr>shape = [3, 0], elementType = F32, elems = ([] :: int list)\<rparr>\<rparr>
       \<lparr>resultType = RankedTensorType [1] I64,
        valueAttr = \<lparr>shape = [1], elementType = I64, elems = [7]\<rparr>\<rparr> 0 0 []
     = Inr ([(''Gather'', \<lparr>invocations = 1, input_elms = 1\<rparr>)],
            \<lparr>resultType = RankedTensorType [1, 0] F32,
             valueAttr = \<lparr>shape = [1, 0], elementType = F32, elems = []\<rparr>\<rparr>)"
  by code_simp

lemma gather_out_of_range_reads_out_of_bounds:
  "ConstPropGatherImpl [1, 2] gather_input_3x2 \<lparr>shape = [1], elementType = I64, elems = [3]\<rparr>
     0 [0, 0] = Inl (UndefinedBehaviour ''copy_n: read out of bounds'')"
  by code_simp

subsection \<open>ScatterND\<close>

lemma int_prod_list_nat:
  "list_all (\<lambda>d. 0 \<le> d) xs \<Longrightarrow> int (prod_list (map nat xs)) = prod_list xs"
  by (induction xs) (simp_all add: prod_list_nonneg_int)

lemma length_row_major_strides: "length (row_major_strides shp) = length shp"
  by (induction shp) simp_all

lemma row_major_strides_nonneg:
  "list_all (\<lambda>d. 0 \<le> d) shp \<Longrightarrow> list_all (\<lambda>d. 0 \<le> d) (row_major_strides shp)"
  by (induction shp) (simp_all add: prod_list_nonneg_int)

lemma strides_loop_ok:
  "\<forall>j < length pre. fits_int64 (prod_list (drop j (pre @ post))) \<Longrightarrow>
   strides_loop (rev pre) (row_major_strides post) (prod_list post)
     = Inr (row_major_strides (pre @ post))"
proof (induction pre arbitrary: post rule: rev_induct)
  case Nil
  then show ?case by simp
next
  case (snoc x xs)
  from snoc.prems [rule_format, of "length xs"] have fx: "fits_int64 (prod_list post * x)"
    by (simp add: mult.commute)
  have "\<forall>j < length xs. fits_int64 (prod_list (drop j (xs @ x # post)))"
  proof (intro allI impI)
    fix j assume "j < length xs"
    with snoc.prems [rule_format, of j] show "fits_int64 (prod_list (drop j (xs @ x # post)))"
      by simp
  qed
  from snoc.IH [OF this] fx show ?case by (simp add: mult.commute)
qed

lemma getStrides_ok:
  "\<forall>j < length shp. fits_int64 (prod_list (drop j shp)) \<Longrightarrow>
   getStrides shp = Inr (row_major_strides shp)"
  using strides_loop_ok [of shp "[]"] by (simp add: getStrides_def)

lemma lead_position:
  assumes "list_all (\<lambda>d. 0 \<le> d) shp" and "length idxs \<le> length shp"
    and "list_all (\<lambda>x. 0 \<le> x) idxs"
  shows "sum_list (map (\<lambda>(x, s). x * s) (zip idxs (take (length idxs) (row_major_strides shp))))
           = int (ravel (map nat shp) (map nat idxs))"
  using assms
proof (induction shp arbitrary: idxs)
  case Nil
  then show ?case by simp
next
  case (Cons d ds)
  show ?case
  proof (cases idxs)
    case Nil
    then show ?thesis by simp
  next
    case (Cons x xs)
    with Cons.prems have "list_all (\<lambda>d. 0 \<le> d) ds" "length xs \<le> length ds"
      "list_all (\<lambda>x. 0 \<le> x) xs" "0 \<le> x" by simp_all
    with Cons.IH [of xs] Cons show ?thesis
      by (simp add: int_prod_list_nat)
  qed
qed

lemma index_loop_ok:
  assumes "\<forall>i \<in> set is. 0 \<le> indices ! i * strides ! i" and "0 \<le> index"
    and "index + sum_list (map (\<lambda>i. indices ! i * strides ! i) is) < 2 ^ 63"
  shows "index_loop indices strides is index
           = Inr (index + sum_list (map (\<lambda>i. indices ! i * strides ! i) is))"
  using assms
proof (induction "is" arbitrary: index)
  case Nil
  then show ?case by simp
next
  case (Cons i rest)
  let ?t = "indices ! i * strides ! i"
  from Cons.prems have t: "0 \<le> ?t" and r: "\<forall>i \<in> set rest. 0 \<le> indices ! i * strides ! i"
    by simp_all
  from r have s: "0 \<le> sum_list (map (\<lambda>i. indices ! i * strides ! i) rest)"
    by (intro sum_list_nonneg) auto
  from Cons.prems(2,3) t s have f: "fits_int64 ?t" "fits_int64 (index + ?t)"
    by (simp_all add: fits_int64_def)
  have "index + ?t + sum_list (map (\<lambda>i. indices ! i * strides ! i) rest) < 2 ^ 63"
    using Cons.prems(3) by (simp add: add.assoc)
  from Cons.IH [OF r _ this] Cons.prems(2) t f show ?case by (simp add: add.assoc)
qed

lemma map_nth_zip:
  "length xs = n \<Longrightarrow> length ys = n \<Longrightarrow>
   map (\<lambda>i. f (xs ! i) (ys ! i)) [0..<n] = map (\<lambda>(x, y). f x y) (zip xs ys)"
  by (rule nth_equalityI) simp_all

lemma getLinearAccessIndex_lead:
  assumes ext: "list_all (\<lambda>d. 0 \<le> d) shp" and k: "length idxs \<le> length shp"
    and nn: "list_all (\<lambda>x. 0 \<le> x) idxs"
    and bnd: "int (ravel (map nat shp) (map nat idxs)) < 2 ^ 63"
  shows "getLinearAccessIndex idxs (take (length idxs) (row_major_strides shp))
           = Inr (int (ravel (map nat shp) (map nat idxs)))"
proof -
  let ?st = "take (length idxs) (row_major_strides shp)"
  have l: "length ?st = length idxs"
    using k by (simp add: length_row_major_strides min_def)
  have "map (\<lambda>i. idxs ! i * ?st ! i) [0..<length idxs] = map (\<lambda>(x, s). x * s) (zip idxs ?st)"
    by (rule map_nth_zip [OF refl l])
  then have total: "sum_list (map (\<lambda>i. idxs ! i * ?st ! i) [0..<length idxs])
      = int (ravel (map nat shp) (map nat idxs))"
    using lead_position [OF ext k nn] by simp
  have pos: "\<forall>i \<in> set [0..<length idxs]. 0 \<le> idxs ! i * ?st ! i"
  proof
    fix i assume "i \<in> set [0..<length idxs]"
    then have i: "i < length idxs" by simp
    with nn have "0 \<le> idxs ! i" by (simp add: list_all_length)
    moreover from row_major_strides_nonneg [OF ext] i k have "0 \<le> ?st ! i"
      by (simp add: list_all_length length_row_major_strides)
    ultimately show "0 \<le> idxs ! i * ?st ! i" by simp
  qed
  from index_loop_ok [OF pos, of 0] total bnd
  have "index_loop idxs ?st [0..<length idxs] 0 = Inr (int (ravel (map nat shp) (map nat idxs)))"
    by simp
  with l show ?thesis by (simp add: getLinearAccessIndex_def)
qed


lemma ravel_unravel: "ravel ds (unravel ds p) = p mod prod_list ds"
proof (induction ds arbitrary: p)
  case Nil
  then show ?case by simp
next
  case (Cons d ds)
  have "p mod (prod_list ds * d) = prod_list ds * (p div prod_list ds mod d) + p mod prod_list ds"
    by (rule mod_mult2_eq)
  with Cons show ?case by (simp add: mult.commute)
qed

lemma prod_list_take_drop: "prod_list (take k ds) * prod_list (drop k ds) = prod_list ds"
  for ds :: "nat list"
  by (metis append_take_drop_id prod_list.append)

lemma drop_dvd: "prod_list (drop k ds) dvd prod_list ds"
  for ds :: "nat list"
  by (metis dvd_triv_right prod_list_take_drop)

lemma ravel_Nil [simp]: "ravel ds [] = 0"
  by (cases ds) simp_all

lemma ravel_bound:
  assumes "length t \<le> length ds" and "\<forall>j < length t. t ! j < ds ! j"
  shows "ravel ds t + prod_list (drop (length t) ds) \<le> prod_list ds"
  using assms
proof (induction ds arbitrary: t)
  case Nil
  then show ?case by simp
next
  case (Cons d ds)
  show ?case
  proof (cases t)
    case Nil
    then show ?thesis by simp
  next
    case (Cons i "is")
    with Cons.prems have l: "length is \<le> length ds" and i: "i < d"
      and r: "\<forall>j < length is. is ! j < ds ! j"
      by auto
    from Cons.IH [OF l r] have "i * prod_list ds + (ravel ds is + prod_list (drop (length is) ds))
        \<le> i * prod_list ds + prod_list ds" by simp
    also have "\<dots> = (i + 1) * prod_list ds" by simp
    also have "\<dots> \<le> d * prod_list ds" using i by (intro mult_le_mono1) simp
    finally show ?thesis using Cons by simp
  qed
qed

lemma ravel_dvd:
  assumes "length t \<le> length ds"
  shows "prod_list (drop (length t) ds) dvd ravel ds t"
  using assms
proof (induction ds arbitrary: t)
  case Nil
  then show ?case by simp
next
  case (Cons d ds)
  show ?case
  proof (cases t)
    case Nil
    then show ?thesis by simp
  next
    case (Cons i "is")
    with Cons.prems have l: "length is \<le> length ds" by simp
    have "prod_list (drop (length is) ds) dvd i * prod_list ds"
      using drop_dvd by (simp add: dvd_mult)
    with Cons.IH [OF l] show ?thesis using Cons by simp
  qed
qed

lemma ravel_drop_unravel:
  assumes "k \<le> length ds"
  shows "ravel (drop k ds) (drop k (unravel ds p)) = p mod prod_list (drop k ds)"
  using assms
proof (induction ds arbitrary: k p)
  case Nil
  then show ?case by simp
next
  case (Cons d ds)
  show ?case
  proof (cases k)
    case 0
    then show ?thesis using ravel_unravel [of "d # ds" p] by simp
  next
    case (Suc k')
    with Cons.prems have k': "k' \<le> length ds" by simp
    have "(p mod prod_list ds) mod prod_list (drop k' ds) = p mod prod_list (drop k' ds)"
      by (rule mod_mod_cancel) (rule drop_dvd)
    with Cons.IH [OF k', of "p mod prod_list ds"] Suc show ?thesis by simp
  qed
qed

lemma block_split:
  fixes p S i r B :: nat
  assumes "r + B \<le> S"
  shows "(p div S = i \<and> r \<le> p mod S \<and> p mod S < r + B) \<longleftrightarrow> (i * S + r \<le> p \<and> p < i * S + r + B)"
proof (cases "S = 0")
  case True
  with assms show ?thesis by simp
next
  case False
  then have S: "0 < S" by simp
  show ?thesis
  proof
    assume a: "p div S = i \<and> r \<le> p mod S \<and> p mod S < r + B"
    have "p = i * S + p mod S" using a by (metis div_mult_mod_eq)
    with a show "i * S + r \<le> p \<and> p < i * S + r + B" by linarith
  next
    assume a: "i * S + r \<le> p \<and> p < i * S + r + B"
    with assms have "i * S \<le> p \<and> p < i * S + S" by linarith
    then have d: "p div S = i" using block_iff [OF S] by blast
    then have "p = i * S + p mod S" by (metis div_mult_mod_eq)
    with a d show "p div S = i \<and> r \<le> p mod S \<and> p mod S < r + B" by linarith
  qed
qed

lemma prefix_block:
  assumes "length t \<le> length ds" and "\<forall>j < length t. t ! j < ds ! j" and "p < prod_list ds"
  shows "take (length t) (unravel ds p) = t
           \<longleftrightarrow> ravel ds t \<le> p \<and> p < ravel ds t + prod_list (drop (length t) ds)"
  using assms
proof (induction ds arbitrary: t p)
  case Nil
  then show ?case by simp
next
  case (Cons d ds)
  show ?case
  proof (cases t)
    case Nil
    with Cons.prems show ?thesis by simp
  next
    case (Cons i "is")
    with Cons.prems have l: "length is \<le> length ds" and i: "i < d"
      and r: "\<forall>j < length is. is ! j < ds ! j" and p: "p < d * prod_list ds"
      by auto
    let ?S = "prod_list ds"
    have S: "0 < ?S" using p by (cases "?S = 0") auto
    have pm: "p mod ?S < ?S" using S by simp
    have pd: "p div ?S < d" using p S by (simp add: less_mult_imp_div_less mult.commute)
    have "take (length t) (unravel (d # ds) p) = t
            \<longleftrightarrow> p div ?S = i \<and> take (length is) (unravel ds (p mod ?S)) = is"
      using Cons pd by simp
    also have "\<dots> \<longleftrightarrow> p div ?S = i \<and> ravel ds is \<le> p mod ?S
                  \<and> p mod ?S < ravel ds is + prod_list (drop (length is) ds)"
      using Cons.IH [OF l r pm] by simp
    also have "\<dots> \<longleftrightarrow> i * ?S + ravel ds is \<le> p
                  \<and> p < i * ?S + ravel ds is + prod_list (drop (length is) ds)"
      by (rule block_split [OF ravel_bound [OF l r]])
    finally show ?thesis using Cons by simp
  qed
qed

lemma offset_in_block:
  fixes p pos B :: nat
  assumes "B dvd pos" and "pos \<le> p" and "p < pos + B"
  shows "p - pos = p mod B"
proof -
  from assms obtain m where m: "pos = B * m" by (auto simp: dvd_def)
  have "p = pos + (p - pos)" using assms by simp
  then have "p mod B = (B * m + (p - pos)) mod B" using m by simp
  also have "\<dots> = (p - pos) mod B" by simp
  also have "\<dots> = p - pos" using assms by simp
  finally show ?thesis by simp
qed


lemma nth_take_drop_slice:
  assumes "i * k + k \<le> length xs" and "j < k"
  shows "take k (drop (i * k) xs) ! j = xs ! (i * k + j)"
  using assms by simp

lemma scatter_loop_spec:
  fixes dataShape :: "int list" and indices :: "int list" and k :: nat
  defines "dims \<equiv> map nat dataShape"
  defines "B \<equiv> prod_list (drop k dims)"
  assumes ext: "list_all (\<lambda>d. 0 \<le> d) dataShape"
    and k: "k \<le> length dataShape"
    and lind: "length indices = n_slices * k"
    and lupd: "length updates = n_slices * B"
    and range: "\<forall>i < n_slices. \<forall>j < k. 0 \<le> indices ! (i * k + j) \<and> indices ! (i * k + j) < dataShape ! j"
    and bnd: "int (prod_list dims) < 2 ^ 63"
    and lout: "length buf = prod_list dims"
    and i: "i + n = n_slices"
  shows "\<exists>out.
           scatter_loop n (i * k) (i * B) k (take k (row_major_strides dataShape)) B indices updates buf
             = Inr out
         \<and> length out = length buf
         \<and> (\<forall>p < length buf. out ! p =
               (case hits dims k indices p [i..<i + n] of
                  [] \<Rightarrow> buf ! p
                | h # rest \<Rightarrow> updates ! (last (h # rest) * B + ravel (drop k dims) (drop k (unravel dims p)))))"
  using lout i
proof (induction n arbitrary: i buf)
  case 0
  then show ?case by (simp add: hits_def)
next
  case (Suc n)
  then have iN: "i < n_slices" by simp
  let ?idxs = "take k (drop (i * k) indices)"
  let ?t = "map nat ?idxs"
  have blk: "i * k + k \<le> length indices"
  proof -
    have "i * k + k = Suc i * k" by simp
    also have "\<dots> \<le> n_slices * k" using iN by (intro mult_le_mono1) simp
    finally show ?thesis using lind by simp
  qed
  have lidx: "length ?idxs = k" using blk by simp
  have nth_idx: "?idxs ! j = indices ! (i * k + j)" if "j < k" for j
    using that blk by simp
  have nn: "list_all (\<lambda>x. 0 \<le> x) ?idxs"
    unfolding list_all_length using range iN lidx nth_idx by auto
  have lt: "length ?t = k" using lidx by simp
  have inr: "\<forall>j < length ?t. ?t ! j < dims ! j"
  proof (intro allI impI)
    fix j assume "j < length ?t"
    then have j: "j < k" using lt by simp
    then have "0 \<le> indices ! (i * k + j)" "indices ! (i * k + j) < dataShape ! j"
      using range iN by auto
    then show "?t ! j < dims ! j" using j k lidx nth_idx [OF j] by (simp add: dims_def)
  qed
  have ld: "length ?t \<le> length dims" using lt k by (simp add: dims_def)
  let ?pos = "ravel dims ?t"
  have bound: "?pos + B \<le> length buf"
    using ravel_bound [OF ld inr] lt Suc.prems by (simp add: B_def)
  then have "int ?pos < 2 ^ 63" using bnd Suc.prems by simp
  then have lin: "getLinearAccessIndex ?idxs (take k (row_major_strides dataShape)) = Inr (int ?pos)"
    using getLinearAccessIndex_lead [OF ext _ nn] k lidx by (simp add: dims_def)
  have rd: "i * B + B \<le> length updates"
  proof -
    have "i * B + B = Suc i * B" by simp
    also have "\<dots> \<le> n_slices * B" using iN by (intro mult_le_mono1) simp
    finally show ?thesis using lupd by simp
  qed
  let ?out1 = "take ?pos buf @ take B (drop (i * B) updates) @ drop (?pos + B) buf"
  have c: "copy_n updates (int (i * B)) B buf (int ?pos) = Inr ?out1"
    by (rule copy_n_ok [OF rd bound])
  have l1: "length ?out1 = prod_list dims"
    using copy_n_length [OF rd bound] Suc.prems by simp
  have i1: "Suc i + n = n_slices" using Suc.prems by simp
  from Suc.IH [OF l1 i1] obtain out where
    run: "scatter_loop n (Suc i * k) (Suc i * B) k (take k (row_major_strides dataShape)) B indices updates ?out1
            = Inr out"
    and len: "length out = length ?out1"
    and nth: "\<forall>p < length ?out1. out ! p =
               (case hits dims k indices p [Suc i..<Suc i + n] of
                  [] \<Rightarrow> ?out1 ! p
                | h # rest \<Rightarrow> updates ! (last (h # rest) * B + ravel (drop k dims) (drop k (unravel dims p))))"
    by blast
  have it: "i * k + k = Suc i * k" "i * B + B = Suc i * B" by simp_all
  have step: "scatter_loop (Suc n) (i * k) (i * B) k (take k (row_major_strides dataShape)) B indices updates buf
                = Inr out"
    by (simp only: scatter_loop.simps lin c sum.case it run)
  have "out ! p =
          (case hits dims k indices p [i..<i + Suc n] of
             [] \<Rightarrow> buf ! p
           | h # rest \<Rightarrow> updates ! (last (h # rest) * B + ravel (drop k dims) (drop k (unravel dims p))))"
    if p: "p < length buf" for p
  proof -
    have pD: "p < prod_list dims" using p Suc.prems by simp
    have p1: "p < length ?out1" using pD l1 by simp
    have o1: "?out1 ! p = (if ?pos \<le> p \<and> p < ?pos + B then updates ! (i * B + (p - ?pos)) else buf ! p)"
      by (rule copy_n_nth [OF rd bound p])
    have hit: "(map int (take k (unravel dims p)) = ?idxs) \<longleftrightarrow> (?pos \<le> p \<and> p < ?pos + B)"
    proof -
      have "(map int (take k (unravel dims p)) = ?idxs) \<longleftrightarrow> take k (unravel dims p) = ?t"
      proof
        assume "map int (take k (unravel dims p)) = ?idxs"
        then have "map nat (map int (take k (unravel dims p))) = ?t" by simp
        then show "take k (unravel dims p) = ?t" by (simp add: comp_def)
      next
        assume a: "take k (unravel dims p) = ?t"
        have "map int ?t = ?idxs"
          using nn by (simp add: comp_def list_all_iff map_idI)
        with a show "map int (take k (unravel dims p)) = ?idxs" by simp
      qed
      also have "\<dots> \<longleftrightarrow> (?pos \<le> p \<and> p < ?pos + B)"
        using prefix_block [OF ld inr pD] lt by (simp add: B_def)
      finally show ?thesis .
    qed
    have split: "hits dims k indices p [i..<i + Suc n]
                   = (if ?pos \<le> p \<and> p < ?pos + B then [i] else []) @ hits dims k indices p [Suc i..<Suc i + n]"
      using hit by (simp add: hits_def upt_conv_Cons del: upt_Suc)
    have off: "p - ?pos = ravel (drop k dims) (drop k (unravel dims p))"
      if h: "?pos \<le> p \<and> p < ?pos + B"
    proof -
      have "B dvd ?pos" using ravel_dvd [OF ld] lt by (simp add: B_def)
      with h have "p - ?pos = p mod B" by (intro offset_in_block) auto
      also have "\<dots> = ravel (drop k dims) (drop k (unravel dims p))"
        using ravel_drop_unravel [of k dims p] k by (simp add: B_def dims_def)
      finally show ?thesis .
    qed
    show ?thesis
    proof (cases "hits dims k indices p [Suc i..<Suc i + n]")
      case Nil
      with nth p1 o1 split off show ?thesis by (auto simp del: upt_Suc)
    next
      case (Cons h rest)
      with nth p1 split show ?thesis by (auto simp del: upt_Suc)
    qed
  qed
  with step len l1 Suc.prems show ?case by (intro exI [of _ out]) simp
qed


lemma nat_prod_list:
  "list_all (\<lambda>d. 0 \<le> d) xs \<Longrightarrow> nat (prod_list xs) = prod_list (map nat xs)"
  using int_prod_list_nat [of xs] by simp

lemma ScatterNDImpl_refines_spec:
  fixes dataElements updatesElements :: "'a ElementsAttr" and indicesElements :: "int ElementsAttr"
  assumes wf: "wf_elements dataElements" and wfi: "wf_elements indicesElements"
    and wfu: "wf_elements updatesElements"
    and ish: "shape indicesElements = outer @ [int k]"
    and k: "k \<le> length (shape dataElements)"
    and ush: "shape updatesElements = outer @ drop k (shape dataElements)"
    and range: "\<forall>i < nat (getNumElements outer). \<forall>j < k.
                  0 \<le> elems indicesElements ! (i * k + j)
                  \<and> elems indicesElements ! (i * k + j) < shape dataElements ! j"
    and fits: "\<forall>j < length (shape dataElements).
                 getNumElements (drop j (shape dataElements)) < 2 ^ 63"
    and lout: "length buf = length (elems dataElements)"
  shows "ScatterNDImpl dataElements indicesElements updatesElements buf
           = Inr (scatterNd_spec dataElements indicesElements updatesElements)"
proof -
  let ?shp = "shape dataElements"
  let ?dims = "map nat ?shp"
  let ?B = "prod_list (drop k ?dims)"
  let ?n = "nat (getNumElements outer)"
  have ext: "list_all (\<lambda>d. 0 \<le> d) ?shp"
    and ldata: "int (length (elems dataElements)) = prod_list ?shp"
    using wf by (simp_all add: wf_elements_def size_of_def getNumElements_def)
  have exto: "list_all (\<lambda>d. 0 \<le> d) outer"
    and lind0: "int (length (elems indicesElements)) = prod_list outer * int k"
    using wfi by (simp_all add: wf_elements_def size_of_def getNumElements_def ish)
  have extd: "list_all (\<lambda>d. 0 \<le> d) (drop k ?shp)"
    using list_all_take_drop [OF ext] by simp
  have lupd0: "int (length (elems updatesElements)) = prod_list outer * prod_list (drop k ?shp)"
    using wfu by (simp add: wf_elements_def size_of_def getNumElements_def ush)
  have po: "0 \<le> prod_list outer" using exto by (rule prod_list_nonneg_int)
  have B: "nat (prod_list (drop k ?shp)) = ?B"
    using nat_prod_list [OF extd] by (simp add: drop_map)
  have lind: "length (elems indicesElements) = ?n * k"
  proof -
    have "length (elems indicesElements) = nat (prod_list outer * int k)" using lind0 by simp
    also have "\<dots> = ?n * k" using po by (simp add: nat_mult_distrib getNumElements_def)
    finally show ?thesis .
  qed
  have lupd: "length (elems updatesElements) = ?n * ?B"
  proof -
    have "length (elems updatesElements) = nat (prod_list outer * prod_list (drop k ?shp))"
      using lupd0 by simp
    also have "\<dots> = ?n * ?B" using po B by (simp add: nat_mult_distrib getNumElements_def)
    finally show ?thesis .
  qed
  have ldims: "length (elems dataElements) = prod_list ?dims"
    using ldata nat_prod_list [OF ext] by simp
  have "\<forall>j < length ?shp. fits_int64 (prod_list (drop j ?shp))"
  proof (intro allI impI)
    fix j assume j: "j < length ?shp"
    have "0 \<le> prod_list (drop j ?shp)"
      using list_all_take_drop [OF ext, of j] by (intro prod_list_nonneg_int) simp
    with fits j show "fits_int64 (prod_list (drop j ?shp))"
      by (simp add: fits_int64_def getNumElements_def)
  qed
  then have strides: "getStrides ?shp = Inr (row_major_strides ?shp)" by (rule getStrides_ok)
  have bnd: "int (prod_list ?dims) < 2 ^ 63"
  proof (cases "?shp = []")
    case True
    then show ?thesis by simp
  next
    case False
    with fits [rule_format, of 0] show ?thesis
      using int_prod_list_nat [OF ext] by (simp add: getNumElements_def)
  qed
  from scatter_loop_spec [OF ext k lind lupd range bnd ldims, of 0 ?n]
  obtain out where
    run: "scatter_loop ?n (0 * k) (0 * ?B) k (take k (row_major_strides ?shp)) ?B
            (elems indicesElements) (elems updatesElements) (elems dataElements) = Inr out"
    and len: "length out = length (elems dataElements)"
    and nth: "\<forall>p < length (elems dataElements). out ! p =
               (case hits ?dims k (elems indicesElements) p [0..<0 + ?n] of
                  [] \<Rightarrow> elems dataElements ! p
                | h # rest \<Rightarrow> elems updatesElements !
                     (last (h # rest) * ?B + ravel (drop k ?dims) (drop k (unravel ?dims p))))"
    by auto
  have impl: "ScatterNDImpl dataElements indicesElements updatesElements buf = Inr out"
    using lout run B strides
    by (simp add: ScatterNDImpl_def Let_def ish ush getNumElements_def)
  have "out = scatterNd_spec dataElements indicesElements updatesElements"
  proof (rule nth_equalityI)
    show "length out = length (scatterNd_spec dataElements indicesElements updatesElements)"
      using len by (simp add: scatterNd_spec_def Let_def)
  next
    fix p assume "p < length out"
    then have p: "p < length (elems dataElements)" using len by simp
    with nth show "out ! p = scatterNd_spec dataElements indicesElements updatesElements ! p"
      by (simp add: scatterNd_spec_def Let_def ish split: list.splits)
  qed
  with impl show ?thesis by simp
qed

text \<open>
  C3. A ScatterND of three well-formed constants, with \<open>indices\<close> of shape \<open>outer @ [k]\<close>,
  \<open>k\<close> at most the rank of \<open>data\<close>, \<open>updates\<close> of shape \<open>outer @ drop k (shape data)\<close>,
  every index tuple within the leading \<open>k\<close> extents of \<open>data\<close> and the products of the
  extents of each operand within \<open>int64_t\<close>, is folded: the pattern counts the three
  operands and replaces the op by the constant, of the type of the data, that holds the
  ScatterND of the spec. A position of \<open>data\<close> that no tuple addresses keeps its value,
  and a position that some tuples address holds the element of the slab of \<open>updates\<close> of
  the last of these tuples in the row-major order of \<open>indices\<close>.
\<close>

theorem scatterNd_refines_spec:
  assumes ranked: "isRankedTensorType (scatterResultType scatterNdOp)"
    and dataOp: "scatterData scatterNdOp = ConstantResult dataOp"
    and indicesOp: "scatterIndices scatterNdOp = ConstantResult indicesOp"
    and updatesOp: "scatterUpdates scatterNdOp = ConstantResult updatesOp"
    and cnt: "count ''Scatter'' [resultType dataOp, resultType indicesOp, resultType updatesOp] cs
                = Inr cs'"
    and wf: "wf_elements (valueAttr dataOp)" and wfi: "wf_elements (valueAttr indicesOp)"
    and wfu: "wf_elements (valueAttr updatesOp)"
    and ish: "shape (valueAttr indicesOp) = outer @ [int k]"
    and k: "k \<le> length (shape (valueAttr dataOp))"
    and ush: "shape (valueAttr updatesOp) = outer @ drop k (shape (valueAttr dataOp))"
    and range: "\<forall>i < nat (getNumElements outer). \<forall>j < k.
                  0 \<le> elems (valueAttr indicesOp) ! (i * k + j)
                  \<and> elems (valueAttr indicesOp) ! (i * k + j) < shape (valueAttr dataOp) ! j"
    and fits: "fits_shape (shape (valueAttr dataOp))" "fits_shape (shape (valueAttr indicesOp))"
      "fits_shape (shape (valueAttr updatesOp))"
  shows "ConstPropScatterNDPattern scatterNdOp uninit cs =
           Inr (cs', Some \<lparr>resultType = resultType dataOp,
                           valueAttr = \<lparr>shape = shape (valueAttr dataOp),
                                        elementType = elementType (valueAttr dataOp),
                                        elems = scatterNd_spec (valueAttr dataOp) (valueAttr indicesOp)
                                                  (valueAttr updatesOp)\<rparr>\<rparr>)"
proof -
  let ?data = "valueAttr dataOp"
  from wf have ext: "list_all (\<lambda>d. 0 \<le> d) (shape ?data)"
    and len: "int (length (elems ?data)) = getNumElements (shape ?data)"
    by (simp_all add: wf_elements_def size_of_def)
  from len have lout: "length (replicate (nat (getNumElements (shape ?data))) uninit) = length (elems ?data)"
    by simp
  have "\<forall>j < length (shape ?data). getNumElements (drop j (shape ?data)) < 2 ^ 63"
    using fits_shape_drop [OF fits(1) ext] by simp
  note impl = ScatterNDImpl_refines_spec [OF wf wfi wfu ish k ush range this lout]
  with ext have "fromWideNums (getType ?data) uninit
                   (ScatterNDImpl ?data (valueAttr indicesOp) (valueAttr updatesOp))
      = Inr \<lparr>shape = shape ?data, elementType = elementType ?data,
             elems = scatterNd_spec ?data (valueAttr indicesOp) (valueAttr updatesOp)\<rparr>"
    by (simp add: fromWideNums_def getType_def)
  with ranked dataOp indicesOp updatesOp cnt show ?thesis
    by (simp add: ConstPropScatterNDPattern_def createReplacingConstantOp_def)
qed

theorem scatterNd_refines_spec_witness:
  "ConstPropScatterNDPattern scatter_op_4x2 7 []
     = Inr ([(''Scatter'', \<lparr>invocations = 1, input_elms = 17\<rparr>)],
            Some \<lparr>resultType = RankedTensorType [4, 2] F32,
                  valueAttr = \<lparr>shape = [4, 2], elementType = F32,
                               elems = [0, 0, 5, 6, 0, 0, 3, 4]\<rparr>\<rparr>)
   \<and> scatterNd_spec scatter_data_4x2 scatter_indices_3x1 scatter_updates_3x2 = [0, 0, 5, 6, 0, 0, 3, 4]
   \<and> hits [4, 2] 1 (elems scatter_indices_3x1) 2 [0, 1, 2] = [0, 2]"
proof -
  let ?dataOp = "\<lparr>resultType = RankedTensorType [4, 2] F32, valueAttr = scatter_data_4x2\<rparr>"
  let ?indicesOp = "\<lparr>resultType = RankedTensorType [3, 1] I64, valueAttr = scatter_indices_3x1\<rparr>"
  let ?updatesOp = "\<lparr>resultType = RankedTensorType [3, 2] F32, valueAttr = scatter_updates_3x2\<rparr>"
  have spec: "scatterNd_spec scatter_data_4x2 scatter_indices_3x1 scatter_updates_3x2
                = [0, 0, 5, 6, 0, 0, 3, 4]"
    by code_simp
  have h: "hits [4, 2] 1 (elems scatter_indices_3x1) 2 [0, 1, 2] = [0, 2]"
    by code_simp
  have ops: "isRankedTensorType (scatterResultType scatter_op_4x2)"
      "scatterData scatter_op_4x2 = ConstantResult ?dataOp"
      "scatterIndices scatter_op_4x2 = ConstantResult ?indicesOp"
      "scatterUpdates scatter_op_4x2 = ConstantResult ?updatesOp"
    by (simp_all add: scatter_op_4x2_def)
  have cnt: "count ''Scatter'' [resultType ?dataOp, resultType ?indicesOp, resultType ?updatesOp] []
      = Inr [(''Scatter'', \<lparr>invocations = 1, input_elms = 17\<rparr>)]"
    by (simp add: count_def Let_def entry_of_def getNumElements_def)
  have wf: "wf_elements (valueAttr ?dataOp)" "wf_elements (valueAttr ?indicesOp)"
      "wf_elements (valueAttr ?updatesOp)"
    and ish: "shape (valueAttr ?indicesOp) = [3] @ [int 1]"
    and k: "1 \<le> length (shape (valueAttr ?dataOp))"
    and ush: "shape (valueAttr ?updatesOp) = [3] @ drop 1 (shape (valueAttr ?dataOp))"
    by (simp_all add: scatter_data_4x2_def scatter_indices_3x1_def scatter_updates_3x2_def
        wf_elements_def size_of_def getNumElements_def)
  have range: "\<forall>i < nat (getNumElements [3]). \<forall>j < 1.
                  0 \<le> elems (valueAttr ?indicesOp) ! (i * 1 + j)
                  \<and> elems (valueAttr ?indicesOp) ! (i * 1 + j) < shape (valueAttr ?dataOp) ! j"
  proof (intro allI impI)
    fix i j :: nat
    assume "i < nat (getNumElements [3])" and "j < 1"
    then have "i < 3" and "j = 0" by (simp_all add: getNumElements_def)
    then have "i = 0 \<or> i = 1 \<or> i = 2" by arith
    with \<open>j = 0\<close> show "0 \<le> elems (valueAttr ?indicesOp) ! (i * 1 + j)
                  \<and> elems (valueAttr ?indicesOp) ! (i * 1 + j) < shape (valueAttr ?dataOp) ! j"
      by (auto simp: scatter_indices_3x1_def scatter_data_4x2_def)
  qed
  have fits: "fits_shape (shape (valueAttr ?dataOp))" "fits_shape (shape (valueAttr ?indicesOp))"
      "fits_shape (shape (valueAttr ?updatesOp))"
    by (simp_all add: scatter_data_4x2_def scatter_indices_3x1_def scatter_updates_3x2_def
        fits_shape_def)
  from scatterNd_refines_spec [OF ops cnt wf ish k ush range fits, of 7]
  have "ConstPropScatterNDPattern scatter_op_4x2 7 []
     = Inr ([(''Scatter'', \<lparr>invocations = 1, input_elms = 17\<rparr>)],
            Some \<lparr>resultType = RankedTensorType [4, 2] F32,
                  valueAttr = \<lparr>shape = [4, 2], elementType = F32,
                               elems = [0, 0, 5, 6, 0, 0, 3, 4]\<rparr>\<rparr>)"
    by (simp add: spec) (simp add: scatter_data_4x2_def)
  with spec h show ?thesis by simp
qed

subsection \<open>ReduceMean\<close>

lemma narrow_narrow: "narrow ty (narrow ty x) = narrow ty x"
  by (simp add: narrow_def)

lemma narrow_min: "narrow ty (min (narrow ty x) (narrow ty y)) = min (narrow ty x) (narrow ty y)"
  by (simp add: min_def narrow_narrow)

lemma narrow_max: "narrow ty (max (narrow ty x) (narrow ty y)) = max (narrow ty x) (narrow ty y)"
  by (simp add: max_def narrow_narrow)

lemma value_of_narrow: "value_of ty r = Inr v \<Longrightarrow> narrow ty v = v"
  by (auto simp: value_of_def narrow_narrow split: if_splits)

lemma eval_binary_int_narrow:
  "eval_binary_int ty OP (narrow ty x) (narrow ty y) = Inr v \<Longrightarrow> narrow ty v = v"
  by (cases OP) (auto simp: narrow_min narrow_max split: if_splits dest: value_of_narrow)

lemma combiner_wide:
  "elementwiseBinaryOpCombiner fo OP ty a b = Inr r \<Longrightarrow> wide_of ty r"
  by (cases "familyOf ty"; cases a; cases b)
     (auto simp: elementwiseBinaryOpCombiner_def split: sum.splits if_splits
        dest: eval_binary_int_narrow)

lemma foldM_wide:
  "foldM f a xs = Inr y \<Longrightarrow> P a \<Longrightarrow> (\<And>a b r. f a b = Inr r \<Longrightarrow> P r) \<Longrightarrow> P y"
proof (induction xs arbitrary: a)
  case Nil
  then show ?case by simp
next
  case (Cons x xs)
  from Cons.prems(1) obtain b where b: "f a x = Inr b" and rest: "foldM f b xs = Inr y"
    by (auto split: sum.splits)
  from Cons.prems(3) [OF b] have "P b" .
  from Cons.IH [OF rest this Cons.prems(3)] show ?case .
qed

lemma reduce_wide:
  assumes red: "reduce src A k (elementwiseBinaryOpCombiner fo OP ty) = Inr s"
    and typed: "list_all (wide_of ty) (elems src)"
  shows "list_all (wide_of ty) (elems s)"
proof -
  let ?g = "\<lambda>q. case filter (\<lambda>p. project (shape src) A p = q) [0..<length (elems src)] of
               [] \<Rightarrow> Inl (AssertFailed ''reduce of an empty tensor has no identity'')
             | p # ps \<Rightarrow> foldM (elementwiseBinaryOpCombiner fo OP ty) (elems src ! p)
                          (map (\<lambda>p. elems src ! p) ps)"
  let ?n = "nat (getNumElements (reduce_dims (shape src) A))"
  from red have m: "mapM ?g [0..<?n] = Inr (elems s)"
    by (auto simp: reduce_def split: sum.splits)
  have "wide_of ty (elems s ! q)" if q: "q < length (elems s)" for q
  proof -
    from mapM_length [OF m] q have qn: "q < length [0..<?n]" by simp
    from mapM_nth [OF m qn] qn have g: "?g q = Inr (elems s ! q)" by simp
    then obtain p ps where f: "filter (\<lambda>p. project (shape src) A p = q) [0..<length (elems src)] = p # ps"
      and fm: "foldM (elementwiseBinaryOpCombiner fo OP ty) (elems src ! p)
                 (map (\<lambda>p. elems src ! p) ps) = Inr (elems s ! q)"
      by (auto split: list.splits)
    have "p \<in> set (filter (\<lambda>p. project (shape src) A p = q) [0..<length (elems src)])"
      by (simp only: f list.set_intros)
    then have "p < length (elems src)" by simp
    with typed have "wide_of ty (elems src ! p)" by (simp add: list_all_length)
    from foldM_wide [OF fm, of "wide_of ty", OF this] show ?thesis
      using combiner_wide by blast
  qed
  then show ?thesis by (simp add: list_all_length)
qed

lemma mapM_map: "(\<And>x. x \<in> set xs \<Longrightarrow> f x = Inr (g x)) \<Longrightarrow> mapM f xs = Inr (map g xs)"
  by (induction xs) auto

lemma narrow_signed_iff:
  "familyOf ty = SignedInt \<Longrightarrow>
   narrow ty x = x \<longleftrightarrow> - (2 ^ (bitWidth ty - 1)) \<le> x \<and> x < 2 ^ (bitWidth ty - 1)"
  by (simp add: narrow_def signed_take_bit_int_eq_self_iff)

lemma narrow_unsigned_iff:
  "familyOf ty \<noteq> SignedInt \<Longrightarrow> narrow ty x = x \<longleftrightarrow> 0 \<le> x \<and> x < 2 ^ bitWidth ty"
  by (simp add: narrow_def take_bit_int_eq_self_iff)

lemma bitWidth_le: "bitWidth ty \<le> 64"
  by (cases ty) simp_all

lemma div_le_self_int: "0 \<le> (x :: int) \<Longrightarrow> 0 < n \<Longrightarrow> x div n \<le> x"
  using zdiv_mono2 [of x 1 n] by simp

lemma sdiv_pos_bounds:
  assumes "0 < (n :: int)"
  shows "x \<le> 0 \<Longrightarrow> x \<le> x sdiv n \<and> x sdiv n \<le> 0" and "0 \<le> x \<Longrightarrow> 0 \<le> x sdiv n \<and> x sdiv n \<le> x"
proof -
  show "x \<le> x sdiv n \<and> x sdiv n \<le> 0" if "x \<le> 0"
  proof -
    have "(- x) div n \<le> - x" using that assms by (intro div_le_self_int) auto
    moreover have "0 \<le> (- x) div n" using that assms by (simp add: pos_imp_zdiv_nonneg_iff)
    ultimately show ?thesis using that assms
      by (auto simp: signed_divide_int_def sgn_if)
  qed
  show "0 \<le> x sdiv n \<and> x sdiv n \<le> x" if "0 \<le> x"
  proof -
    have "x div n \<le> x" using that assms by (intro div_le_self_int) auto
    moreover have "0 \<le> x div n" using that assms by (simp add: pos_imp_zdiv_nonneg_iff)
    ultimately show ?thesis using that assms
      by (auto simp: signed_divide_int_def sgn_if)
  qed
qed

lemma mean_of_sum_wide:
  assumes "wide_of ty x" and "0 < n"
  shows "wide_of ty (mean_of_sum fo n x)"
proof (cases x)
  case (WideI64 i)
  with assms have f: "familyOf ty = SignedInt" and r: "narrow ty i = i" by simp_all
  from r have b: "- (2 ^ (bitWidth ty - 1)) \<le> i" "i < 2 ^ (bitWidth ty - 1)"
    by (simp_all add: narrow_signed_iff [OF f])
  from sdiv_pos_bounds [OF assms(2), of i] b
  have "- (2 ^ (bitWidth ty - 1)) \<le> i sdiv n \<and> i sdiv n < 2 ^ (bitWidth ty - 1)"
    by (cases "i \<le> 0") auto
  then show ?thesis using WideI64 f by (simp add: narrow_signed_iff [OF f])
next
  case (WideU64 u)
  with assms have f: "familyOf ty = UnsignedInt" and r: "narrow ty u = u" by simp_all
  from f have ns: "familyOf ty \<noteq> SignedInt" by simp
  from r have b: "0 \<le> u" "u < 2 ^ bitWidth ty" by (simp_all add: narrow_unsigned_iff [OF ns])
  have "u div n \<le> u" using b assms(2) by (intro div_le_self_int) auto
  moreover have "0 \<le> u div n" using b assms(2) by (simp add: pos_imp_zdiv_nonneg_iff)
  ultimately show ?thesis using WideU64 f b by (simp add: narrow_unsigned_iff [OF ns])
next
  case (WideDbl d)
  with assms show ?thesis by simp
next
  case (WideBool b)
  with assms show ?thesis by simp
qed

lemma divideBy_mean:
  assumes nb: "familyOf ty \<noteq> BoolFamily" and P: "0 < P" "P < 2 ^ 63"
  shows "\<exists>f. divideBy fo ty P = Inr f \<and> (\<forall>x. wide_of ty x \<longrightarrow> f x = Inr (mean_of_sum fo P x))"
proof -
  have tb: "take_bit 64 P = P" using P by (simp add: take_bit_int_eq_self)
  show ?thesis
  proof (cases "familyOf ty")
    case SignedInt
    have "wide_of ty x \<longrightarrow>
            (case x of
               WideI64 i \<Rightarrow>
                 if P = 0 then Inl (UndefinedBehaviour ''division by zero'')
                 else if i = - (2 ^ 63) \<and> P = - 1
                 then Inl (UndefinedBehaviour ''signed integer overflow'')
                 else Inr (WideI64 (i sdiv P))
             | _ \<Rightarrow> Inl (UndefinedBehaviour ''inactive member of a wide number''))
            = Inr (mean_of_sum fo P x)" for x :: "'a WideNum"
      using SignedInt P by (cases x) auto
    with SignedInt show ?thesis by (simp add: divideBy_def)
  next
    case UnsignedInt
    have "wide_of ty x \<longrightarrow>
            (case x of
               WideU64 u \<Rightarrow>
                 if take_bit 64 P = 0 then Inl (UndefinedBehaviour ''division by zero'')
                 else Inr (WideU64 (u div take_bit 64 P))
             | _ \<Rightarrow> Inl (UndefinedBehaviour ''inactive member of a wide number''))
            = Inr (mean_of_sum fo P x)" for x :: "'a WideNum"
      using UnsignedInt P tb by (cases x) auto
    with UnsignedInt show ?thesis by (simp add: divideBy_def)
  next
    case FloatFamily
    have "wide_of ty x \<longrightarrow>
            (case x of
               WideDbl d \<Rightarrow> Inr (WideDbl (float_divide fo d P))
             | _ \<Rightarrow> Inl (UndefinedBehaviour ''inactive member of a wide number''))
            = Inr (mean_of_sum fo P x)" for x :: "'a WideNum"
      using FloatFamily by (cases x) auto
    with FloatFamily show ?thesis by (simp add: divideBy_def)
  next
    case BoolFamily
    with nb show ?thesis by simp
  qed
qed

lemma length_unravel: "length (unravel ds p) = length ds"
  by (induction ds arbitrary: p) simp_all

lemma unravel_nth_less: "i < length ds \<Longrightarrow> 0 < ds ! i \<Longrightarrow> unravel ds p ! i < ds ! i"
proof (induction ds arbitrary: p i)
  case Nil
  then show ?case by simp
next
  case (Cons d ds)
  then show ?case by (cases i) simp_all
qed

lemma unravel_ravel:
  assumes "length t = length ds" and "\<forall>j < length t. t ! j < ds ! j"
  shows "ravel ds t < prod_list ds" and "unravel ds (ravel ds t) = t"
proof -
  from ravel_bound [of t ds] assms show lt: "ravel ds t < prod_list ds" by simp
  from prefix_block [of t ds "ravel ds t"] assms lt
  have "take (length t) (unravel ds (ravel ds t)) = t" by simp
  then show "unravel ds (ravel ds t) = t" using assms(1) by (simp add: length_unravel)
qed

lemma project_onto:
  assumes pos: "list_all (\<lambda>d. 0 < d) shp"
    and q: "q < nat (prod_list (reduce_dims shp A))"
  shows "\<exists>p < nat (prod_list shp). project shp A p = q"
proof -
  let ?n = "length shp"
  let ?dims = "map nat shp"
  let ?rd = "map nat (reduce_dims shp A)"
  let ?c = "unravel ?rd q"
  let ?p = "ravel ?dims ?c"
  have nn: "list_all (\<lambda>d. 0 \<le> d) shp" using pos by (simp add: list_all_iff less_imp_le)
  have rnn: "list_all (\<lambda>d. 0 \<le> d) (reduce_dims shp A)"
    using nn by (auto simp: list_all_iff reduce_dims_def)
  have lr: "length ?rd = ?n" by (simp add: reduce_dims_def)
  have lr': "length (reduce_dims shp A) = ?n" by (simp add: reduce_dims_def)
  have rd: "?rd ! i = (if i \<in> set A then 1 else ?dims ! i)" if "i < ?n" for i
    using that by (simp add: reduce_dims_def)
  have dpos: "0 < ?dims ! i" if "i < ?n" for i
    using that pos by (simp add: list_all_length)
  have lc: "length ?c = ?n" by (simp add: length_unravel lr')
  have c_rd: "?c ! i < ?rd ! i" if "i < ?n" for i
  proof -
    from that lr have i: "i < length ?rd" by simp
    from rd [OF that] dpos [OF that] have "0 < ?rd ! i" by (simp split: if_splits)
    from unravel_nth_less [OF i this] show ?thesis .
  qed
  have c_dims: "?c ! i < ?dims ! i" if "i < ?n" for i
    using c_rd [OF that] rd [OF that] dpos [OF that] by (auto split: if_splits)
  have c0: "?c ! i = 0" if "i < ?n" "i \<in> set A" for i
    using c_rd [OF that(1)] rd [OF that(1)] that(2) by simp
  have ur: "?p < prod_list ?dims" "unravel ?dims ?p = ?c"
    using unravel_ravel [of ?c ?dims] lc c_dims by simp_all
  have zero: "map (\<lambda>(i, c). if i \<in> set A then 0 else c) (zip [0..<?n] ?c) = ?c"
    using lc c0 by (intro nth_equalityI) auto
  have "q < prod_list ?rd" using q nat_prod_list [OF rnn] by simp
  then have "ravel ?rd ?c = q" by (simp add: ravel_unravel)
  then have "project shp A ?p = q" by (simp add: project_def ur(2) zero)
  moreover have "?p < nat (prod_list shp)" using ur(1) nat_prod_list [OF nn] by simp
  ultimately show ?thesis by blast
qed

lemma foldM_total:
  assumes "\<And>a b. P a \<Longrightarrow> P b \<Longrightarrow> \<exists>r. f a b = Inr r \<and> P r"
  shows "P a \<Longrightarrow> list_all P xs \<Longrightarrow> \<exists>y. foldM f a xs = Inr y"
proof (induction xs arbitrary: a)
  case Nil
  then show ?case by simp
next
  case (Cons x xs)
  from assms [of a x] Cons.prems obtain r where r: "f a x = Inr r" "P r" by auto
  from Cons.IH [OF r(2)] Cons.prems(2) r(1) show ?case by simp
qed

lemma mapM_total: "(\<And>x. x \<in> set xs \<Longrightarrow> \<exists>y. f x = Inr y) \<Longrightarrow> \<exists>ys. mapM f xs = Inr ys"
proof (induction xs)
  case Nil
  then show ?case by simp
next
  case (Cons x xs)
  from Cons.prems [of x] obtain y where y: "f x = Inr y" by auto
  from Cons.IH Cons.prems obtain ys where "mapM f xs = Inr ys" by auto
  with y show ?case by simp
qed

lemma reduce_total:
  assumes wf: "wf_elements src" and ne: "\<not> empty_attr src"
    and typed: "list_all P (elems src)"
    and total: "\<And>a b. P a \<Longrightarrow> P b \<Longrightarrow> \<exists>r. f a b = Inr r \<and> P r"
  shows "\<exists>s. reduce src A k f = Inr s"
proof -
  from wf have nn: "list_all (\<lambda>d. 0 \<le> d) (shape src)"
    and len: "int (length (elems src)) = prod_list (shape src)"
    by (simp_all add: wf_elements_def size_of_def getNumElements_def)
  from ne have "prod_list (shape src) \<noteq> 0" by (simp add: empty_attr_def size_of_def getNumElements_def)
  then have "\<forall>d \<in> set (shape src). d \<noteq> 0" by (auto simp: prod_list_zero_iff)
  with nn have pos: "list_all (\<lambda>d. 0 < d) (shape src)" by (auto simp: list_all_iff order_less_le)
  from len have len': "length (elems src) = nat (prod_list (shape src))" by simp
  let ?g = "\<lambda>q. case filter (\<lambda>p. project (shape src) A p = q) [0..<length (elems src)] of
               [] \<Rightarrow> Inl (AssertFailed ''reduce of an empty tensor has no identity'')
             | p # ps \<Rightarrow> foldM f (elems src ! p) (map (\<lambda>p. elems src ! p) ps)"
  let ?n = "nat (getNumElements (reduce_dims (shape src) A))"
  have "\<exists>y. ?g q = Inr y" if "q \<in> set [0..<?n]" for q
  proof -
    from that have "q < nat (prod_list (reduce_dims (shape src) A))" by (simp add: getNumElements_def)
    from project_onto [OF pos this] obtain p where "p < length (elems src)" "project (shape src) A p = q"
      using len' by auto
    then have "p \<in> set (filter (\<lambda>p. project (shape src) A p = q) [0..<length (elems src)])" by simp
    then obtain p' ps where f: "filter (\<lambda>p. project (shape src) A p = q) [0..<length (elems src)] = p' # ps"
      by (cases "filter (\<lambda>p. project (shape src) A p = q) [0..<length (elems src)]") auto
    have "set (p' # ps) \<subseteq> {0..<length (elems src)}"
      by (subst f [symmetric]) auto
    then have in_range: "p' < length (elems src)" "\<forall>j \<in> set ps. j < length (elems src)"
      by auto
    from typed have all: "\<forall>j < length (elems src). P (elems src ! j)" by (simp add: list_all_length)
    from all in_range have p': "P (elems src ! p')" by blast
    from all in_range have "\<forall>j \<in> set ps. P (elems src ! j)" by blast
    then have ps: "list_all P (map (\<lambda>p. elems src ! p) ps)" by (simp add: list_all_iff)
    from foldM_total [of P f, OF total p' ps] show ?thesis by (simp add: f)
  qed
  from mapM_total [of "[0..<?n]" ?g, OF this] obtain ys where "mapM ?g [0..<?n] = Inr ys" by blast
  then show ?thesis by (simp add: reduce_def)
qed

lemma narrow_unsigned_range:
  "familyOf ty \<noteq> SignedInt \<Longrightarrow> 0 \<le> narrow ty x \<and> narrow ty x < 2 ^ bitWidth ty"
  by (simp add: narrow_def)

lemma narrow_signed_range:
  "familyOf ty = SignedInt \<Longrightarrow>
   - (2 ^ (bitWidth ty - 1)) \<le> narrow ty x \<and> narrow ty x < 2 ^ (bitWidth ty - 1)"
  by (simp add: narrow_def signed_take_bit_int_greater_eq_minus_exp signed_take_bit_int_less_exp)

lemma add_total:
  assumes fam: "familyOf ty = FloatFamily \<or> familyOf ty = UnsignedInt
                \<or> (familyOf ty = SignedInt \<and> bitWidth ty < 32)"
    and a: "wide_of ty a" and b: "wide_of ty b"
  shows "\<exists>r. elementwiseBinaryOpCombiner fo ONNXAddOp ty a b = Inr r \<and> wide_of ty r"
proof -
  have "\<exists>r. elementwiseBinaryOpCombiner fo ONNXAddOp ty a b = Inr r"
  proof (cases "familyOf ty")
    case FloatFamily
    with a b show ?thesis
      by (cases a; cases b) (simp_all add: elementwiseBinaryOpCombiner_def is_binary_op_def)
  next
    case UnsignedInt
    then have ns: "familyOf ty \<noteq> SignedInt" by simp
    from a b UnsignedInt obtain x y where xy: "a = WideU64 x" "b = WideU64 y"
      by (cases a; cases b) simp_all
    have "\<exists>v. value_of ty (narrow ty x + narrow ty y) = Inr v"
    proof (cases "bitWidth ty < 32")
      case True
      then have "(2 :: int) ^ bitWidth ty \<le> 2 ^ 30"
        by (cases ty) simp_all
      with narrow_unsigned_range [OF ns, of x] narrow_unsigned_range [OF ns, of y] True
      show ?thesis by (simp add: value_of_def max_def)
    next
      case False
      with UnsignedInt show ?thesis by (simp add: value_of_def)
    qed
    with xy UnsignedInt show ?thesis by (auto simp: elementwiseBinaryOpCombiner_def)
  next
    case SignedInt
    with fam have w: "bitWidth ty < 32" by simp
    from a b SignedInt obtain x y where xy: "a = WideI64 x" "b = WideI64 y"
      by (cases a; cases b) simp_all
    from w SignedInt have "(2 :: int) ^ (bitWidth ty - 1) \<le> 2 ^ 30"
      by (cases ty) simp_all
    with narrow_signed_range [OF SignedInt, of x] narrow_signed_range [OF SignedInt, of y] w
    have "\<exists>v. value_of ty (narrow ty x + narrow ty y) = Inr v"
      by (simp add: value_of_def max_def SignedInt)
    with xy SignedInt show ?thesis by (auto simp: elementwiseBinaryOpCombiner_def)
  next
    case BoolFamily
    with fam show ?thesis by simp
  qed
  then show ?thesis using combiner_wide by blast
qed

text \<open>
  C1. A ReduceMean over a well-formed, non-empty constant of an element type other than
  \<open>bool\<close>, with a non-empty set of effective axes. When the ReduceSum over those axes,
  with the same keepdims, returns the sums, the fold returns: it counts the data, and
  the new constant has the shape of the sums, the element type of the data and, for
  every sum, its quotient by \<open>data.size() / sum.size()\<close>, which divides without
  remainder and is the product of the reduced extents. The quotient is the truncating
  one for the integer types, computed in \<open>int64_t\<close> or \<open>uint64_t\<close>, and it is a value
  of the element type; for a float type it is the division of \<open>double\<close>. When the
  ReduceSum fails, so does the fold. The ReduceSum returns for every float type, every
  unsigned type and the signed types narrower than \<open>int\<close>; at \<open>int32_t\<close> and
  \<open>int64_t\<close> a sum out of range is undefined behaviour.
\<close>

theorem reduce_mean_is_sum_then_divide:
  assumes wf: "wf_elements (valueAttr dataValue)"
    and nonempty: "\<not> empty_attr (valueAttr dataValue)"
    and bound: "size_of (valueAttr dataValue) < 2 ^ 63"
    and typed: "list_all (wide_of (elementType (valueAttr dataValue))) (elems (valueAttr dataValue))"
    and nb: "familyOf (elementType (valueAttr dataValue)) \<noteq> BoolFamily"
    and cnt: "count ''Reduce'' [resultType dataValue] cs = Inr cs'"
    and axes: "absolute_axes (int (length (shape (valueAttr dataValue)))) axesRange [] = Inr absoluteAxes"
    and eff: "effective_axes op (int (length (shape (valueAttr dataValue)))) absoluteAxes = A" "A \<noteq> []"
  shows "(\<forall>e. reduce (valueAttr dataValue) A (getSIntAttr op ''keepdims'' 1 \<noteq> 0)
              (elementwiseBinaryOpCombiner fo ONNXAddOp (elementType (valueAttr dataValue))) = Inl e
          \<longrightarrow> ConstPropReduceAxesRange fo ONNXReduceMeanOp op replacingType dataValue axesRange cs = Inl e)
    \<and> (\<forall>s. reduce (valueAttr dataValue) A (getSIntAttr op ''keepdims'' 1 \<noteq> 0)
              (elementwiseBinaryOpCombiner fo ONNXAddOp (elementType (valueAttr dataValue))) = Inr s
          \<longrightarrow> size_of (valueAttr dataValue) mod size_of s = 0
            \<and> size_of (valueAttr dataValue) div size_of s
                = prod_list (map (\<lambda>a. shape (valueAttr dataValue) ! a) A)
            \<and> ConstPropReduceAxesRange fo ONNXReduceMeanOp op replacingType dataValue axesRange cs
                = Inr (cs', createReplacingConstantOp replacingType
                         \<lparr>shape = shape s, elementType = elementType (valueAttr dataValue),
                          elems = map (mean_of_sum fo (size_of (valueAttr dataValue) div size_of s))
                                    (elems s)\<rparr>)
            \<and> list_all (wide_of (elementType (valueAttr dataValue)))
                 (map (mean_of_sum fo (size_of (valueAttr dataValue) div size_of s)) (elems s)))
    \<and> (familyOf (elementType (valueAttr dataValue)) \<noteq> SignedInt
          \<or> bitWidth (elementType (valueAttr dataValue)) < 32
        \<longrightarrow> (\<exists>s. reduce (valueAttr dataValue) A (getSIntAttr op ''keepdims'' 1 \<noteq> 0)
                   (elementwiseBinaryOpCombiner fo ONNXAddOp (elementType (valueAttr dataValue))) = Inr s))"
proof (intro conjI allI impI)
  let ?data = "valueAttr dataValue"
  let ?ty = "elementType ?data"
  let ?P = "prod_list (map (\<lambda>a. shape ?data ! a) A)"
  let ?red = "reduce ?data A (getSIntAttr op ''keepdims'' 1 \<noteq> 0)
                (elementwiseBinaryOpCombiner fo ONNXAddOp ?ty)"
  let ?fold = "ConstPropReduceAxesRange fo ONNXReduceMeanOp op replacingType dataValue axesRange cs"
  have A: "distinct A" "set A \<subseteq> {0..<length (shape ?data)}"
    using effective_axes_inv [OF axes, of op] eff by auto
  have ne: "size_of ?data \<noteq> 0" using nonempty by (simp add: empty_attr_def)
  have ext: "list_all (\<lambda>d. 0 \<le> d) (shape ?data)" using wf by (simp add: wf_elements_def)
  note struct = reduce_mean_structure [OF nonempty cnt axes eff, of fo replacingType]
  {
    fix e assume "?red = Inl e"
    with struct show "?fold = Inl e" by simp
  }
  {
    assume "familyOf ?ty \<noteq> SignedInt \<or> bitWidth ?ty < 32"
    with nb have fam: "familyOf ?ty = FloatFamily \<or> familyOf ?ty = UnsignedInt
                \<or> (familyOf ?ty = SignedInt \<and> bitWidth ?ty < 32)"
      by (cases "familyOf ?ty") simp_all
    show "\<exists>s. ?red = Inr s"
      by (rule reduce_total [OF wf nonempty typed]) (rule add_total [OF fam])
  }
  fix s assume red: "?red = Inr s"
  note d = mean_denominator [OF red A ne]
  show "size_of ?data mod size_of s = 0" by (rule d(2))
  show q: "size_of ?data div size_of s = ?P" by (rule d(3))
  have P: "0 < ?P" "?P < 2 ^ 63"
    using reduced_extents_bounds [OF red A ne ext] bound by auto
  from divideBy_mean [OF nb P, of fo] obtain f where f: "divideBy fo ?ty ?P = Inr f"
    and fx: "\<And>x. wide_of ?ty x \<Longrightarrow> f x = Inr (mean_of_sum fo ?P x)"
    by blast
  have sw: "list_all (wide_of ?ty) (elems s)" by (rule reduce_wide [OF red typed])
  then have "mapM f (elems s) = Inr (map (mean_of_sum fo ?P) (elems s))"
    by (intro mapM_map fx) (simp add: list_all_iff)
  then have t: "transform s ?ty f
      = Inr \<lparr>shape = shape s, elementType = ?ty, elems = map (mean_of_sum fo ?P) (elems s)\<rparr>"
    by (simp add: transform_def)
  from struct red f t
  show "?fold = Inr (cs', createReplacingConstantOp replacingType
                         \<lparr>shape = shape s, elementType = ?ty,
                          elems = map (mean_of_sum fo (size_of ?data div size_of s)) (elems s)\<rparr>)"
    by (simp add: q)
  from sw P(1) show "list_all (wide_of ?ty) (map (mean_of_sum fo (size_of ?data div size_of s)) (elems s))"
    by (simp add: q list_all_iff mean_of_sum_wide)
qed

theorem reduce_mean_is_sum_then_divide_witness:
  "ConstPropReduceAxesRange exact_floats ONNXReduceMeanOp [''keepdims'' \<mapsto> 0]
       (RankedTensorType [2] F32) reduce_data_2x3_f32 [1] []
     = Inr ([(''Reduce'', \<lparr>invocations = 1, input_elms = 6\<rparr>)],
            \<lparr>resultType = RankedTensorType [2] F32,
             valueAttr = \<lparr>shape = [2], elementType = F32, elems = [WideDbl 2, WideDbl 5]\<rparr>\<rparr>)
   \<and> ConstPropReduceAxesRange no_floats ONNXReduceMeanOp [''keepdims'' \<mapsto> 0]
       (RankedTensorType [2] UI8) reduce_data_2x3_ui8 [1] []
     = Inr ([(''Reduce'', \<lparr>invocations = 1, input_elms = 6\<rparr>)],
            \<lparr>resultType = RankedTensorType [2] UI8,
             valueAttr = \<lparr>shape = [2], elementType = UI8, elems = [WideU64 20, WideU64 50]\<rparr>\<rparr>)
   \<and> ConstPropReduceAxesRange no_floats ONNXReduceMeanOp [''keepdims'' \<mapsto> 0]
       (RankedTensorType [2] I32) reduce_data_2x3 [1] []
     = Inr ([(''Reduce'', \<lparr>invocations = 1, input_elms = 6\<rparr>)],
            \<lparr>resultType = RankedTensorType [2] I32,
             valueAttr = \<lparr>shape = [2], elementType = I32, elems = [WideI64 2, WideI64 5]\<rparr>\<rparr>)
   \<and> reduce (valueAttr reduce_data_2x3_f32) [1] False (elementwiseBinaryOpCombiner exact_floats ONNXAddOp F32)
       = Inr \<lparr>shape = [2], elementType = F32, elems = [WideDbl 6, WideDbl 15]\<rparr>
   \<and> reduce (valueAttr reduce_data_2x3_ui8) [1] False (elementwiseBinaryOpCombiner no_floats ONNXAddOp UI8)
       = Inr \<lparr>shape = [2], elementType = UI8, elems = [WideU64 60, WideU64 151]\<rparr>
   \<and> reduce (valueAttr reduce_data_2x3) [1] False (elementwiseBinaryOpCombiner no_floats ONNXAddOp I32)
       = Inr \<lparr>shape = [2], elementType = I32, elems = [WideI64 6, WideI64 15]\<rparr>"
proof -
  let ?op = "[''keepdims'' \<mapsto> (0 :: int)]"
  have kd: "(getSIntAttr ?op ''keepdims'' 1 \<noteq> 0) = False"
    by (simp add: getSIntAttr_def)
  have fd: "float_divide exact_floats x d = x / of_int d" for x d
    by (simp add: exact_floats_def)
  let ?sF32 = "\<lparr>shape = [2], elementType = F32, elems = [WideDbl 6, WideDbl 15 :: rat WideNum]\<rparr>"
  have hF32: "wf_elements (valueAttr reduce_data_2x3_f32)"
      "\<not> empty_attr (valueAttr reduce_data_2x3_f32)"
      "size_of (valueAttr reduce_data_2x3_f32) < 2 ^ 63"
      "list_all (wide_of (elementType (valueAttr reduce_data_2x3_f32))) (elems (valueAttr reduce_data_2x3_f32))"
      "familyOf (elementType (valueAttr reduce_data_2x3_f32)) \<noteq> BoolFamily"
      "count ''Reduce'' [resultType reduce_data_2x3_f32] [] = Inr [(''Reduce'', \<lparr>invocations = 1, input_elms = 6\<rparr>)]"
      "absolute_axes (int (length (shape (valueAttr reduce_data_2x3_f32)))) [1] [] = Inr [1]"
      "effective_axes ?op (int (length (shape (valueAttr reduce_data_2x3_f32)))) [1] = [1]"
      "[1 :: nat] \<noteq> []"
    by (simp_all add: reduce_data_2x3_f32_def wf_elements_def empty_attr_def size_of_def
        getNumElements_def count_ranked entry_of_def narrow_def effective_axes_def)
  have fF32: "elementType (valueAttr reduce_data_2x3_f32) = F32" "size_of (valueAttr reduce_data_2x3_f32) = 6"
    by (simp_all add: reduce_data_2x3_f32_def size_of_def getNumElements_def)
  have redF32: "reduce (valueAttr reduce_data_2x3_f32) [1] False
               (elementwiseBinaryOpCombiner exact_floats ONNXAddOp F32) = Inr ?sF32"
    by code_simp
  then have redF32': "reduce (valueAttr reduce_data_2x3_f32) [1] (getSIntAttr ?op ''keepdims'' 1 \<noteq> 0)
               (elementwiseBinaryOpCombiner exact_floats ONNXAddOp (elementType (valueAttr reduce_data_2x3_f32))) = Inr ?sF32"
    by (simp only: kd fF32)
  note tF32 = reduce_mean_is_sum_then_divide [OF hF32, of exact_floats "RankedTensorType [2] F32",
      THEN conjunct2, THEN conjunct1, rule_format, OF redF32']
  have szF32: "size_of ?sF32 = 2" by (simp add: size_of_def getNumElements_def)
  from tF32 [unfolded fF32 szF32] have runF32: "ConstPropReduceAxesRange exact_floats ONNXReduceMeanOp ?op
       (RankedTensorType [2] F32) reduce_data_2x3_f32 [1] []
     = Inr ([(''Reduce'', \<lparr>invocations = 1, input_elms = 6\<rparr>)],
            \<lparr>resultType = RankedTensorType [2] F32,
             valueAttr = \<lparr>shape = [2], elementType = F32, elems = [WideDbl 2, WideDbl 5]\<rparr>\<rparr>)"
    by (simp add: createReplacingConstantOp_def fd)
  let ?sUI8 = "\<lparr>shape = [2], elementType = UI8, elems = [WideU64 60, WideU64 151 :: unit WideNum]\<rparr>"
  have hUI8: "wf_elements (valueAttr reduce_data_2x3_ui8)"
      "\<not> empty_attr (valueAttr reduce_data_2x3_ui8)"
      "size_of (valueAttr reduce_data_2x3_ui8) < 2 ^ 63"
      "list_all (wide_of (elementType (valueAttr reduce_data_2x3_ui8))) (elems (valueAttr reduce_data_2x3_ui8))"
      "familyOf (elementType (valueAttr reduce_data_2x3_ui8)) \<noteq> BoolFamily"
      "count ''Reduce'' [resultType reduce_data_2x3_ui8] [] = Inr [(''Reduce'', \<lparr>invocations = 1, input_elms = 6\<rparr>)]"
      "absolute_axes (int (length (shape (valueAttr reduce_data_2x3_ui8)))) [1] [] = Inr [1]"
      "effective_axes ?op (int (length (shape (valueAttr reduce_data_2x3_ui8)))) [1] = [1]"
      "[1 :: nat] \<noteq> []"
    by (simp_all add: reduce_data_2x3_ui8_def wf_elements_def empty_attr_def size_of_def
        getNumElements_def count_ranked entry_of_def narrow_def effective_axes_def)
  have fUI8: "elementType (valueAttr reduce_data_2x3_ui8) = UI8" "size_of (valueAttr reduce_data_2x3_ui8) = 6"
    by (simp_all add: reduce_data_2x3_ui8_def size_of_def getNumElements_def)
  have redUI8: "reduce (valueAttr reduce_data_2x3_ui8) [1] False
               (elementwiseBinaryOpCombiner no_floats ONNXAddOp UI8) = Inr ?sUI8"
    by code_simp
  then have redUI8': "reduce (valueAttr reduce_data_2x3_ui8) [1] (getSIntAttr ?op ''keepdims'' 1 \<noteq> 0)
               (elementwiseBinaryOpCombiner no_floats ONNXAddOp (elementType (valueAttr reduce_data_2x3_ui8))) = Inr ?sUI8"
    by (simp only: kd fUI8)
  note tUI8 = reduce_mean_is_sum_then_divide [OF hUI8, of no_floats "RankedTensorType [2] UI8",
      THEN conjunct2, THEN conjunct1, rule_format, OF redUI8']
  have szUI8: "size_of ?sUI8 = 2" by (simp add: size_of_def getNumElements_def)
  from tUI8 [unfolded fUI8 szUI8] have runUI8: "ConstPropReduceAxesRange no_floats ONNXReduceMeanOp ?op
       (RankedTensorType [2] UI8) reduce_data_2x3_ui8 [1] []
     = Inr ([(''Reduce'', \<lparr>invocations = 1, input_elms = 6\<rparr>)],
            \<lparr>resultType = RankedTensorType [2] UI8,
             valueAttr = \<lparr>shape = [2], elementType = UI8, elems = [WideU64 20, WideU64 50]\<rparr>\<rparr>)"
    by (simp add: createReplacingConstantOp_def)
  let ?sI32 = "\<lparr>shape = [2], elementType = I32, elems = [WideI64 6, WideI64 15 :: unit WideNum]\<rparr>"
  have hI32: "wf_elements (valueAttr reduce_data_2x3)"
      "\<not> empty_attr (valueAttr reduce_data_2x3)"
      "size_of (valueAttr reduce_data_2x3) < 2 ^ 63"
      "list_all (wide_of (elementType (valueAttr reduce_data_2x3))) (elems (valueAttr reduce_data_2x3))"
      "familyOf (elementType (valueAttr reduce_data_2x3)) \<noteq> BoolFamily"
      "count ''Reduce'' [resultType reduce_data_2x3] [] = Inr [(''Reduce'', \<lparr>invocations = 1, input_elms = 6\<rparr>)]"
      "absolute_axes (int (length (shape (valueAttr reduce_data_2x3)))) [1] [] = Inr [1]"
      "effective_axes ?op (int (length (shape (valueAttr reduce_data_2x3)))) [1] = [1]"
      "[1 :: nat] \<noteq> []"
    by (simp_all add: reduce_data_2x3_def wf_elements_def empty_attr_def size_of_def
        getNumElements_def count_ranked entry_of_def narrow_def effective_axes_def)
  have fI32: "elementType (valueAttr reduce_data_2x3) = I32" "size_of (valueAttr reduce_data_2x3) = 6"
    by (simp_all add: reduce_data_2x3_def size_of_def getNumElements_def)
  have redI32: "reduce (valueAttr reduce_data_2x3) [1] False
               (elementwiseBinaryOpCombiner no_floats ONNXAddOp I32) = Inr ?sI32"
    by code_simp
  then have redI32': "reduce (valueAttr reduce_data_2x3) [1] (getSIntAttr ?op ''keepdims'' 1 \<noteq> 0)
               (elementwiseBinaryOpCombiner no_floats ONNXAddOp (elementType (valueAttr reduce_data_2x3))) = Inr ?sI32"
    by (simp only: kd fI32)
  note tI32 = reduce_mean_is_sum_then_divide [OF hI32, of no_floats "RankedTensorType [2] I32",
      THEN conjunct2, THEN conjunct1, rule_format, OF redI32']
  have szI32: "size_of ?sI32 = 2" by (simp add: size_of_def getNumElements_def)
  from tI32 [unfolded fI32 szI32] have runI32: "ConstPropReduceAxesRange no_floats ONNXReduceMeanOp ?op
       (RankedTensorType [2] I32) reduce_data_2x3 [1] []
     = Inr ([(''Reduce'', \<lparr>invocations = 1, input_elms = 6\<rparr>)],
            \<lparr>resultType = RankedTensorType [2] I32,
             valueAttr = \<lparr>shape = [2], elementType = I32, elems = [WideI64 2, WideI64 5]\<rparr>\<rparr>)"
    by (simp add: createReplacingConstantOp_def signed_divide_int_def)
  from runF32 runUI8 runI32 redF32 redUI8 redI32 show ?thesis by simp
qed

subsection \<open>Counters and the report\<close>

lemma add_input_elms_sum:
  "add_input_elms ts n = Inr m \<Longrightarrow> m = n + word_of_int (sum_list (map type_elements ts))"
proof (induction ts arbitrary: n)
  case Nil
  then show ?case by simp
next
  case (Cons t ts)
  then obtain shp ty where t: "t = RankedTensorType shp ty"
    and r: "add_input_elms ts (n + word_of_int (getNumElements shp)) = Inr m"
    by (cases t) (auto split: sum.splits)
  from Cons.IH [OF r] t show ?case by (simp add: add.assoc)
qed

lemma count_entry:
  assumes "count name operands cs = Inr cs'"
  shows "entry_of cs' name =
           \<lparr>invocations = invocations (entry_of cs name) + 1,
            input_elms = input_elms (entry_of cs name)
                           + word_of_int (sum_list (map type_elements operands))\<rparr>"
    and "other \<noteq> name \<Longrightarrow> entry_of cs' other = entry_of cs other"
  using assms
  by (auto simp: count_def Let_def entry_of_def update_conv' split: sum.splits
      dest: add_input_elms_sum)

lemma dump_totals_foldl:
  "foldl (\<lambda>(total_invocations, total_input_elms) entry.
              (total_invocations + invocations (snd entry),
               total_input_elms + input_elms (snd entry)))
       (a, b) m
   = (a + sum_list (map (\<lambda>entry. invocations (snd entry)) m),
      b + sum_list (map (\<lambda>entry. input_elms (snd entry)) m))"
  by (induction m arbitrary: a b) (simp_all add: add.assoc)

lemma dump_totals_sums:
  "dump_totals m = (sum_list (map (\<lambda>entry. invocations (snd entry)) m),
                    sum_list (map (\<lambda>entry. input_elms (snd entry)) m))"
  by (simp add: dump_totals_def dump_totals_foldl)

lemma dump_header:
  "dump m =
     ''constprop report (cumulative), entries: '' @ show_nat (length m)
       @ '', total invocations:'' @ show_size_t (sum_list (map (\<lambda>entry. invocations (snd entry)) m))
       @ '', total input elements:'' @ show_size_t (sum_list (map (\<lambda>entry. input_elms (snd entry)) m))
       @ [CHR 0x0A]
       @ concat (map (\<lambda>entry. ''  '' @ fst entry
                        @ '' invocations:'' @ show_size_t (invocations (snd entry))
                        @ '' input elements:'' @ show_size_t (input_elms (snd entry)) @ [CHR 0x0A])
                    m)"
  by (simp add: dump_def dump_totals_sums)

lemma dump_not_empty: "dump m \<noteq> []"
  by (simp add: dump_header)

lemma replaceWith_counters:
  "replaceWith cs1 replacingType elements = Inr (cs', c) \<Longrightarrow> cs' = cs1 \<and> resultType c = replacingType"
  by (auto simp: replaceWith_def createReplacingConstantOp_def split: sum.splits)

lemma reshape_to_result_counts:
  "reshape_to_result name elementsBuilder replacingType input cs = Inr (cs', c) \<Longrightarrow>
   count name [resultType input] cs = Inr cs' \<and> resultType c = replacingType"
  by (auto simp: reshape_to_result_def split: sum.splits dest: replaceWith_counters)

lemma counts_binary:
  "\<forall>cs' c. ConstPropElementwiseBinary fo wideBuilder OP replacingType lhsWide rhsWide cs = Inr (cs', c)
       \<longrightarrow> count ''ElementwiseBinary'' [resultType lhsWide, resultType rhsWide] cs = Inr cs'"
  by (auto simp: ConstPropElementwiseBinary_def Let_def replaceWith_def split: sum.splits if_splits option.splits mtype.splits Value.splits prod.splits)

lemma counts_unary:
  "\<forall>cs' c. ConstPropElementwiseUnary fo OP replacingType wideValue cs = Inr (cs', c)
       \<longrightarrow> count ''ElementwiseUnary'' [resultType wideValue] cs = Inr cs'"
  by (auto simp: ConstPropElementwiseUnary_def Let_def replaceWith_def split: sum.splits if_splits option.splits mtype.splits Value.splits prod.splits)

lemma counts_where:
  "\<forall>cs' c. ConstPropWhere elementsBuilder replacingType condValue lhsValue rhsValue cs = Inr (cs', c)
       \<longrightarrow> count ''Where'' [resultType condValue, resultType lhsValue, resultType rhsValue] cs = Inr cs'"
  by (auto simp: ConstPropWhere_def Let_def replaceWith_def split: sum.splits if_splits option.splits mtype.splits Value.splits prod.splits)

lemma counts_reduce:
  "\<forall>cs' c. ConstPropReduceAxesRange fo OP op replacingType dataValue axesRange cs = Inr (cs', c)
       \<longrightarrow> count ''Reduce'' [resultType dataValue] cs = Inr cs'"
  by (auto simp: ConstPropReduceAxesRange_def Let_def replaceWith_def split: sum.splits if_splits option.splits mtype.splits Value.splits prod.splits)

lemma counts_reduce_operand:
  "\<forall>cs' c. ConstPropReduce_operand fo OP op replacingType dataValue axesValue cs = Inr (cs', c)
       \<longrightarrow> count ''Reduce'' [resultType dataValue] cs = Inr cs'"
  by (auto simp: ConstPropReduce_operand_def ConstPropReduceAxesRange_def Let_def replaceWith_def split: sum.splits if_splits option.splits mtype.splits Value.splits prod.splits)

lemma counts_reduce_attribute:
  "\<forall>cs' c. ConstPropReduce_attribute fo OP op replacingType dataValue axesArray cs = Inr (cs', c)
       \<longrightarrow> count ''Reduce'' [resultType dataValue] cs = Inr cs'"
  by (auto simp: ConstPropReduce_attribute_def ConstPropReduceAxesRange_def Let_def replaceWith_def split: sum.splits if_splits option.splits mtype.splits Value.splits prod.splits)

lemma counts_transpose:
  "\<forall>cs' c. ConstPropTranspose elementsBuilder permAttr replacingType constValue cs = Inr (cs', c)
       \<longrightarrow> count ''Transpose'' [resultType constValue] cs = Inr cs'"
  by (auto simp: ConstPropTranspose_def replaceWith_def split: sum.splits if_splits option.splits mtype.splits Value.splits prod.splits)

lemma counts_unsqueeze:
  "\<forall>cs' c. ConstPropUnsqueeze elementsBuilder replacingType constValue cs = Inr (cs', c)
       \<longrightarrow> count ''Unsqueeze'' [resultType constValue] cs = Inr cs'"
  by (auto simp: ConstPropUnsqueeze_def reshape_to_result_def replaceWith_def split: sum.splits if_splits option.splits mtype.splits Value.splits prod.splits)

lemma counts_squeeze:
  "\<forall>cs' c. ConstPropSqueeze elementsBuilder replacingType constValue cs = Inr (cs', c)
       \<longrightarrow> count ''Squeeze'' [resultType constValue] cs = Inr cs'"
  by (auto simp: ConstPropSqueeze_def reshape_to_result_def replaceWith_def split: sum.splits if_splits option.splits mtype.splits Value.splits prod.splits)

lemma counts_reshape:
  "\<forall>cs' c. ConstPropReshape elementsBuilder replacingType constValue cs = Inr (cs', c)
       \<longrightarrow> count ''Reshape'' [resultType constValue] cs = Inr cs'"
  by (auto simp: ConstPropReshape_def reshape_to_result_def replaceWith_def split: sum.splits if_splits option.splits mtype.splits Value.splits prod.splits)

lemma counts_cast:
  "\<forall>cs' c. ConstPropCast elementsBuilder replacingType constValue cs = Inr (cs', c)
       \<longrightarrow> count ''Cast'' [resultType constValue] cs = Inr cs'"
  by (auto simp: ConstPropCast_def replaceWith_def split: sum.splits if_splits option.splits mtype.splits Value.splits prod.splits)

lemma counts_expand:
  "\<forall>cs' c. ConstPropExpand elementsBuilder replacingType constValue cs = Inr (cs', c)
       \<longrightarrow> count ''Expand'' [resultType constValue] cs = Inr cs'"
  by (auto simp: ConstPropExpand_def replaceWith_def split: sum.splits if_splits option.splits mtype.splits Value.splits prod.splits)

lemma counts_slice:
  "\<forall>cs' r. ConstPropSlice shapeHelper replacingType constValue uninit cs = Inr (cs', r)
       \<longrightarrow> count ''Slice'' [resultType constValue] cs = Inr cs'"
  by (auto simp: ConstPropSlice_def replaceWith_def split: sum.splits if_splits option.splits mtype.splits Value.splits prod.splits)

lemma counts_concat:
  "\<forall>cs' c. ConstPropConcat replacingType operandValues axisAttr uninit cs = Inr (cs', c)
       \<longrightarrow> count ''Concat'' (map resultType operandValues) cs = Inr cs'"
  by (auto simp: ConstPropConcat_def Let_def replaceWith_def split: sum.splits if_splits option.splits mtype.splits Value.splits prod.splits)

lemma counts_gather:
  "\<forall>cs' c. ConstPropGather replacingType constValue indicesValue axisAttr uninit cs = Inr (cs', c)
       \<longrightarrow> count ''Gather'' [resultType constValue, resultType indicesValue] cs = Inr cs'"
  by (auto simp: ConstPropGather_def Let_def replaceWith_def split: sum.splits if_splits option.splits mtype.splits Value.splits prod.splits)

lemma counts_split_some:
  "\<forall>cs' res. ConstPropSplitPatternCommon splitOp splitAttr cs = Inr (cs', Some res)
       \<longrightarrow> (\<exists>inputOp. splitInput splitOp = ConstantResult inputOp
              \<and> count ''Split'' [resultType inputOp] cs = Inr cs')"
  by (auto simp: ConstPropSplitPatternCommon_def Let_def split: sum.splits if_splits Value.splits mtype.splits)

lemma counts_split_none:
  "\<forall>cs'. ConstPropSplitPatternCommon splitOp splitAttr cs = Inr (cs', None) \<longrightarrow> cs' = cs"
  by (auto simp: ConstPropSplitPatternCommon_def Let_def split: sum.splits if_splits Value.splits mtype.splits)

lemma counts_scatter_some:
  "\<forall>cs' c. ConstPropScatterNDPattern scatterNdOp uninit cs = Inr (cs', Some c)
       \<longrightarrow> (\<exists>dataOp indicesOp updatesOp.
              scatterData scatterNdOp = ConstantResult dataOp
              \<and> scatterIndices scatterNdOp = ConstantResult indicesOp
              \<and> scatterUpdates scatterNdOp = ConstantResult updatesOp
              \<and> count ''Scatter'' [resultType dataOp, resultType indicesOp, resultType updatesOp] cs
                  = Inr cs')"
  by (auto simp: ConstPropScatterNDPattern_def split: sum.splits if_splits Value.splits)

lemma counts_scatter_none:
  "\<forall>cs'. ConstPropScatterNDPattern scatterNdOp uninit cs = Inr (cs', None) \<longrightarrow> cs' = cs"
  by (auto simp: ConstPropScatterNDPattern_def split: sum.splits if_splits Value.splits)

lemma counts_entry:
  "\<forall>cs'. count name operands cs = Inr cs'
       \<longrightarrow> entry_of cs' name =
             \<lparr>invocations = invocations (entry_of cs name) + 1,
              input_elms = input_elms (entry_of cs name)
                             + word_of_int (sum_list (map type_elements operands))\<rparr>
         \<and> (\<forall>other. other \<noteq> name \<longrightarrow> entry_of cs' other = entry_of cs other)"
  using count_entry by blast

lemma counts_slice_failure:
  "\<forall>cs'. count ''Slice'' [resultType constValue] cs = Inr cs'
       \<longrightarrow> ConstPropSlice None replacingType constValue uninit cs
             = Inr (cs', EmitError ''Failed to scan onnx.Slice parameters successfully'')"
  by (simp add: ConstPropSlice_def)

lemma report_iff:
  "\<forall>cs' failed. applyPatternsAndFoldGreedily cs = Inr (cs', failed)
       \<longrightarrow> runOnOperation report applyPatternsAndFoldGreedily cs
             = Inr \<lparr>counters = cs', passFailure = failed, outs = (if report then dump cs' else [])\<rparr>
           \<and> ((if report then dump cs' else []) \<noteq> [] \<longleftrightarrow> report)"
  by (simp add: runOnOperation_def dump_not_empty)

lemma dump_header_totals:
  "dump m =
       ''constprop report (cumulative), entries: '' @ show_nat (length m)
         @ '', total invocations:'' @ show_size_t (fst (dump_totals m))
         @ '', total input elements:'' @ show_size_t (snd (dump_totals m))
         @ [CHR 0x0A]
         @ concat (map (\<lambda>entry. ''  '' @ fst entry
                          @ '' invocations:'' @ show_size_t (invocations (snd entry))
                          @ '' input elements:'' @ show_size_t (input_elms (snd entry)) @ [CHR 0x0A])
                      m)"
  by (simp add: dump_header dump_totals_sums)

text \<open>
  C7, as the code has it. \<open>count name operands\<close> adds one invocation to the entry of
  \<open>name\<close> and the numbers of elements of the operands it is given, and leaves every other
  entry alone. A rewriter calls it once, on entry, before it evaluates anything: a fold
  that returns has counted exactly once, under its category name and with the operands
  it passes (a reduction passes the data only, not the axes operand), and so has
  \<open>ConstPropSlice\<close> when the shape helper fails and the op is left in place. The two
  patterns that match by hand (Split, ScatterND) count when they replace the op and
  leave the counters alone when they do not match. At the end of the pass the cumulative
  dump is written exactly when \<open>report\<close> is set; its header carries the sums of the
  invocations and of the input elements of all entries.
\<close>

theorem counters_and_report:
  "(\<forall>cs'. count name operands cs = Inr cs'
       \<longrightarrow> entry_of cs' name =
             \<lparr>invocations = invocations (entry_of cs name) + 1,
              input_elms = input_elms (entry_of cs name)
                             + word_of_int (sum_list (map type_elements operands))\<rparr>
         \<and> (\<forall>other. other \<noteq> name \<longrightarrow> entry_of cs' other = entry_of cs other))
   \<and> (\<forall>cs'. count ''Slice'' [resultType constValue] cs = Inr cs'
       \<longrightarrow> ConstPropSlice None replacingType constValue uninit cs
             = Inr (cs', EmitError ''Failed to scan onnx.Slice parameters successfully''))
   \<and> (\<forall>cs' failed. applyPatternsAndFoldGreedily cs = Inr (cs', failed)
       \<longrightarrow> runOnOperation report applyPatternsAndFoldGreedily cs
             = Inr \<lparr>counters = cs', passFailure = failed, outs = (if report then dump cs' else [])\<rparr>
           \<and> ((if report then dump cs' else []) \<noteq> [] \<longleftrightarrow> report))
   \<and> (\<forall>cs' c. ConstPropElementwiseBinary fo wideBuilder OP replacingType lhsWide rhsWide cs = Inr (cs', c)
       \<longrightarrow> count ''ElementwiseBinary'' [resultType lhsWide, resultType rhsWide] cs = Inr cs')
   \<and> (\<forall>cs' c. ConstPropElementwiseUnary fo OP replacingType wideValue cs = Inr (cs', c)
       \<longrightarrow> count ''ElementwiseUnary'' [resultType wideValue] cs = Inr cs')
   \<and> (\<forall>cs' c. ConstPropWhere elementsBuilder replacingType condValue lhsValue rhsValue cs = Inr (cs', c)
       \<longrightarrow> count ''Where'' [resultType condValue, resultType lhsValue, resultType rhsValue] cs = Inr cs')
   \<and> (\<forall>cs' c. ConstPropReduceAxesRange fo OP op replacingType dataValue axesRange cs = Inr (cs', c)
       \<longrightarrow> count ''Reduce'' [resultType dataValue] cs = Inr cs')
   \<and> (\<forall>cs' c. ConstPropReduce_operand fo OP op replacingType dataValue axesValue cs = Inr (cs', c)
       \<longrightarrow> count ''Reduce'' [resultType dataValue] cs = Inr cs')
   \<and> (\<forall>cs' c. ConstPropReduce_attribute fo OP op replacingType dataValue axesArray cs = Inr (cs', c)
       \<longrightarrow> count ''Reduce'' [resultType dataValue] cs = Inr cs')
   \<and> (\<forall>cs' c. ConstPropTranspose elementsBuilder permAttr replacingType constValue cs = Inr (cs', c)
       \<longrightarrow> count ''Transpose'' [resultType constValue] cs = Inr cs')
   \<and> (\<forall>cs' c. ConstPropUnsqueeze elementsBuilder replacingType constValue cs = Inr (cs', c)
       \<longrightarrow> count ''Unsqueeze'' [resultType constValue] cs = Inr cs')
   \<and> (\<forall>cs' c. ConstPropSqueeze elementsBuilder replacingType constValue cs = Inr (cs', c)
       \<longrightarrow> count ''Squeeze'' [resultType constValue] cs = Inr cs')
   \<and> (\<forall>cs' c. ConstPropReshape elementsBuilder replacingType constValue cs = Inr (cs', c)
       \<longrightarrow> count ''Reshape'' [resultType constValue] cs = Inr cs')
   \<and> (\<forall>cs' c. ConstPropCast elementsBuilder replacingType constValue cs = Inr (cs', c)
       \<longrightarrow> count ''Cast'' [resultType constValue] cs = Inr cs')
   \<and> (\<forall>cs' c. ConstPropExpand elementsBuilder replacingType constValue cs = Inr (cs', c)
       \<longrightarrow> count ''Expand'' [resultType constValue] cs = Inr cs')
   \<and> (\<forall>cs' r. ConstPropSlice shapeHelper replacingType constValue uninit cs = Inr (cs', r)
       \<longrightarrow> count ''Slice'' [resultType constValue] cs = Inr cs')
   \<and> (\<forall>cs' c. ConstPropConcat replacingType operandValues axisAttr uninit cs = Inr (cs', c)
       \<longrightarrow> count ''Concat'' (map resultType operandValues) cs = Inr cs')
   \<and> (\<forall>cs' c. ConstPropGather replacingType constValue indicesValue axisAttr uninit cs = Inr (cs', c)
       \<longrightarrow> count ''Gather'' [resultType constValue, resultType indicesValue] cs = Inr cs')
   \<and> (\<forall>cs' res. ConstPropSplitPatternCommon splitOp splitAttr cs = Inr (cs', Some res)
       \<longrightarrow> (\<exists>inputOp. splitInput splitOp = ConstantResult inputOp
              \<and> count ''Split'' [resultType inputOp] cs = Inr cs'))
   \<and> (\<forall>cs'. ConstPropSplitPatternCommon splitOp splitAttr cs = Inr (cs', None) \<longrightarrow> cs' = cs)
   \<and> (\<forall>cs' c. ConstPropScatterNDPattern scatterNdOp uninit cs = Inr (cs', Some c)
       \<longrightarrow> (\<exists>dataOp indicesOp updatesOp.
              scatterData scatterNdOp = ConstantResult dataOp
              \<and> scatterIndices scatterNdOp = ConstantResult indicesOp
              \<and> scatterUpdates scatterNdOp = ConstantResult updatesOp
              \<and> count ''Scatter'' [resultType dataOp, resultType indicesOp, resultType updatesOp] cs
                  = Inr cs'))
   \<and> (\<forall>cs'. ConstPropScatterNDPattern scatterNdOp uninit cs = Inr (cs', None) \<longrightarrow> cs' = cs)
   \<and> (dump_totals m = (sum_list (map (\<lambda>entry. invocations (snd entry)) m),
                      sum_list (map (\<lambda>entry. input_elms (snd entry)) m)))
   \<and> (dump m =
       ''constprop report (cumulative), entries: '' @ show_nat (length m)
         @ '', total invocations:'' @ show_size_t (fst (dump_totals m))
         @ '', total input elements:'' @ show_size_t (snd (dump_totals m))
         @ [CHR 0x0A]
         @ concat (map (\<lambda>entry. ''  '' @ fst entry
                          @ '' invocations:'' @ show_size_t (invocations (snd entry))
                          @ '' input elements:'' @ show_size_t (input_elms (snd entry)) @ [CHR 0x0A])
                      m))"
  by (insert counts_entry
      counts_binary
      counts_unary
      counts_where
      counts_reduce
      counts_reduce_operand
      counts_reduce_attribute
      counts_transpose
      counts_unsqueeze
      counts_squeeze
      counts_reshape
      counts_cast
      counts_expand
      counts_slice
      counts_concat
      counts_gather
      counts_split_some
      counts_split_none
      counts_scatter_some
      counts_scatter_none
      counts_slice_failure
      report_iff
      dump_totals_sums
      dump_header_totals,
      (intro conjI; assumption))

theorem counters_and_report_witness:
  "count ''Slice'' [resultType slice_input_10] [] = Inr [(''Slice'', \<lparr>invocations = 1, input_elms = 10\<rparr>)]
   \<and> ConstPropSlice None (RankedTensorType [4] I64) slice_input_10 0 []
       = Inr ([(''Slice'', \<lparr>invocations = 1, input_elms = 10\<rparr>)],
              EmitError ''Failed to scan onnx.Slice parameters successfully'')
   \<and> entry_of [(''Slice'', \<lparr>invocations = 1, input_elms = 10\<rparr>)] ''Slice''
       = \<lparr>invocations = 1, input_elms = 10\<rparr>
   \<and> runOnOperation True (\<lambda>cs. Inr (cs, False)) [(''Slice'', \<lparr>invocations = 1, input_elms = 10\<rparr>)]
       = Inr \<lparr>counters = [(''Slice'', \<lparr>invocations = 1, input_elms = 10\<rparr>)], passFailure = False,
              outs = dump [(''Slice'', \<lparr>invocations = 1, input_elms = 10\<rparr>)]\<rparr>
   \<and> runOnOperation False (\<lambda>cs. Inr (cs, False)) [(''Slice'', \<lparr>invocations = 1, input_elms = 10\<rparr>)]
       = Inr \<lparr>counters = [(''Slice'', \<lparr>invocations = 1, input_elms = 10\<rparr>)], passFailure = False,
              outs = []\<rparr>"
proof -
  let ?cs = "[(''Slice'', \<lparr>invocations = 1, input_elms = 10\<rparr>)]"
  have cnt: "count ''Slice'' [resultType slice_input_10] [] = Inr ?cs"
    by (simp add: slice_input_10_def count_ranked entry_of_def getNumElements_def)
  note t = counters_and_report [where name = "''Slice''" and operands = "[resultType slice_input_10]"
      and cs = "[]" and constValue = slice_input_10 and replacingType = "RankedTensorType [4] I64"
      and uninit = 0]
  from t [THEN conjunct2, THEN conjunct1] cnt have fail: "ConstPropSlice None (RankedTensorType [4] I64) slice_input_10 0 []
       = Inr (?cs, EmitError ''Failed to scan onnx.Slice parameters successfully'')"
    by simp
  from t [THEN conjunct1] cnt have "entry_of ?cs ''Slice'' =
             \<lparr>invocations = invocations (entry_of [] ''Slice'') + 1,
              input_elms = input_elms (entry_of [] ''Slice'')
                             + word_of_int (sum_list (map type_elements [resultType slice_input_10]))\<rparr>"
    by simp
  then have entry: "entry_of ?cs ''Slice'' = \<lparr>invocations = 1, input_elms = 10\<rparr>"
    by (simp add: entry_of_def)
  have drv: "(\<lambda>cs. Inr (cs, False)) ?cs = (Inr (?cs, False) :: abort + counter_map \<times> bool)"
    by simp
  from counters_and_report [where cs = ?cs and applyPatternsAndFoldGreedily = "\<lambda>cs. Inr (cs, False)"
      and report = True, THEN conjunct2, THEN conjunct2, THEN conjunct1, rule_format, OF refl]
  have on: "runOnOperation True (\<lambda>cs. Inr (cs, False)) ?cs
       = Inr \<lparr>counters = ?cs, passFailure = False, outs = (if True then dump ?cs else [])\<rparr>"
    by simp
  from counters_and_report [where cs = ?cs and applyPatternsAndFoldGreedily = "\<lambda>cs. Inr (cs, False)"
      and report = False, THEN conjunct2, THEN conjunct2, THEN conjunct1, rule_format, OF refl]
  have off: "runOnOperation False (\<lambda>cs. Inr (cs, False)) ?cs
       = Inr \<lparr>counters = ?cs, passFailure = False, outs = (if False then dump ?cs else [])\<rparr>"
    by simp
  from cnt fail entry on off show ?thesis by simp
qed

text \<open>
  C7 as stated fails on both sides of "on every successful fold, and only then, ... by
  the total number of elements of the fold's constant operands". A Slice whose shape
  helper fails is counted (one invocation, the 10 elements of its input) although
  nothing is folded; and a ReduceSum of a 2 x 3 constant along a constant axes operand
  of one element adds 6 input elements, not 7.
\<close>

theorem counters_counterexample:
  "ConstPropSlice None (RankedTensorType [4] I64)
     \<lparr>resultType = RankedTensorType [10] I64,
      valueAttr = \<lparr>shape = [10], elementType = I64, elems = [0, 1, 2, 3, 4, 5, 6, 7, 8, 9 :: int]\<rparr>\<rparr>
     0 []
     = Inr ([(''Slice'', \<lparr>invocations = 1, input_elms = 10\<rparr>)],
            EmitError ''Failed to scan onnx.Slice parameters successfully'')
   \<and> ConstPropReduce_operand no_floats ONNXAddOp [''keepdims'' \<mapsto> 0] (RankedTensorType [2] I32)
       \<lparr>resultType = RankedTensorType [2, 3] I32,
        valueAttr = \<lparr>shape = [2, 3], elementType = I32,
                     elems = [WideI64 1, WideI64 2, WideI64 3, WideI64 4, WideI64 5, WideI64 6]\<rparr>\<rparr>
       (ConstantResult \<lparr>resultType = RankedTensorType [1] I64,
                         valueAttr = \<lparr>shape = [1], elementType = I64, elems = [1]\<rparr>\<rparr>) []
     = Inr ([(''Reduce'', \<lparr>invocations = 1, input_elms = 6\<rparr>)],
            \<lparr>resultType = RankedTensorType [2] I32,
             valueAttr = \<lparr>shape = [2], elementType = I32, elems = [WideI64 6, WideI64 15]\<rparr>\<rparr>)"
  by code_simp

subsection \<open>The type of the new constant\<close>

lemma type_binary:
  "ConstPropElementwiseBinary fo wideBuilder OP replacingType lhsWide rhsWide cs = Inr (cs', c) \<Longrightarrow> resultType c = replacingType"
  by (auto simp: ConstPropElementwiseBinary_def Let_def replaceWith_def createReplacingConstantOp_def
      split: sum.splits if_splits option.splits mtype.splits Value.splits prod.splits)

lemma type_unary:
  "ConstPropElementwiseUnary fo OP replacingType wideValue cs = Inr (cs', c) \<Longrightarrow> resultType c = replacingType"
  by (auto simp: ConstPropElementwiseUnary_def Let_def replaceWith_def createReplacingConstantOp_def
      split: sum.splits if_splits option.splits mtype.splits Value.splits prod.splits)

lemma type_where:
  "ConstPropWhere elementsBuilder replacingType condValue lhsValue rhsValue cs = Inr (cs', c) \<Longrightarrow> resultType c = replacingType"
  by (auto simp: ConstPropWhere_def Let_def replaceWith_def createReplacingConstantOp_def
      split: sum.splits if_splits option.splits mtype.splits Value.splits prod.splits)

lemma type_reduce:
  "ConstPropReduceAxesRange fo OP op replacingType dataValue axesRange cs = Inr (cs', c) \<Longrightarrow> resultType c = replacingType"
  by (auto simp: ConstPropReduceAxesRange_def Let_def replaceWith_def createReplacingConstantOp_def
      split: sum.splits if_splits option.splits mtype.splits Value.splits prod.splits)

lemma type_transpose:
  "ConstPropTranspose elementsBuilder permAttr replacingType constValue cs = Inr (cs', c) \<Longrightarrow> resultType c = replacingType"
  by (auto simp: ConstPropTranspose_def replaceWith_def createReplacingConstantOp_def
      split: sum.splits if_splits option.splits mtype.splits Value.splits prod.splits)

lemma type_reshape:
  "reshape_to_result name elementsBuilder replacingType constValue cs = Inr (cs', c) \<Longrightarrow> resultType c = replacingType"
  by (auto simp: reshape_to_result_def replaceWith_def createReplacingConstantOp_def
      split: sum.splits if_splits option.splits mtype.splits Value.splits prod.splits)

lemma type_cast:
  "ConstPropCast elementsBuilder replacingType constValue cs = Inr (cs', c) \<Longrightarrow> resultType c = replacingType"
  by (auto simp: ConstPropCast_def replaceWith_def createReplacingConstantOp_def
      split: sum.splits if_splits option.splits mtype.splits Value.splits prod.splits)

lemma type_expand:
  "ConstPropExpand elementsBuilder replacingType constValue cs = Inr (cs', c) \<Longrightarrow> resultType c = replacingType"
  by (auto simp: ConstPropExpand_def replaceWith_def createReplacingConstantOp_def
      split: sum.splits if_splits option.splits mtype.splits Value.splits prod.splits)

lemma type_slice:
  "ConstPropSlice shapeHelper replacingType constValue uninit cs = Inr (cs', Sliced c) \<Longrightarrow> resultType c = replacingType"
  by (auto simp: ConstPropSlice_def replaceWith_def createReplacingConstantOp_def
      split: sum.splits if_splits option.splits mtype.splits Value.splits prod.splits)

lemma type_concat:
  "ConstPropConcat replacingType operandValues axisAttr uninit cs = Inr (cs', c) \<Longrightarrow> resultType c = replacingType"
  by (auto simp: ConstPropConcat_def Let_def replaceWith_def createReplacingConstantOp_def
      split: sum.splits if_splits option.splits mtype.splits Value.splits prod.splits)

lemma type_gather:
  "ConstPropGather replacingType constValue indicesValue axisAttr uninit cs = Inr (cs', c) \<Longrightarrow> resultType c = replacingType"
  by (auto simp: ConstPropGather_def Let_def replaceWith_def createReplacingConstantOp_def
      split: sum.splits if_splits option.splits mtype.splits Value.splits prod.splits)

lemma type_split:
  assumes "ConstPropSplitPatternCommon splitOp splitAttr cs = Inr (cs', Some res)"
  shows "map resultType res = splitResults splitOp"
proof -
  from assms obtain resElements where
    "res = map (\<lambda>i. createReplacingConstantOp (splitResults splitOp ! i) (resElements ! i))
             [0..<length (splitResults splitOp)]"
    by (auto simp: ConstPropSplitPatternCommon_def Let_def
        split: sum.splits if_splits Value.splits mtype.splits)
  then show ?thesis
    by (simp add: createReplacingConstantOp_def o_def map_nth)
qed

lemma scatterNd_result_type:
  "ConstPropScatterNDPattern scatterNdOp uninit cs = Inr (cs', Some c) \<Longrightarrow>
   typeOf (scatterData scatterNdOp) = resultType c"
  by (auto simp: ConstPropScatterNDPattern_def createReplacingConstantOp_def
      split: sum.splits if_splits Value.splits)

lemma type_reduce_operand:
  "ConstPropReduce_operand fo OP op replacingType dataValue axesValue cs = Inr (cs', c) \<Longrightarrow> resultType c = replacingType"
  by (auto simp: ConstPropReduce_operand_def split: Value.splits if_splits dest: type_reduce)

lemma type_reduce_attribute:
  "ConstPropReduce_attribute fo OP op replacingType dataValue axesArray cs = Inr (cs', c) \<Longrightarrow> resultType c = replacingType"
  by (auto simp: ConstPropReduce_attribute_def split: option.splits dest: type_reduce)

text \<open>
  C6. Every rewriter that a generated pattern calls, and Split for each of its results,
  hands the value that is replaced to \<open>createReplacingConstantOp\<close>: the new constant has
  the declared type of that value, its shape and its element type. Slice, Concat and
  Gather also build their elements with that type. ConstPropScatterNDPattern hands over
  the data operand, so the new constant has the type of the data; this is the declared
  type of the result whenever that one is the type shape inference assigns to a
  ScatterND, the type of its data.
\<close>

theorem new_constant_has_declared_type:
  "(\<forall>cs' c. ConstPropScatterNDPattern scatterNdOp uninit cs = Inr (cs', Some c)
       \<longrightarrow> resultType c = typeOf (scatterData scatterNdOp)
         \<and> (scatterResultType scatterNdOp = typeOf (scatterData scatterNdOp)
              \<longrightarrow> resultType c = scatterResultType scatterNdOp))
   \<and> (\<forall>cs' c. ConstPropElementwiseBinary fo wideBuilder OP replacingType lhsWide rhsWide cs = Inr (cs', c)
       \<longrightarrow> resultType c = replacingType)
   \<and> (\<forall>cs' c. ConstPropElementwiseUnary fo OP replacingType wideValue cs = Inr (cs', c)
       \<longrightarrow> resultType c = replacingType)
   \<and> (\<forall>cs' c. ConstPropWhere elementsBuilder replacingType condValue lhsValue rhsValue cs = Inr (cs', c)
       \<longrightarrow> resultType c = replacingType)
   \<and> (\<forall>cs' c. ConstPropReduceAxesRange fo OP op replacingType dataValue axesRange cs = Inr (cs', c)
       \<longrightarrow> resultType c = replacingType)
   \<and> (\<forall>cs' c. ConstPropReduce_operand fo OP op replacingType dataValue axesValue cs = Inr (cs', c)
       \<longrightarrow> resultType c = replacingType)
   \<and> (\<forall>cs' c. ConstPropReduce_attribute fo OP op replacingType dataValue axesArray cs = Inr (cs', c)
       \<longrightarrow> resultType c = replacingType)
   \<and> (\<forall>cs' c. ConstPropTranspose elementsBuilder permAttr replacingType constValue cs = Inr (cs', c)
       \<longrightarrow> resultType c = replacingType)
   \<and> (\<forall>cs' c. ConstPropUnsqueeze elementsBuilder replacingType constValue cs = Inr (cs', c)
       \<longrightarrow> resultType c = replacingType)
   \<and> (\<forall>cs' c. ConstPropSqueeze elementsBuilder replacingType constValue cs = Inr (cs', c)
       \<longrightarrow> resultType c = replacingType)
   \<and> (\<forall>cs' c. ConstPropReshape elementsBuilder replacingType constValue cs = Inr (cs', c)
       \<longrightarrow> resultType c = replacingType)
   \<and> (\<forall>cs' c. ConstPropCast elementsBuilder replacingType constValue cs = Inr (cs', c)
       \<longrightarrow> resultType c = replacingType)
   \<and> (\<forall>cs' c. ConstPropExpand elementsBuilder replacingType constValue cs = Inr (cs', c)
       \<longrightarrow> resultType c = replacingType)
   \<and> (\<forall>cs' c. ConstPropSlice shapeHelper replacingType constValue uninit cs = Inr (cs', Sliced c)
       \<longrightarrow> resultType c = replacingType \<and> getType (valueAttr c) = replacingType)
   \<and> (\<forall>cs' c. ConstPropConcat replacingType operandValues axisAttr uninit cs = Inr (cs', c)
       \<longrightarrow> resultType c = replacingType \<and> getType (valueAttr c) = replacingType)
   \<and> (\<forall>cs' c. ConstPropGather replacingType constValue indicesValue axisAttr uninit cs = Inr (cs', c)
       \<longrightarrow> resultType c = replacingType \<and> getType (valueAttr c) = replacingType)
   \<and> (\<forall>cs' res. ConstPropSplitPatternCommon splitOp splitAttr cs = Inr (cs', Some res)
       \<longrightarrow> map resultType res = splitResults splitOp)"
proof -
  have fw: "\<And>t u f (e :: 'x ElementsAttr). fromWideNums t u f = Inr e \<Longrightarrow> getType e = t"
    by (auto simp: fromWideNums_def getType_def split: mtype.splits if_splits sum.splits)
  have slice: "\<forall>cs' c. ConstPropSlice shapeHelper replacingType constValue uninit cs = Inr (cs', Sliced c)
       \<longrightarrow> resultType c = replacingType \<and> getType (valueAttr c) = replacingType"
    by (auto simp: ConstPropSlice_def createReplacingConstantOp_def
        split: sum.splits option.splits prod.splits dest: fw)
  have concat: "\<forall>cs' c. ConstPropConcat replacingType operandValues axisAttr uninit cs = Inr (cs', c)
       \<longrightarrow> resultType c = replacingType \<and> getType (valueAttr c) = replacingType"
    by (auto simp: ConstPropConcat_def Let_def replaceWith_def createReplacingConstantOp_def
        split: sum.splits dest: fw)
  have gather: "\<forall>cs' c. ConstPropGather replacingType constValue indicesValue axisAttr uninit cs = Inr (cs', c)
       \<longrightarrow> resultType c = replacingType \<and> getType (valueAttr c) = replacingType"
    by (auto simp: ConstPropGather_def Let_def createReplacingConstantOp_def
        split: sum.splits mtype.splits dest: fw)
  have scatter: "\<forall>cs' c. ConstPropScatterNDPattern scatterNdOp uninit cs = Inr (cs', Some c)
       \<longrightarrow> resultType c = typeOf (scatterData scatterNdOp)
         \<and> (scatterResultType scatterNdOp = typeOf (scatterData scatterNdOp)
              \<longrightarrow> resultType c = scatterResultType scatterNdOp)"
    using scatterNd_result_type [of scatterNdOp uninit cs] by auto
  have binary: "\<forall>cs' c. ConstPropElementwiseBinary fo wideBuilder OP replacingType lhsWide rhsWide cs = Inr (cs', c)
       \<longrightarrow> resultType c = replacingType"
    using type_binary by blast
  have unary: "\<forall>cs' c. ConstPropElementwiseUnary fo OP replacingType wideValue cs = Inr (cs', c)
       \<longrightarrow> resultType c = replacingType"
    using type_unary by blast
  have whr: "\<forall>cs' c. ConstPropWhere elementsBuilder replacingType condValue lhsValue rhsValue cs = Inr (cs', c)
       \<longrightarrow> resultType c = replacingType"
    using type_where by blast
  have red: "\<forall>cs' c. ConstPropReduceAxesRange fo OP op replacingType dataValue axesRange cs = Inr (cs', c)
       \<longrightarrow> resultType c = replacingType"
    using type_reduce by blast
  have red_operand: "\<forall>cs' c. ConstPropReduce_operand fo OP op replacingType dataValue axesValue cs = Inr (cs', c)
       \<longrightarrow> resultType c = replacingType"
    using type_reduce_operand by blast
  have red_attribute: "\<forall>cs' c. ConstPropReduce_attribute fo OP op replacingType dataValue axesArray cs = Inr (cs', c)
       \<longrightarrow> resultType c = replacingType"
    using type_reduce_attribute by blast
  have transp: "\<forall>cs' c. ConstPropTranspose elementsBuilder permAttr replacingType constValue cs = Inr (cs', c)
       \<longrightarrow> resultType c = replacingType"
    using type_transpose by blast
  have unsq: "\<forall>cs' c. ConstPropUnsqueeze elementsBuilder replacingType constValue cs = Inr (cs', c)
       \<longrightarrow> resultType c = replacingType"
    unfolding ConstPropUnsqueeze_def using type_reshape by blast
  have sq: "\<forall>cs' c. ConstPropSqueeze elementsBuilder replacingType constValue cs = Inr (cs', c)
       \<longrightarrow> resultType c = replacingType"
    unfolding ConstPropSqueeze_def using type_reshape by blast
  have resh: "\<forall>cs' c. ConstPropReshape elementsBuilder replacingType constValue cs = Inr (cs', c)
       \<longrightarrow> resultType c = replacingType"
    unfolding ConstPropReshape_def using type_reshape by blast
  have cast: "\<forall>cs' c. ConstPropCast elementsBuilder replacingType constValue cs = Inr (cs', c)
       \<longrightarrow> resultType c = replacingType"
    using type_cast by blast
  have expand: "\<forall>cs' c. ConstPropExpand elementsBuilder replacingType constValue cs = Inr (cs', c)
       \<longrightarrow> resultType c = replacingType"
    using type_expand by blast
  have split: "\<forall>cs' res. ConstPropSplitPatternCommon splitOp splitAttr cs = Inr (cs', Some res)
       \<longrightarrow> map resultType res = splitResults splitOp"
    using type_split by blast
  show ?thesis
    by (insert scatter binary unary whr red red_operand red_attribute transp unsq sq resh cast
        expand slice concat gather split, (intro conjI; assumption))
qed

theorem new_constant_has_declared_type_witness:
  "ConstPropScatterNDPattern scatter_op_4x2 0 []
     = Inr ([(''Scatter'', \<lparr>invocations = 1, input_elms = 17\<rparr>)],
            Some \<lparr>resultType = RankedTensorType [4, 2] F32,
                  valueAttr = \<lparr>shape = [4, 2], elementType = F32,
                               elems = [0, 0, 5, 6, 0, 0, 3, 4]\<rparr>\<rparr>)
   \<and> scatterResultType scatter_op_4x2 = typeOf (scatterData scatter_op_4x2)
   \<and> resultType \<lparr>resultType = RankedTensorType [4, 2] F32,
                  valueAttr = \<lparr>shape = [4, 2], elementType = F32,
                               elems = [0, 0, 5, 6, 0, 0, 3, 4 :: int]\<rparr>\<rparr>
       = scatterResultType scatter_op_4x2"
proof -
  let ?c = "\<lparr>resultType = RankedTensorType [4, 2] F32,
                  valueAttr = \<lparr>shape = [4, 2], elementType = F32,
                               elems = [0, 0, 5, 6, 0, 0, 3, 4 :: int]\<rparr>\<rparr>"
  have run: "ConstPropScatterNDPattern scatter_op_4x2 0 []
     = Inr ([(''Scatter'', \<lparr>invocations = 1, input_elms = 17\<rparr>)], Some ?c)"
    by code_simp
  have same: "scatterResultType scatter_op_4x2 = typeOf (scatterData scatter_op_4x2)"
    by (simp add: scatter_op_4x2_def)
  have "\<forall>cs' c. ConstPropScatterNDPattern scatter_op_4x2 0 [] = Inr (cs', Some c)
       \<longrightarrow> resultType c = typeOf (scatterData scatter_op_4x2)
         \<and> (scatterResultType scatter_op_4x2 = typeOf (scatterData scatter_op_4x2)
              \<longrightarrow> resultType c = scatterResultType scatter_op_4x2)"
    by (rule new_constant_has_declared_type [where scatterNdOp = scatter_op_4x2 and uninit = 0
          and cs = "[]", THEN conjunct1])
  with run same have "resultType ?c = scatterResultType scatter_op_4x2" by blast
  with run same show ?thesis by blast
qed

end
